theory Spec2Isabelle
  imports Main "HOL-Library.Word"
begin

section \<open>Secure Key Services: the processing engine of \<^verbatim>\<open>processing.c\<close>\<close>

text \<open>
  The development embeds the cipher and sign/verify entry points of
  \<^verbatim>\<open>ta_services/secure_key_services/src/processing.c\<close>, the key loader
  \<^verbatim>\<open>load_key\<close>, the operation allocator \<^verbatim>\<open>tee_operarion_params\<close> and the
  inline accessors of \<^verbatim>\<open>attributes.h\<close>.

  Conventions of the embedding:
  \<^item> \<^verbatim>\<open>uint32_t\<close> return codes are the datatype \<open>sks_rv\<close>; the C test \<^verbatim>\<open>if (rv)\<close> is
    \<open>rv \<noteq> SKS_OK\<close> (\<^verbatim>\<open>SKS_OK\<close> is the zero code).
  \<^item> \<^verbatim>\<open>TEE_Result\<close> stays a 32-bit word; \<^verbatim>\<open>if (res)\<close> is \<open>res \<noteq> 0\<close>.
  \<^item> identifiers (\<^verbatim>\<open>SKS_CKM_*\<close>, \<^verbatim>\<open>SKS_CKK_*\<close>, \<^verbatim>\<open>SKS_CKO_*\<close>) are datatypes, one per
    name space, each with its own copy of \<^verbatim>\<open>SKS_UNDEFINED_ID\<close>: their numeric values
    live in a header that is not among the sources, and the code only ever compares
    identifiers of one name space.
  \<^item> a pointer that may be \<^verbatim>\<open>NULL\<close> is an \<open>option\<close>; a handle that may be
    \<^verbatim>\<open>TEE_HANDLE_NULL\<close> is an \<open>option\<close> too.
  \<^item> \<^verbatim>\<open>TEE_Panic\<close> is the outcome \<open>Panic\<close>; a dereference of a \<^verbatim>\<open>NULL\<close> session is the
    outcome \<open>NullDeref\<close>.
  \<^item> everything the engine calls but that is not among the sources (the provider, the
    serial argument reader, the policy gate, the AE helpers) is a field of the
    environment record \<open>sks_env\<close>: theorems hold for every environment.
\<close>

subsection \<open>Codes and identifiers\<close>

type_synonym u8 = "8 word"
type_synonym u32 = "32 word"
type_synonym tee_handle = nat

datatype sks_rv =
    SKS_OK
  | SKS_ERROR
  | SKS_MEMORY
  | SKS_BAD_PARAM
  | SKS_SHORT_BUFFER
  | SKS_FAILED
  | SKS_NOT_FOUND
  | SKS_CKR_SESSION_HANDLE_INVALID
  | SKS_CKR_KEY_HANDLE_INVALID
  | SKS_CKR_OPERATION_ACTIVE
  | SKS_CKR_OPERATION_NOT_INITIALIZED
  | SKS_CKR_MECHANISM_INVALID
  | SKS_CKR_MECHANISM_PARAM_INVALID
  | SKS_CKR_ATTRIBUTE_TYPE_INVALID
  | SKS_CKR_ATTRIBUTE_VALUE_INVALID
  | SKS_CKR_TEMPLATE_INCONSISTENT
  | SKS_CKR_KEY_TYPE_INCONSISTENT
  | SKS_CKR_KEY_FUNCTION_NOT_PERMITTED
  | SKS_CKR_USER_NOT_LOGGED_IN
  | SKS_CKR_SIGNATURE_INVALID

datatype sks_mechanism =
    SKS_CKM_AES_ECB
  | SKS_CKM_AES_CBC
  | SKS_CKM_AES_CBC_PAD
  | SKS_CKM_AES_CTS
  | SKS_CKM_AES_CTR
  | SKS_CKM_AES_GCM
  | SKS_CKM_AES_CCM
  | SKS_CKM_AES_CMAC
  | SKS_CKM_AES_CMAC_GENERAL
  | SKS_CKM_AES_XCBC_MAC
  | SKS_CKM_MD5_HMAC
  | SKS_CKM_SHA_1_HMAC
  | SKS_CKM_SHA224_HMAC
  | SKS_CKM_SHA256_HMAC
  | SKS_CKM_SHA384_HMAC
  | SKS_CKM_SHA512_HMAC
  | SKS_CKM_GENERIC_SECRET_KEY_GEN
  | SKS_CKM_AES_KEY_GEN
  | SKS_PROCESSING_IMPORT
  | SKS_CKM_OTHER u32
  | SKS_UNDEFINED_ID

datatype sks_key_type =
    SKS_CKK_AES
  | SKS_CKK_GENERIC_SECRET
  | SKS_CKK_MD5_HMAC
  | SKS_CKK_SHA_1_HMAC
  | SKS_CKK_SHA224_HMAC
  | SKS_CKK_SHA256_HMAC
  | SKS_CKK_SHA384_HMAC
  | SKS_CKK_SHA512_HMAC
  | SKS_CKK_OTHER u32
  | SKS_CKK_UNDEFINED_ID

datatype sks_object_class =
    SKS_CKO_SECRET_KEY
  | SKS_CKO_OTHER u32
  | SKS_CKO_UNDEFINED_ID

datatype sks_function =
    SKS_FUNCTION_ENCRYPT
  | SKS_FUNCTION_DECRYPT
  | SKS_FUNCTION_SIGN
  | SKS_FUNCTION_VERIFY
  | SKS_FUNCTION_DERIVE
  | SKS_FUNCTION_WRAP
  | SKS_FUNCTION_UNWRAP
  | SKS_FUNCTION_IMPORT
  | SKS_FUNCTION_GENERATE
  | SKS_FUNCTION_COPY

datatype tee_alg =
    TEE_ALG_AES_ECB_NOPAD
  | TEE_ALG_AES_CBC_NOPAD
  | TEE_ALG_AES_CTR
  | TEE_ALG_AES_CTS
  | TEE_ALG_AES_CCM
  | TEE_ALG_AES_GCM
  | TEE_ALG_AES_CMAC
  | TEE_ALG_AES_CBC_MAC_NOPAD
  | TEE_ALG_HMAC_MD5
  | TEE_ALG_HMAC_SHA1
  | TEE_ALG_HMAC_SHA224
  | TEE_ALG_HMAC_SHA256
  | TEE_ALG_HMAC_SHA384
  | TEE_ALG_HMAC_SHA512

datatype tee_mode = TEE_MODE_ENCRYPT | TEE_MODE_DECRYPT | TEE_MODE_MAC

datatype tee_object_type =
    TEE_TYPE_AES
  | TEE_TYPE_GENERIC_SECRET
  | TEE_TYPE_HMAC_MD5
  | TEE_TYPE_HMAC_SHA1
  | TEE_TYPE_HMAC_SHA224
  | TEE_TYPE_HMAC_SHA256
  | TEE_TYPE_HMAC_SHA384
  | TEE_TYPE_HMAC_SHA512

datatype tee_attr_id = TEE_ATTR_SECRET_VALUE

text \<open>
  What running a source function gives: it returns, it aborts the trusted application
  through \<^verbatim>\<open>TEE_Panic\<close>, or it dereferences a \<^verbatim>\<open>NULL\<close> session pointer.
\<close>

datatype 'a outcome = Returns 'a | Panic | NullDeref

subsection \<open>Data: parameters, attribute blobs, objects, sessions\<close>

text \<open>A memory reference parameter (\<^verbatim>\<open>TEE_Param.memref\<close>): the bytes behind the pointer
  and the size field, which the entry points overwrite with the reported size.\<close>

record tee_param =
  memref_buffer :: "u8 list"
  memref_size :: u32

text \<open>\<^verbatim>\<open>struct sks_attribute_head\<close>: one serialized attribute, here the mechanism
  parameters \<^verbatim>\<open>{id, size, data}\<close>.\<close>

record sks_attribute_head =
  attr_id :: sks_mechanism
  attr_size :: u32
  attr_data :: "u8 list"

text \<open>
  Modelled from the spec: the attribute blob, whose code (\<^verbatim>\<open>attributes.c\<close>) and layout
  (\<^verbatim>\<open>struct sks_attrs_head\<close>) are not among the sources. The blob is kept as what a
  lookup finds in it: the first \<^verbatim>\<open>CLASS\<close>, \<^verbatim>\<open>KEY_TYPE\<close> and \<^verbatim>\<open>VALUE\<close> entries (absent
  when the blob has none) and the two words of the boolean bitfield of the header.
\<close>

record sks_attrs_head =
  boolpropl :: u32
  boolproph :: u32
  cka_class :: "sks_object_class option"
  cka_key_type :: "sks_key_type option"
  cka_value :: "u8 list option"

text \<open>\<^verbatim>\<open>struct sks_object\<close> of \<^verbatim>\<open>object.h\<close> (the list link is left out).\<close>

record sks_object =
  attributes :: sks_attrs_head
  key_handle :: "tee_handle option"
  uuid :: "u8 list option"
  attribs_hdl :: "tee_handle option"

datatype pkcs11_session_processing =
    PKCS11_SESSION_READY
  | PKCS11_SESSION_ENCRYPTING
  | PKCS11_SESSION_DECRYPTING
  | PKCS11_SESSION_DIGESTING
  | PKCS11_SESSION_SIGNING
  | PKCS11_SESSION_VERIFYING

text \<open>
  Modelled from the spec: \<^verbatim>\<open>struct pkcs11_session\<close>, declared in a header that is not
  among the sources. Per session: the processing state, the active mechanism id (or
  \<^verbatim>\<open>SKS_UNDEFINED_ID\<close>), the provider operation handle (or \<^verbatim>\<open>TEE_HANDLE_NULL\<close>), the
  mechanism context holding the AE scratch, and the objects its handles resolve to.
\<close>

record pkcs11_session =
  processing :: pkcs11_session_processing
  proc_id :: sks_mechanism
  tee_op_handle :: "tee_handle option"
  proc_params :: "u8 list option"
  objects :: "u32 \<rightharpoonup> sks_object"

text \<open>The sessions of the client (\<^verbatim>\<open>tee_session\<close>), by session handle.\<close>

type_synonym ta_state = "u32 \<rightharpoonup> pkcs11_session"

subsection \<open>The environment: what the engine calls outside the sources\<close>

text \<open>
  Each field stands for a function that the sources call and do not define. A provider
  call that fills an output buffer returns the result code, the bytes now in the buffer
  and the size it stored through \<^verbatim>\<open>&out_size\<close>. An allocation returns the result code
  and the handle it stores through the pointer when it succeeds. The AE helpers of the mechanism files
  read the operation handle and own the mechanism context of the session, which is all
  they are given here.
\<close>

record sks_env =
  tee2sks_error :: "u32 \<Rightarrow> sks_rv"
  serialargs_get_u32 :: "u8 list \<Rightarrow> sks_rv + (u32 \<times> u8 list)"
  serialargs_alloc_get_one_attribute :: "u8 list \<Rightarrow> sks_rv + (sks_attribute_head \<times> u8 list)"
  sks_attr2boolprop_shift :: "u32 \<Rightarrow> int"
  check_parent_attrs_against_processing ::
    "sks_mechanism \<Rightarrow> sks_function \<Rightarrow> sks_attrs_head \<Rightarrow> sks_rv"
  check_parent_attrs_against_token :: "pkcs11_session \<Rightarrow> sks_attrs_head \<Rightarrow> sks_rv"
  TEE_AllocateOperation :: "tee_alg \<Rightarrow> tee_mode \<Rightarrow> u32 \<Rightarrow> u32 \<times> tee_handle"
  TEE_AllocateTransientObject :: "tee_object_type \<Rightarrow> u32 \<Rightarrow> u32 \<times> tee_handle"
  TEE_PopulateTransientObject :: "tee_handle option \<Rightarrow> tee_attr_id \<Rightarrow> u8 list \<Rightarrow> u32"
  TEE_SetOperationKey :: "tee_handle option \<Rightarrow> tee_handle option \<Rightarrow> u32"
  TEE_CipherUpdate ::
    "tee_handle option \<Rightarrow> u8 list option \<Rightarrow> nat \<Rightarrow> u8 list option \<Rightarrow> u32
      \<Rightarrow> u32 \<times> u8 list \<times> u32"
  TEE_CipherDoFinal ::
    "tee_handle option \<Rightarrow> u8 list option \<Rightarrow> nat \<Rightarrow> u8 list option \<Rightarrow> u32
      \<Rightarrow> u32 \<times> u8 list \<times> u32"
  TEE_AEUpdate ::
    "tee_handle option \<Rightarrow> u8 list option \<Rightarrow> nat \<Rightarrow> u8 list option \<Rightarrow> u32
      \<Rightarrow> u32 \<times> u8 list \<times> u32"
  TEE_MACComputeFinal ::
    "tee_handle option \<Rightarrow> u8 list \<Rightarrow> u32 \<Rightarrow> u32 \<times> u8 list \<times> u32"
  TEE_MACCompareFinal :: "tee_handle option \<Rightarrow> u8 list \<Rightarrow> u32 \<Rightarrow> u32"
  tee_init_ctr_operation ::
    "tee_handle option \<Rightarrow> u8 list \<Rightarrow> u32 \<Rightarrow> sks_rv \<times> u8 list option"
  tee_init_ccm_operation ::
    "tee_handle option \<Rightarrow> u8 list \<Rightarrow> u32 \<Rightarrow> sks_rv \<times> u8 list option"
  tee_init_gcm_operation ::
    "tee_handle option \<Rightarrow> u8 list \<Rightarrow> u32 \<Rightarrow> sks_rv \<times> u8 list option"
  tee_ae_decrypt_update ::
    "tee_handle option \<Rightarrow> u8 list option \<Rightarrow> u8 list option \<Rightarrow> nat
      \<Rightarrow> sks_rv \<times> u8 list option"
  tee_ae_decrypt_final ::
    "tee_handle option \<Rightarrow> u8 list option \<Rightarrow> u8 list option \<Rightarrow> u32
      \<Rightarrow> sks_rv \<times> u8 list option \<times> u8 list \<times> u32"
  tee_ae_encrypt_final ::
    "tee_handle option \<Rightarrow> u8 list option \<Rightarrow> u8 list option \<Rightarrow> u32
      \<Rightarrow> sks_rv \<times> u8 list option \<times> u8 list \<times> u32"

subsection \<open>Session helpers\<close>

text \<open>Modelled from the spec: \<^verbatim>\<open>sks_handle2session\<close> and \<^verbatim>\<open>sks_handle2object\<close> (declared
  in \<^verbatim>\<open>object.h\<close>, defined outside the sources): a handle lookup that misses gives
  \<^verbatim>\<open>NULL\<close>.\<close>

definition sks_handle2session :: "u32 \<Rightarrow> ta_state \<Rightarrow> pkcs11_session option" where
  "sks_handle2session client_handle st = st client_handle"

definition sks_handle2object :: "u32 \<Rightarrow> pkcs11_session \<Rightarrow> sks_object option" where
  "sks_handle2object client_handle session = objects session client_handle"

text \<open>Modelled from the spec: \<^verbatim>\<open>check_processing_state\<close> and \<^verbatim>\<open>set_processing_state\<close>,
  which are not among the sources. The check is zero exactly when the session is in the
  given state. Only READY permits starting a new operation, and a transition back to
  READY is always possible; a refused transition returns non-zero and changes nothing.\<close>

definition check_processing_state :: "pkcs11_session \<Rightarrow> pkcs11_session_processing \<Rightarrow> int" where
  "check_processing_state session st = (if processing session = st then 0 else 1)"

definition set_processing_state ::
  "pkcs11_session \<Rightarrow> pkcs11_session_processing \<Rightarrow> int \<times> pkcs11_session" where
  "set_processing_state session st =
     (if processing session = PKCS11_SESSION_READY \<or> st = PKCS11_SESSION_READY
      then (0, session\<lparr>processing := st\<rparr>)
      else (1, session))"

text \<open>Modelled from the spec: \<^verbatim>\<open>tee_release_ctr_operation\<close>, \<^verbatim>\<open>tee_release_gcm_operation\<close>
  and \<^verbatim>\<open>tee_release_ccm_operation\<close>, which are not among the sources: they free the
  mechanism context (the AE scratch) of the session.\<close>

definition tee_release_ctr_operation :: "pkcs11_session \<Rightarrow> pkcs11_session" where
  "tee_release_ctr_operation session = session\<lparr>proc_params := None\<rparr>"

definition tee_release_gcm_operation :: "pkcs11_session \<Rightarrow> pkcs11_session" where
  "tee_release_gcm_operation session = session\<lparr>proc_params := None\<rparr>"

definition tee_release_ccm_operation :: "pkcs11_session \<Rightarrow> pkcs11_session" where
  "tee_release_ccm_operation session = session\<lparr>proc_params := None\<rparr>"

text \<open>\<^verbatim>\<open>release_active_processing\<close> (processing.c, lines 22-47).\<close>

definition release_active_processing :: "pkcs11_session \<Rightarrow> pkcs11_session outcome" where
  "release_active_processing session =
     (let s1 = (if proc_id session = SKS_CKM_AES_CTR then tee_release_ctr_operation session
                else if proc_id session = SKS_CKM_AES_GCM then tee_release_gcm_operation session
                else if proc_id session = SKS_CKM_AES_CCM then tee_release_ccm_operation session
                else session);
          s2 = s1\<lparr>proc_id := SKS_UNDEFINED_ID\<rparr>;
          s3 = (if tee_op_handle s2 \<noteq> None then s2\<lparr>tee_op_handle := None\<rparr> else s2)
      in case set_processing_state s3 PKCS11_SESSION_READY of
           (rc, s4) \<Rightarrow> if rc \<noteq> 0 then Panic else Returns s4)"

text \<open>The bail-out shared by the entry points: \<^verbatim>\<open>release_active_processing(session)\<close> on
  the session found under \<^verbatim>\<open>session_handle\<close>, then \<^verbatim>\<open>return rv\<close>.\<close>

definition release_and_return ::
  "ta_state \<Rightarrow> u32 \<Rightarrow> pkcs11_session \<Rightarrow> sks_rv \<Rightarrow> 'a \<Rightarrow> (sks_rv \<times> ta_state \<times> 'a) outcome" where
  "release_and_return st session_handle session rv outp =
     (case release_active_processing session of
        Returns s \<Rightarrow> Returns (rv, st(session_handle \<mapsto> s), outp)
      | Panic \<Rightarrow> Panic
      | NullDeref \<Rightarrow> NullDeref)"

text \<open>Storing what a provider call wrote through the output pointer, and the size an
  entry point reports through \<^verbatim>\<open>out->memref.size\<close>.\<close>

definition store_buffer :: "tee_param option \<Rightarrow> u8 list \<Rightarrow> tee_param option" where
  "store_buffer outp bytes = map_option (\<lambda>m. m\<lparr>memref_buffer := bytes\<rparr>) outp"

definition store_size :: "tee_param option \<Rightarrow> u32 \<Rightarrow> tee_param option" where
  "store_size outp n = map_option (\<lambda>m. m\<lparr>memref_size := n\<rparr>) outp"

definition param_size :: "tee_param option \<Rightarrow> u32" where
  "param_size p = (case p of None \<Rightarrow> 0 | Some m \<Rightarrow> memref_size m)"

definition param_buffer :: "tee_param option \<Rightarrow> u8 list option" where
  "param_buffer p = map_option memref_buffer p"

definition serialargs_init :: "tee_param \<Rightarrow> u8 list" where
  "serialargs_init ctrl = take (unat (memref_size ctrl)) (memref_buffer ctrl)"

subsection \<open>Attribute accessors (\<^verbatim>\<open>attributes.h\<close>)\<close>

text \<open>Modelled from the spec: \<^verbatim>\<open>get_attribute_ptr\<close> and \<^verbatim>\<open>get_attribute\<close> of
  \<^verbatim>\<open>attributes.c\<close>, which is not among the sources, at the three attributes the engine
  reads: the first occurrence, or \<^verbatim>\<open>SKS_NOT_FOUND\<close>.\<close>

definition get_attribute_ptr_value :: "sks_attrs_head \<Rightarrow> sks_rv + u8 list" where
  "get_attribute_ptr_value head =
     (case cka_value head of None \<Rightarrow> Inl SKS_NOT_FOUND | Some v \<Rightarrow> Inr v)"

definition get_attribute_key_type :: "sks_attrs_head \<Rightarrow> sks_rv + sks_key_type" where
  "get_attribute_key_type head =
     (case cka_key_type head of None \<Rightarrow> Inl SKS_NOT_FOUND | Some k \<Rightarrow> Inr k)"

definition get_attribute_class :: "sks_attrs_head \<Rightarrow> sks_rv + sks_object_class" where
  "get_attribute_class head =
     (case cka_class head of None \<Rightarrow> Inl SKS_NOT_FOUND | Some c \<Rightarrow> Inr c)"

text \<open>\<^verbatim>\<open>get_class\<close> and \<^verbatim>\<open>get_type\<close> (attributes.h, lines 114-135: the build without
  \<^verbatim>\<open>SKS_SHEAD_WITH_TYPE\<close>). Neither can panic, so they return plain values.\<close>

definition get_class :: "sks_attrs_head \<Rightarrow> sks_object_class" where
  "get_class head =
     (case get_attribute_class head of Inl rc \<Rightarrow> SKS_CKO_UNDEFINED_ID | Inr c \<Rightarrow> c)"

definition get_type :: "sks_attrs_head \<Rightarrow> sks_key_type" where
  "get_type head =
     (case get_attribute_key_type head of Inl rc \<Rightarrow> SKS_CKK_UNDEFINED_ID | Inr k \<Rightarrow> k)"

text \<open>\<^verbatim>\<open>get_bool\<close> (attributes.h, lines 137-149: the build with
  \<^verbatim>\<open>SKS_SHEAD_WITH_BOOLPROPS\<close>). \<^verbatim>\<open>w & BIT(n)\<close> is bit \<open>n\<close> of \<open>w\<close>.\<close>

definition get_bool :: "sks_env \<Rightarrow> sks_attrs_head \<Rightarrow> u32 \<Rightarrow> bool outcome" where
  "get_bool env head attribute =
     (let shift = sks_attr2boolprop_shift env attribute
      in if shift < 0 then Panic
         else if shift > 31 then Returns (bit (boolproph head) (nat (shift - 32)))
         else Returns (bit (boolpropl head) (nat shift)))"

subsection \<open>Allocating the provider operation\<close>

text \<open>The two nested switches of \<^verbatim>\<open>tee_operarion_params\<close> (processing.c, lines 187-318):
  the provider algorithm, mode and key size in bits, or the code the function returns
  with.\<close>

definition hmac_key_type_ok :: "sks_key_type \<Rightarrow> sks_key_type \<Rightarrow> bool" where
  "hmac_key_type_ok key_type expected =
     (key_type = SKS_CKK_GENERIC_SECRET \<or> key_type = expected)"

definition tee_operation_select ::
  "sks_key_type \<Rightarrow> sks_function \<Rightarrow> sks_mechanism \<Rightarrow> u32 \<Rightarrow> sks_rv + (tee_alg \<times> tee_mode \<times> u32)" where
  "tee_operation_select key_type func mech bits =
     (if key_type = SKS_CKK_AES then
        (if func = SKS_FUNCTION_ENCRYPT \<or> func = SKS_FUNCTION_DECRYPT then
           (let mode = (if func = SKS_FUNCTION_DECRYPT then TEE_MODE_DECRYPT else TEE_MODE_ENCRYPT)
            in if mech = SKS_CKM_AES_ECB then Inr (TEE_ALG_AES_ECB_NOPAD, mode, bits)
               else if mech = SKS_CKM_AES_CBC then Inr (TEE_ALG_AES_CBC_NOPAD, mode, bits)
               else if mech = SKS_CKM_AES_CTR then Inr (TEE_ALG_AES_CTR, mode, bits)
               else if mech = SKS_CKM_AES_CTS then Inr (TEE_ALG_AES_CTS, mode, bits)
               else if mech = SKS_CKM_AES_CCM then Inr (TEE_ALG_AES_CCM, mode, bits)
               else if mech = SKS_CKM_AES_GCM then Inr (TEE_ALG_AES_GCM, mode, bits)
               else Inl SKS_CKR_ATTRIBUTE_TYPE_INVALID)
         else if func = SKS_FUNCTION_SIGN \<or> func = SKS_FUNCTION_VERIFY then
           (if mech = SKS_CKM_AES_CMAC \<or> mech = SKS_CKM_AES_CMAC_GENERAL
              then Inr (TEE_ALG_AES_CMAC, TEE_MODE_MAC, bits)
            else if mech = SKS_CKM_AES_XCBC_MAC
              then Inr (TEE_ALG_AES_CBC_MAC_NOPAD, TEE_MODE_MAC, bits)
            else Inl SKS_CKR_ATTRIBUTE_TYPE_INVALID)
         else Inl SKS_FAILED)
      else if key_type = SKS_CKK_GENERIC_SECRET \<or> key_type = SKS_CKK_MD5_HMAC
            \<or> key_type = SKS_CKK_SHA_1_HMAC \<or> key_type = SKS_CKK_SHA224_HMAC
            \<or> key_type = SKS_CKK_SHA256_HMAC \<or> key_type = SKS_CKK_SHA384_HMAC
            \<or> key_type = SKS_CKK_SHA512_HMAC then
        (if func = SKS_FUNCTION_SIGN \<or> func = SKS_FUNCTION_VERIFY then
           (if mech = SKS_CKM_MD5_HMAC then
              (if hmac_key_type_ok key_type SKS_CKK_MD5_HMAC
               then Inr (TEE_ALG_HMAC_MD5, TEE_MODE_MAC, bits)
               else Inl SKS_CKR_ATTRIBUTE_TYPE_INVALID)
            else if mech = SKS_CKM_SHA_1_HMAC then
              (if hmac_key_type_ok key_type SKS_CKK_SHA_1_HMAC
               then Inr (TEE_ALG_HMAC_SHA1, TEE_MODE_MAC, bits)
               else Inl SKS_CKR_ATTRIBUTE_TYPE_INVALID)
            else if mech = SKS_CKM_SHA224_HMAC then
              (if hmac_key_type_ok key_type SKS_CKK_SHA224_HMAC
               then Inr (TEE_ALG_HMAC_SHA224, TEE_MODE_MAC, bits)
               else Inl SKS_CKR_ATTRIBUTE_TYPE_INVALID)
            else if mech = SKS_CKM_SHA256_HMAC then
              (if hmac_key_type_ok key_type SKS_CKK_SHA256_HMAC
               then Inr (TEE_ALG_HMAC_SHA256, TEE_MODE_MAC, bits)
               else Inl SKS_CKR_ATTRIBUTE_TYPE_INVALID)
            else if mech = SKS_CKM_SHA384_HMAC then
              (if hmac_key_type_ok key_type SKS_CKK_SHA384_HMAC
               then Inr (TEE_ALG_HMAC_SHA384, TEE_MODE_MAC, bits)
               else Inl SKS_CKR_ATTRIBUTE_TYPE_INVALID)
            else if mech = SKS_CKM_SHA512_HMAC then
              (if hmac_key_type_ok key_type SKS_CKK_SHA512_HMAC
               then Inr (TEE_ALG_HMAC_SHA512, TEE_MODE_MAC, bits)
               else Inl SKS_CKR_ATTRIBUTE_TYPE_INVALID)
            else Inl SKS_CKR_ATTRIBUTE_TYPE_INVALID)
         else Inl SKS_FAILED)
      else Inl SKS_FAILED)"

text \<open>\<^verbatim>\<open>tee_operarion_params\<close> (processing.c, lines 166-330). The provider stores the new
  operation handle through the pointer on success only.\<close>

definition tee_operarion_params ::
  "sks_env \<Rightarrow> pkcs11_session \<Rightarrow> sks_attribute_head \<Rightarrow> sks_object \<Rightarrow> sks_function
    \<Rightarrow> (sks_rv \<times> pkcs11_session) outcome" where
  "tee_operarion_params env session params sks_key func =
     (case get_attribute_ptr_value (attributes sks_key) of
        Inl rc \<Rightarrow> Panic
      | Inr key_value \<Rightarrow>
          (case get_attribute_key_type (attributes sks_key) of
             Inl rc \<Rightarrow> Returns (SKS_ERROR, session)
           | Inr key_type \<Rightarrow>
               (case tee_operation_select key_type func (attr_id params)
                       (of_nat (length key_value) * 8) of
                  Inl rv \<Rightarrow> Returns (rv, session)
                | Inr (algo, mode, bits) \<Rightarrow>
                    if tee_op_handle session \<noteq> None then Panic
                    else (case TEE_AllocateOperation env algo mode bits of
                            (res, h) \<Rightarrow>
                              if res \<noteq> 0 then Returns (tee2sks_error env res, session)
                              else Returns (SKS_OK, session\<lparr>tee_op_handle := Some h\<rparr>)))))"

subsection \<open>Loading the key\<close>

text \<open>\<^verbatim>\<open>get_tee_object_info\<close> (processing.c, lines 333-373): the return code, and the
  provider object type and attribute it stored when the code is \<^verbatim>\<open>SKS_OK\<close>.\<close>

definition get_tee_object_info ::
  "sks_attrs_head \<Rightarrow> sks_rv \<times> (tee_object_type \<times> tee_attr_id) option" where
  "get_tee_object_info head =
     (let t = get_type head
      in if t = SKS_CKK_AES then (SKS_OK, Some (TEE_TYPE_AES, TEE_ATTR_SECRET_VALUE))
         else if t = SKS_CKK_GENERIC_SECRET
           then (SKS_OK, Some (TEE_TYPE_GENERIC_SECRET, TEE_ATTR_SECRET_VALUE))
         else if t = SKS_CKK_MD5_HMAC then (SKS_OK, Some (TEE_TYPE_HMAC_MD5, TEE_ATTR_SECRET_VALUE))
         else if t = SKS_CKK_SHA_1_HMAC then (SKS_OK, Some (TEE_TYPE_HMAC_SHA1, TEE_ATTR_SECRET_VALUE))
         else if t = SKS_CKK_SHA224_HMAC
           then (SKS_OK, Some (TEE_TYPE_HMAC_SHA224, TEE_ATTR_SECRET_VALUE))
         else if t = SKS_CKK_SHA256_HMAC
           then (SKS_OK, Some (TEE_TYPE_HMAC_SHA256, TEE_ATTR_SECRET_VALUE))
         else if t = SKS_CKK_SHA384_HMAC
           then (SKS_OK, Some (TEE_TYPE_HMAC_SHA384, TEE_ATTR_SECRET_VALUE))
         else if t = SKS_CKK_SHA512_HMAC
           then (SKS_OK, Some (TEE_TYPE_HMAC_SHA512, TEE_ATTR_SECRET_VALUE))
         else (SKS_CKR_ATTRIBUTE_TYPE_INVALID, None))"

text \<open>\<^verbatim>\<open>load_key\<close> (processing.c, lines 375-418). The local \<^verbatim>\<open>rv\<close> is the code of
  \<^verbatim>\<open>get_tee_object_info\<close>; it is what lines 404 and 417 return. The provider stores the
  transient object handle through the pointer on success only.\<close>

definition load_key :: "sks_env \<Rightarrow> sks_object \<Rightarrow> (sks_rv \<times> sks_object) outcome" where
  "load_key env obj =
     (if key_handle obj \<noteq> None then Returns (SKS_OK, obj)
      else
        (case get_tee_object_info (attributes obj) of
           (rv, info) \<Rightarrow>
             if rv \<noteq> SKS_OK then Returns (rv, obj)
             else
               (case info of
                  None \<Rightarrow> Returns (rv, obj)
                | Some (tee_obj_type, tee_obj_attr) \<Rightarrow>
                    (case get_attribute_ptr_value (attributes obj) of
                       Inl rc \<Rightarrow> Panic
                     | Inr key_value \<Rightarrow>
                         (case TEE_AllocateTransientObject env tee_obj_type
                                 (of_nat (length key_value) * 8) of
                            (res, h) \<Rightarrow>
                              if res \<noteq> 0 then Returns (rv, obj)
                              else
                                (let obj1 = obj\<lparr>key_handle := Some h\<rparr>;
                                     res2 = TEE_PopulateTransientObject env (key_handle obj1)
                                              tee_obj_attr key_value
                                 in if res2 \<noteq> 0
                                    then Returns (tee2sks_error env res2, obj1\<lparr>key_handle := None\<rparr>)
                                    else Returns (rv, obj1)))))))"

subsection \<open>Cipher entry points\<close>

text \<open>The mechanism switch of \<^verbatim>\<open>entry_cipher_init\<close> (processing.c, lines 534-587), up to
  \<^verbatim>\<open>session->proc_id = proc_params->id; rv = SKS_OK;\<close>.\<close>

definition cipher_init_mechanism ::
  "sks_env \<Rightarrow> pkcs11_session \<Rightarrow> sks_attribute_head \<Rightarrow> (sks_rv \<times> pkcs11_session) outcome" where
  "cipher_init_mechanism env session params =
     (let mech = attr_id params
      in if mech = SKS_CKM_AES_ECB then
           (if attr_size params \<noteq> 0 then Returns (SKS_CKR_MECHANISM_PARAM_INVALID, session)
            else Returns (SKS_OK, session\<lparr>proc_id := mech\<rparr>))
         else if mech = SKS_CKM_AES_CBC \<or> mech = SKS_CKM_AES_CBC_PAD \<or> mech = SKS_CKM_AES_CTS then
           (if attr_size params \<noteq> 16 then Returns (SKS_CKR_MECHANISM_PARAM_INVALID, session)
            else Returns (SKS_OK, session\<lparr>proc_id := mech\<rparr>))
         else if mech = SKS_CKM_AES_CTR then
           (case tee_init_ctr_operation env (tee_op_handle session) (attr_data params)
                   (attr_size params) of
              (rv, ctx) \<Rightarrow>
                if rv \<noteq> SKS_OK then Returns (rv, session\<lparr>proc_params := ctx\<rparr>)
                else Returns (SKS_OK, session\<lparr>proc_params := ctx, proc_id := mech\<rparr>))
         else if mech = SKS_CKM_AES_CCM then
           (case tee_init_ccm_operation env (tee_op_handle session) (attr_data params)
                   (attr_size params) of
              (rv, ctx) \<Rightarrow>
                if rv \<noteq> SKS_OK then Returns (rv, session\<lparr>proc_params := ctx\<rparr>)
                else Returns (SKS_OK, session\<lparr>proc_params := ctx, proc_id := mech\<rparr>))
         else if mech = SKS_CKM_AES_GCM then
           (case tee_init_gcm_operation env (tee_op_handle session) (attr_data params)
                   (attr_size params) of
              (rv, ctx) \<Rightarrow>
                if rv \<noteq> SKS_OK then Returns (rv, session\<lparr>proc_params := ctx\<rparr>)
                else Returns (SKS_OK, session\<lparr>proc_params := ctx, proc_id := mech\<rparr>))
         else Panic)"

text \<open>\<^verbatim>\<open>entry_cipher_init\<close> from the state check to the \<^verbatim>\<open>bail\<close> label (processing.c,
  lines 463-587): the value of \<^verbatim>\<open>rv\<close> at the label and the session as it is then.
  \<^verbatim>\<open>load_key\<close> writes the key handle of the object the key handle resolves to.\<close>

definition cipher_init_session ::
  "sks_env \<Rightarrow> pkcs11_session \<Rightarrow> u32 \<Rightarrow> sks_attribute_head \<Rightarrow> bool
    \<Rightarrow> (sks_rv \<times> pkcs11_session) outcome" where
  "cipher_init_session env session key_hdl params decrypt =
     (let func = (if decrypt then SKS_FUNCTION_DECRYPT else SKS_FUNCTION_ENCRYPT)
      in if check_processing_state session PKCS11_SESSION_READY \<noteq> 0
         then Returns (SKS_CKR_OPERATION_ACTIVE, session)
         else
          (case set_processing_state session
                  (if decrypt then PKCS11_SESSION_DECRYPTING else PKCS11_SESSION_ENCRYPTING) of
             (rc, s1) \<Rightarrow>
               if rc \<noteq> 0 then Returns (SKS_CKR_OPERATION_ACTIVE, s1)
               else
                (case sks_handle2object key_hdl s1 of
                   None \<Rightarrow> Returns (SKS_CKR_KEY_HANDLE_INVALID, s1)
                 | Some obj \<Rightarrow>
                     (let rv1 = check_parent_attrs_against_processing env (attr_id params) func
                                  (attributes obj)
                      in if rv1 \<noteq> SKS_OK then Returns (rv1, s1)
                         else
                          (let rv2 = check_parent_attrs_against_token env s1 (attributes obj)
                           in if rv2 \<noteq> SKS_OK then Returns (rv2, s1)
                              else
                               (case tee_operarion_params env s1 params obj func of
                                  Panic \<Rightarrow> Panic
                                | NullDeref \<Rightarrow> NullDeref
                                | Returns (rv3, s2) \<Rightarrow>
                                    if rv3 \<noteq> SKS_OK then Returns (rv3, s2)
                                    else if get_class (attributes obj) = SKS_CKO_SECRET_KEY then
                                      (case load_key env obj of
                                         Panic \<Rightarrow> Panic
                                       | NullDeref \<Rightarrow> NullDeref
                                       | Returns (rv4, obj1) \<Rightarrow>
                                           (let s3 = s2\<lparr>objects := (objects s2)(key_hdl \<mapsto> obj1)\<rparr>
                                            in if rv4 \<noteq> SKS_OK then Returns (rv4, s3)
                                               else
                                                (let res = TEE_SetOperationKey env (tee_op_handle s3)
                                                             (key_handle obj1)
                                                 in if res \<noteq> 0
                                                    then Returns (tee2sks_error env res, s3)
                                                    else cipher_init_mechanism env s3 params)))
                                    else Returns (SKS_FAILED, s2)))))))"

text \<open>\<^verbatim>\<open>entry_cipher_init\<close> (processing.c, lines 425-596). At \<^verbatim>\<open>bail\<close> the session
  pointer is passed to \<^verbatim>\<open>release_active_processing\<close> whenever \<^verbatim>\<open>rv\<close> is non-zero, also
  when the session handle did not resolve and the pointer is \<^verbatim>\<open>NULL\<close>.\<close>

definition entry_cipher_init ::
  "sks_env \<Rightarrow> ta_state \<Rightarrow> tee_param option \<Rightarrow> tee_param option \<Rightarrow> tee_param option \<Rightarrow> bool
    \<Rightarrow> (sks_rv \<times> ta_state \<times> tee_param option) outcome" where
  "entry_cipher_init env st ctrl inp outp decrypt =
     (case ctrl of
        None \<Rightarrow> Returns (SKS_BAD_PARAM, st, outp)
      | Some c \<Rightarrow>
          if \<not> (inp = None \<and> outp = None) then Returns (SKS_BAD_PARAM, st, outp)
          else
           (case serialargs_get_u32 env (serialargs_init c) of
              Inl rv \<Rightarrow> Returns (rv, st, outp)
            | Inr (session_handle, args1) \<Rightarrow>
                (case serialargs_get_u32 env args1 of
                   Inl rv \<Rightarrow> Returns (rv, st, outp)
                 | Inr (key_hdl, args2) \<Rightarrow>
                     (case serialargs_alloc_get_one_attribute env args2 of
                        Inl rv \<Rightarrow> Returns (rv, st, outp)
                      | Inr (params, args3) \<Rightarrow>
                          (case sks_handle2session session_handle st of
                             None \<Rightarrow> NullDeref
                           | Some session \<Rightarrow>
                               (case cipher_init_session env session key_hdl params decrypt of
                                  Panic \<Rightarrow> Panic
                                | NullDeref \<Rightarrow> NullDeref
                                | Returns (rv, s) \<Rightarrow>
                                    if rv \<noteq> SKS_OK
                                    then release_and_return st session_handle s rv outp
                                    else Returns (rv, st(session_handle \<mapsto> s), outp)))))))"

text \<open>The mechanism switch of \<^verbatim>\<open>entry_cipher_update\<close> (processing.c, lines 632-661):
  \<^verbatim>\<open>rv\<close>, the session, the output parameter and the local \<^verbatim>\<open>out_size\<close> after it. The
  AE decrypt helper is not given the output buffer.\<close>

definition cipher_update_switch ::
  "sks_env \<Rightarrow> pkcs11_session \<Rightarrow> tee_param option \<Rightarrow> tee_param option \<Rightarrow> bool
    \<Rightarrow> sks_rv \<times> pkcs11_session \<times> tee_param option \<times> u32" where
  "cipher_update_switch env session inp outp decrypt =
     (let in_size = unat (param_size inp);
          out_size = param_size outp
      in if proc_id session = SKS_CKM_AES_CCM \<or> proc_id session = SKS_CKM_AES_GCM then
           (if decrypt then
              (case tee_ae_decrypt_update env (tee_op_handle session) (proc_params session)
                      (param_buffer inp) in_size of
                 (rv, ctx) \<Rightarrow> (rv, session\<lparr>proc_params := ctx\<rparr>, outp, 0))
            else
              (case TEE_AEUpdate env (tee_op_handle session) (param_buffer inp) in_size
                      (param_buffer outp) out_size of
                 (res, bytes, n) \<Rightarrow>
                   (tee2sks_error env res, session, store_buffer outp bytes, n)))
         else
           (case TEE_CipherUpdate env (tee_op_handle session) (param_buffer inp) in_size
                   (param_buffer outp) out_size of
              (res, bytes, n) \<Rightarrow>
                (tee2sks_error env res, session, store_buffer outp bytes, n)))"

text \<open>\<^verbatim>\<open>entry_cipher_update\<close> (processing.c, lines 603-673).\<close>

definition entry_cipher_update ::
  "sks_env \<Rightarrow> ta_state \<Rightarrow> tee_param option \<Rightarrow> tee_param option \<Rightarrow> tee_param option \<Rightarrow> bool
    \<Rightarrow> (sks_rv \<times> ta_state \<times> tee_param option) outcome" where
  "entry_cipher_update env st ctrl inp outp decrypt =
     (case ctrl of
        None \<Rightarrow> Returns (SKS_BAD_PARAM, st, outp)
      | Some c \<Rightarrow>
          (case serialargs_get_u32 env (serialargs_init c) of
             Inl rv \<Rightarrow> Returns (rv, st, outp)
           | Inr (session_handle, args1) \<Rightarrow>
               (case sks_handle2session session_handle st of
                  None \<Rightarrow> Returns (SKS_CKR_SESSION_HANDLE_INVALID, st, outp)
                | Some session \<Rightarrow>
                    if check_processing_state session
                         (if decrypt then PKCS11_SESSION_DECRYPTING
                          else PKCS11_SESSION_ENCRYPTING) \<noteq> 0
                    then Returns (SKS_CKR_OPERATION_NOT_INITIALIZED, st, outp)
                    else
                     (case cipher_update_switch env session inp outp decrypt of
                        (rv0, s, outp1, out_size) \<Rightarrow>
                          (let rv = (if outp = None \<and> rv0 = SKS_SHORT_BUFFER
                                     then SKS_BAD_PARAM else rv0)
                           in if rv \<noteq> SKS_OK \<and> rv \<noteq> SKS_SHORT_BUFFER
                              then release_and_return st session_handle s rv outp1
                              else Returns (rv, st(session_handle \<mapsto> s),
                                            store_size outp1 out_size))))))"

text \<open>The mechanism switch of \<^verbatim>\<open>entry_cipher_final\<close> (processing.c, lines 710-743).\<close>

definition cipher_final_switch ::
  "sks_env \<Rightarrow> pkcs11_session \<Rightarrow> tee_param option \<Rightarrow> tee_param option \<Rightarrow> bool
    \<Rightarrow> sks_rv \<times> pkcs11_session \<times> tee_param option \<times> u32" where
  "cipher_final_switch env session inp outp decrypt =
     (let in_size = unat (param_size inp);
          out_size = param_size outp
      in if proc_id session = SKS_CKM_AES_CCM \<or> proc_id session = SKS_CKM_AES_GCM then
           (if in_size \<noteq> 0 then (SKS_BAD_PARAM, session, outp, out_size)
            else if decrypt then
              (case tee_ae_decrypt_final env (tee_op_handle session) (proc_params session)
                      (param_buffer outp) out_size of
                 (rv, ctx, bytes, n) \<Rightarrow>
                   (rv, session\<lparr>proc_params := ctx\<rparr>, store_buffer outp bytes, n))
            else
              (case tee_ae_encrypt_final env (tee_op_handle session) (proc_params session)
                      (param_buffer outp) out_size of
                 (rv, ctx, bytes, n) \<Rightarrow>
                   (rv, session\<lparr>proc_params := ctx\<rparr>, store_buffer outp bytes, n)))
         else
           (case TEE_CipherDoFinal env (tee_op_handle session) (param_buffer inp) in_size
                   (param_buffer outp) out_size of
              (res, bytes, n) \<Rightarrow>
                (tee2sks_error env res, session, store_buffer outp bytes, n)))"

text \<open>\<^verbatim>\<open>entry_cipher_final\<close> (processing.c, lines 680-756).\<close>

definition entry_cipher_final ::
  "sks_env \<Rightarrow> ta_state \<Rightarrow> tee_param option \<Rightarrow> tee_param option \<Rightarrow> tee_param option \<Rightarrow> bool
    \<Rightarrow> (sks_rv \<times> ta_state \<times> tee_param option) outcome" where
  "entry_cipher_final env st ctrl inp outp decrypt =
     (case ctrl of
        None \<Rightarrow> Returns (SKS_BAD_PARAM, st, outp)
      | Some c \<Rightarrow>
          (case serialargs_get_u32 env (serialargs_init c) of
             Inl rv \<Rightarrow> Returns (rv, st, outp)
           | Inr (session_handle, args1) \<Rightarrow>
               (case sks_handle2session session_handle st of
                  None \<Rightarrow> Returns (SKS_CKR_SESSION_HANDLE_INVALID, st, outp)
                | Some session \<Rightarrow>
                    if check_processing_state session
                         (if decrypt then PKCS11_SESSION_DECRYPTING
                          else PKCS11_SESSION_ENCRYPTING) \<noteq> 0
                    then Returns (SKS_CKR_OPERATION_NOT_INITIALIZED, st, outp)
                    else
                     (case cipher_final_switch env session inp outp decrypt of
                        (rv0, s, outp1, out_size) \<Rightarrow>
                          (let rv = (if outp = None \<and> rv0 = SKS_SHORT_BUFFER
                                     then SKS_BAD_PARAM else rv0);
                               outp2 = (if outp \<noteq> None \<and> (rv = SKS_OK \<or> rv = SKS_SHORT_BUFFER)
                                        then store_size outp1 out_size else outp1)
                           in if rv \<noteq> SKS_SHORT_BUFFER
                              then release_and_return st session_handle s rv outp2
                              else Returns (rv, st(session_handle \<mapsto> s), outp2))))))"

subsection \<open>Sign/verify entry points\<close>

text \<open>The case labels shared by the switches of the sign/verify entry points
  (processing.c, lines 1005-1013, 1036-1044, 1103-1111 and 1168-1176).\<close>

definition signverify_mechanism :: "sks_mechanism \<Rightarrow> bool" where
  "signverify_mechanism mech =
     (mech = SKS_CKM_AES_CMAC \<or> mech = SKS_CKM_AES_CMAC_GENERAL \<or> mech = SKS_CKM_MD5_HMAC
      \<or> mech = SKS_CKM_SHA_1_HMAC \<or> mech = SKS_CKM_SHA224_HMAC \<or> mech = SKS_CKM_SHA256_HMAC
      \<or> mech = SKS_CKM_SHA384_HMAC \<or> mech = SKS_CKM_SHA512_HMAC \<or> mech = SKS_CKM_AES_XCBC_MAC)"

text \<open>\<^verbatim>\<open>entry_signverify_init\<close> from the state check to the \<^verbatim>\<open>bail\<close> label
  (processing.c, lines 960-1055).\<close>

definition signverify_init_session ::
  "sks_env \<Rightarrow> pkcs11_session \<Rightarrow> u32 \<Rightarrow> sks_attribute_head \<Rightarrow> bool
    \<Rightarrow> (sks_rv \<times> pkcs11_session) outcome" where
  "signverify_init_session env session key_hdl params sign =
     (let func = (if sign then SKS_FUNCTION_SIGN else SKS_FUNCTION_VERIFY)
      in if check_processing_state session PKCS11_SESSION_READY \<noteq> 0
         then Returns (SKS_CKR_OPERATION_ACTIVE, session)
         else
          (case set_processing_state session
                  (if sign then PKCS11_SESSION_SIGNING else PKCS11_SESSION_VERIFYING) of
             (rc, s1) \<Rightarrow>
               if rc \<noteq> 0 then Returns (SKS_CKR_OPERATION_ACTIVE, s1)
               else
                (case sks_handle2object key_hdl s1 of
                   None \<Rightarrow> Returns (SKS_CKR_KEY_HANDLE_INVALID, s1)
                 | Some obj \<Rightarrow>
                     (let rv1 = check_parent_attrs_against_processing env (attr_id params) func
                                  (attributes obj)
                      in if rv1 \<noteq> SKS_OK then Returns (rv1, s1)
                         else
                          (let rv2 = check_parent_attrs_against_token env s1 (attributes obj)
                           in if rv2 \<noteq> SKS_OK then Returns (rv2, s1)
                              else
                               (case tee_operarion_params env s1 params obj func of
                                  Panic \<Rightarrow> Panic
                                | NullDeref \<Rightarrow> NullDeref
                                | Returns (rv3, s2) \<Rightarrow>
                                    if rv3 \<noteq> SKS_OK then Returns (rv3, s2)
                                    else if signverify_mechanism (attr_id params) then
                                      (case load_key env obj of
                                         Panic \<Rightarrow> Panic
                                       | NullDeref \<Rightarrow> NullDeref
                                       | Returns (rv4, obj1) \<Rightarrow>
                                           (let s3 = s2\<lparr>objects := (objects s2)(key_hdl \<mapsto> obj1)\<rparr>
                                            in if rv4 \<noteq> SKS_OK then Returns (rv4, s3)
                                               else
                                                (let res = TEE_SetOperationKey env (tee_op_handle s3)
                                                             (key_handle obj1)
                                                 in if res \<noteq> 0
                                                    then Returns (tee2sks_error env res, s3)
                                                    else if signverify_mechanism (attr_id params)
                                                    then Returns (SKS_OK, s3\<lparr>proc_id := attr_id params\<rparr>)
                                                    else Returns (SKS_CKR_MECHANISM_INVALID, s3))))
                                    else Returns (SKS_CKR_MECHANISM_INVALID, s2)))))))"

text \<open>\<^verbatim>\<open>entry_signverify_init\<close> (processing.c, lines 921-1064). Here \<^verbatim>\<open>bail\<close> releases
  only when the session pointer is not \<^verbatim>\<open>NULL\<close>.\<close>

definition entry_signverify_init ::
  "sks_env \<Rightarrow> ta_state \<Rightarrow> tee_param option \<Rightarrow> tee_param option \<Rightarrow> tee_param option \<Rightarrow> bool
    \<Rightarrow> (sks_rv \<times> ta_state \<times> tee_param option) outcome" where
  "entry_signverify_init env st ctrl inp outp sign =
     (case ctrl of
        None \<Rightarrow> Returns (SKS_BAD_PARAM, st, outp)
      | Some c \<Rightarrow>
          if \<not> (inp = None \<and> outp = None) then Returns (SKS_BAD_PARAM, st, outp)
          else
           (case serialargs_get_u32 env (serialargs_init c) of
              Inl rv \<Rightarrow> Returns (rv, st, outp)
            | Inr (session_handle, args1) \<Rightarrow>
                (case serialargs_get_u32 env args1 of
                   Inl rv \<Rightarrow> Returns (rv, st, outp)
                 | Inr (key_hdl, args2) \<Rightarrow>
                     (case serialargs_alloc_get_one_attribute env args2 of
                        Inl rv \<Rightarrow> Returns (rv, st, outp)
                      | Inr (params, args3) \<Rightarrow>
                          (case sks_handle2session session_handle st of
                             None \<Rightarrow> Returns (SKS_CKR_SESSION_HANDLE_INVALID, st, outp)
                           | Some session \<Rightarrow>
                               (case signverify_init_session env session key_hdl params sign of
                                  Panic \<Rightarrow> Panic
                                | NullDeref \<Rightarrow> NullDeref
                                | Returns (rv, s) \<Rightarrow>
                                    if rv \<noteq> SKS_OK
                                    then release_and_return st session_handle s rv outp
                                    else Returns (rv, st(session_handle \<mapsto> s), outp)))))))"

text \<open>\<^verbatim>\<open>entry_signverify_update\<close> (processing.c, lines 1071-1128). \<^verbatim>\<open>TEE_MACUpdate\<close>
  returns nothing and touches the provider operation only.\<close>

definition entry_signverify_update ::
  "sks_env \<Rightarrow> ta_state \<Rightarrow> tee_param option \<Rightarrow> tee_param option \<Rightarrow> tee_param option \<Rightarrow> bool
    \<Rightarrow> (sks_rv \<times> ta_state \<times> tee_param option) outcome" where
  "entry_signverify_update env st ctrl inp outp sign =
     (case ctrl of
        None \<Rightarrow> Returns (SKS_BAD_PARAM, st, outp)
      | Some c \<Rightarrow>
          (case serialargs_get_u32 env (serialargs_init c) of
             Inl rv \<Rightarrow> Returns (rv, st, outp)
           | Inr (session_handle, args1) \<Rightarrow>
               (case sks_handle2session session_handle st of
                  None \<Rightarrow> Returns (SKS_CKR_SESSION_HANDLE_INVALID, st, outp)
                | Some session \<Rightarrow>
                    if check_processing_state session
                         (if sign then PKCS11_SESSION_SIGNING
                          else PKCS11_SESSION_VERIFYING) \<noteq> 0
                    then Returns (SKS_CKR_OPERATION_NOT_INITIALIZED, st, outp)
                    else
                     (let rv = (if \<not> (inp \<noteq> None \<and> outp = None) then SKS_BAD_PARAM
                                else if signverify_mechanism (proc_id session) then SKS_OK
                                else SKS_CKR_MECHANISM_INVALID)
                      in if rv \<noteq> SKS_OK
                         then release_and_return st session_handle session rv outp
                         else Returns (rv, st, outp)))))"

text \<open>The body of \<^verbatim>\<open>entry_signverify_final\<close> between the state check and the \<^verbatim>\<open>bail\<close>
  label (processing.c, lines 1162-1192): \<^verbatim>\<open>rv\<close>, the output parameter and the local
  \<^verbatim>\<open>out_size\<close>.\<close>

definition signverify_final_switch ::
  "sks_env \<Rightarrow> pkcs11_session \<Rightarrow> tee_param option \<Rightarrow> tee_param option \<Rightarrow> bool
    \<Rightarrow> sks_rv \<times> tee_param option \<times> u32" where
  "signverify_final_switch env session inp outp sign =
     (let out_size = param_size outp
      in case outp of
           None \<Rightarrow> (SKS_BAD_PARAM, outp, out_size)
         | Some m \<Rightarrow>
             if inp \<noteq> None then (SKS_BAD_PARAM, outp, out_size)
             else if signverify_mechanism (proc_id session) then
               (if sign then
                  (case TEE_MACComputeFinal env (tee_op_handle session) (memref_buffer m) out_size of
                     (res, bytes, n) \<Rightarrow> (tee2sks_error env res, store_buffer outp bytes, n))
                else
                  (tee2sks_error env
                     (TEE_MACCompareFinal env (tee_op_handle session) (memref_buffer m) out_size),
                   outp, out_size))
             else (SKS_CKR_MECHANISM_INVALID, outp, out_size))"

text \<open>\<^verbatim>\<open>entry_signverify_final\<close> (processing.c, lines 1135-1202).\<close>

definition entry_signverify_final ::
  "sks_env \<Rightarrow> ta_state \<Rightarrow> tee_param option \<Rightarrow> tee_param option \<Rightarrow> tee_param option \<Rightarrow> bool
    \<Rightarrow> (sks_rv \<times> ta_state \<times> tee_param option) outcome" where
  "entry_signverify_final env st ctrl inp outp sign =
     (case ctrl of
        None \<Rightarrow> Returns (SKS_BAD_PARAM, st, outp)
      | Some c \<Rightarrow>
          (case serialargs_get_u32 env (serialargs_init c) of
             Inl rv \<Rightarrow> Returns (rv, st, outp)
           | Inr (session_handle, args1) \<Rightarrow>
               (case sks_handle2session session_handle st of
                  None \<Rightarrow> Returns (SKS_CKR_SESSION_HANDLE_INVALID, st, outp)
                | Some session \<Rightarrow>
                    if check_processing_state session
                         (if sign then PKCS11_SESSION_SIGNING
                          else PKCS11_SESSION_VERIFYING) \<noteq> 0
                    then Returns (SKS_CKR_OPERATION_NOT_INITIALIZED, st, outp)
                    else
                     (case signverify_final_switch env session inp outp sign of
                        (rv, outp1, out_size) \<Rightarrow>
                          (let outp2 = (if sign \<and> (rv = SKS_OK \<or> rv = SKS_SHORT_BUFFER)
                                        then store_size outp1 out_size else outp1)
                           in if rv \<noteq> SKS_SHORT_BUFFER
                              then release_and_return st session_handle session rv outp2
                              else Returns (rv, st, outp2))))))"

subsection \<open>Object import and generation\<close>

text \<open>\<^verbatim>\<open>struct sks_object_head\<close>: a serialized template as the reader hands it over, its
  declared payload size, its attribute count and the payload.\<close>

record sks_object_head =
  attrs_size :: u32
  attrs_count :: u32
  attrs :: "u8 list"

text \<open>
  What \<^verbatim>\<open>entry_import_object\<close> and \<^verbatim>\<open>entry_generate_object\<close> call outside the sources,
  again as fields of an environment. The address of a buffer is not part of \<open>tee_param\<close>,
  so the test \<^verbatim>\<open>(uintptr_t)out->memref.buffer & 0x3UL\<close> is a field. The template
  sanitation returns its code and the blob it built, which is meaningful when the code is
  \<^verbatim>\<open>SKS_OK\<close>. \<^verbatim>\<open>get_attribute_ptr\<close> at \<^verbatim>\<open>SKS_CKA_VALUE_LEN\<close> returns its code and the bytes
  found; \<^verbatim>\<open>TEE_Malloc\<close> says whether it returned memory; \<^verbatim>\<open>add_attribute\<close> at
  \<^verbatim>\<open>SKS_CKA_VALUE\<close> returns its code and the blob. \<^verbatim>\<open>create_object\<close> links the new
  record into the object list of the session: it is given that list and returns its code,
  the new handle and the list.
\<close>

record sks_object_env =
  out_buffer_misaligned :: "tee_param \<Rightarrow> bool"
  serialargs_alloc_get_attributes :: "u8 list \<Rightarrow> sks_rv + (sks_object_head \<times> u8 list)"
  create_attributes_from_template :: "sks_object_head \<Rightarrow> sks_function \<Rightarrow> sks_rv \<times> sks_attrs_head"
  check_created_attrs_against_processing :: "sks_mechanism \<Rightarrow> sks_attrs_head \<Rightarrow> sks_rv"
  check_created_attrs_against_token :: "pkcs11_session \<Rightarrow> sks_attrs_head \<Rightarrow> sks_rv"
  get_attribute_ptr_value_len :: "sks_attrs_head \<Rightarrow> sks_rv \<times> u8 list"
  TEE_Malloc :: "u32 \<Rightarrow> bool"
  TEE_GenerateRandom :: "u32 \<Rightarrow> u8 list"
  add_attribute_value :: "sks_attrs_head \<Rightarrow> u8 list \<Rightarrow> sks_rv \<times> sks_attrs_head"
  create_object ::
    "(u32 \<rightharpoonup> sks_object) \<Rightarrow> sks_attrs_head \<Rightarrow> sks_rv \<times> u32 \<times> (u32 \<rightharpoonup> sks_object)"

text \<open>\<^verbatim>\<open>TEE_MemMove\<close> between a \<^verbatim>\<open>uint32_t\<close> and four bytes of a buffer, least significant
  byte first.\<close>

definition u32_of_bytes :: "u8 list \<Rightarrow> u32" where
  "u32_of_bytes bytes = foldr (\<lambda>b w. ucast b + 256 * w) (take 4 bytes) 0"

definition bytes_of_u32 :: "u32 \<Rightarrow> u8 list" where
  "bytes_of_u32 w = [ucast w, ucast (drop_bit 8 w), ucast (drop_bit 16 w), ucast (drop_bit 24 w)]"

text \<open>The end of both entry points: \<^verbatim>\<open>TEE_MemMove(out->memref.buffer, &obj_handle,
  sizeof(uint32_t)); out->memref.size = sizeof(uint32_t);\<close>\<close>

definition store_handle :: "tee_param \<Rightarrow> u32 \<Rightarrow> tee_param" where
  "store_handle out obj_handle =
     out\<lparr>memref_buffer := bytes_of_u32 obj_handle @ drop 4 (memref_buffer out),
         memref_size := 4\<rparr>"

text \<open>\<^verbatim>\<open>generate_random_key_value\<close> (processing.c, lines 758-789): the code and the
  blob behind \<^verbatim>\<open>*head\<close>.\<close>

definition generate_random_key_value ::
  "sks_object_env \<Rightarrow> sks_attrs_head option \<Rightarrow> sks_rv \<times> sks_attrs_head option" where
  "generate_random_key_value oenv head =
     (case head of
        None \<Rightarrow> (SKS_CKR_TEMPLATE_INCONSISTENT, head)
      | Some blob \<Rightarrow>
          (case get_attribute_ptr_value_len oenv blob of
             (rv, bytes) \<Rightarrow>
               if \<not> (rv = SKS_OK \<and> length bytes = 4)
               then (SKS_CKR_ATTRIBUTE_VALUE_INVALID, head)
               else
                (let value_len = u32_of_bytes bytes
                 in if \<not> TEE_Malloc oenv value_len then (SKS_MEMORY, head)
                    else
                     (case add_attribute_value oenv blob (TEE_GenerateRandom oenv value_len) of
                        (rv2, blob2) \<Rightarrow> (rv2, Some blob2)))))"

text \<open>\<^verbatim>\<open>entry_import_object\<close> (processing.c, lines 49-160). Nothing in it writes the
  processing state of the session; \<^verbatim>\<open>create_object\<close> writes the object list.\<close>

definition entry_import_object ::
  "sks_env \<Rightarrow> sks_object_env \<Rightarrow> ta_state \<Rightarrow> tee_param option \<Rightarrow> tee_param option
    \<Rightarrow> tee_param option \<Rightarrow> (sks_rv \<times> ta_state \<times> tee_param option) outcome" where
  "entry_import_object env oenv st ctrl inp outp =
     (case ctrl of
        None \<Rightarrow> Returns (SKS_BAD_PARAM, st, outp)
      | Some c \<Rightarrow>
          if inp \<noteq> None then Returns (SKS_BAD_PARAM, st, outp)
          else
           (case outp of
              None \<Rightarrow> Returns (SKS_BAD_PARAM, st, outp)
            | Some out \<Rightarrow>
                if memref_size out < 4
                then Returns (SKS_SHORT_BUFFER, st, Some (out\<lparr>memref_size := 4\<rparr>))
                else if out_buffer_misaligned oenv out then Returns (SKS_BAD_PARAM, st, outp)
                else
                 (case serialargs_get_u32 env (serialargs_init c) of
                    Inl rv \<Rightarrow> Returns (rv, st, outp)
                  | Inr (session_handle, args1) \<Rightarrow>
                      (case serialargs_alloc_get_attributes oenv args1 of
                         Inl rv \<Rightarrow> Returns (rv, st, outp)
                       | Inr (template, args2) \<Rightarrow>
                           (case sks_handle2session session_handle st of
                              None \<Rightarrow> Returns (SKS_CKR_SESSION_HANDLE_INVALID, st, outp)
                            | Some session \<Rightarrow>
                                if check_processing_state session PKCS11_SESSION_READY \<noteq> 0
                                then Returns (SKS_CKR_OPERATION_ACTIVE, st, outp)
                                else
                                 (case create_attributes_from_template oenv template
                                         SKS_FUNCTION_IMPORT of
                                    (rv1, head) \<Rightarrow>
                                      if rv1 \<noteq> SKS_OK then Returns (rv1, st, outp)
                                      else
                                       (let rv2 = check_created_attrs_against_processing oenv
                                                    SKS_PROCESSING_IMPORT head
                                        in if rv2 \<noteq> SKS_OK then Returns (rv2, st, outp)
                                           else
                                            (let rv3 = check_created_attrs_against_token oenv
                                                         session head
                                             in if rv3 \<noteq> SKS_OK then Returns (rv3, st, outp)
                                                else
                                                 (case get_attribute_ptr_value head of
                                                    Inl rv4 \<Rightarrow> Returns (rv4, st, outp)
                                                  | Inr key_value \<Rightarrow>
                                                      (case create_object oenv (objects session)
                                                              head of
                                                         (rv5, obj_handle, objs) \<Rightarrow>
                                                           (let st1 = st(session_handle \<mapsto>
                                                                  session\<lparr>objects := objs\<rparr>)
                                                            in if rv5 \<noteq> SKS_OK
                                                               then Returns (rv5, st1, outp)
                                                               else Returns (rv5, st1,
                                                                 Some (store_handle out
                                                                         obj_handle)))))))))))))"

text \<open>\<^verbatim>\<open>entry_generate_object\<close> (processing.c, lines 791-914).\<close>

definition entry_generate_object ::
  "sks_env \<Rightarrow> sks_object_env \<Rightarrow> ta_state \<Rightarrow> tee_param option \<Rightarrow> tee_param option
    \<Rightarrow> tee_param option \<Rightarrow> (sks_rv \<times> ta_state \<times> tee_param option) outcome" where
  "entry_generate_object env oenv st ctrl inp outp =
     (case ctrl of
        None \<Rightarrow> Returns (SKS_BAD_PARAM, st, outp)
      | Some c \<Rightarrow>
          if inp \<noteq> None then Returns (SKS_BAD_PARAM, st, outp)
          else
           (case outp of
              None \<Rightarrow> Returns (SKS_BAD_PARAM, st, outp)
            | Some out \<Rightarrow>
                if memref_size out < 4
                then Returns (SKS_SHORT_BUFFER, st, Some (out\<lparr>memref_size := 4\<rparr>))
                else if out_buffer_misaligned oenv out then Returns (SKS_BAD_PARAM, st, outp)
                else
                 (case serialargs_get_u32 env (serialargs_init c) of
                    Inl rv \<Rightarrow> Returns (rv, st, outp)
                  | Inr (session_handle, args1) \<Rightarrow>
                      (case serialargs_alloc_get_one_attribute env args1 of
                         Inl rv \<Rightarrow> Returns (rv, st, outp)
                       | Inr (params, args2) \<Rightarrow>
                           (case serialargs_alloc_get_attributes oenv args2 of
                              Inl rv \<Rightarrow> Returns (rv, st, outp)
                            | Inr (template, args3) \<Rightarrow>
                                (case sks_handle2session session_handle st of
                                   None \<Rightarrow> Returns (SKS_CKR_SESSION_HANDLE_INVALID, st, outp)
                                 | Some session \<Rightarrow>
                                     if check_processing_state session PKCS11_SESSION_READY \<noteq> 0
                                     then Returns (SKS_CKR_OPERATION_ACTIVE, st, outp)
                                     else
                                      (case create_attributes_from_template oenv template
                                              SKS_FUNCTION_GENERATE of
                                         (rv1, head) \<Rightarrow>
                                           if rv1 \<noteq> SKS_OK then Returns (rv1, st, outp)
                                           else
                                            (let rv2 = check_created_attrs_against_processing oenv
                                                         (attr_id params) head
                                             in if rv2 \<noteq> SKS_OK then Returns (rv2, st, outp)
                                                else
                                                 (let rv3 = check_created_attrs_against_token oenv
                                                              session head
                                                  in if rv3 \<noteq> SKS_OK then Returns (rv3, st, outp)
                                                     else if \<not> (attr_id params
                                                                  = SKS_CKM_GENERIC_SECRET_KEY_GEN
                                                               \<or> attr_id params = SKS_CKM_AES_KEY_GEN)
                                                     then Returns (SKS_CKR_MECHANISM_INVALID, st, outp)
                                                     else
                                                      (case generate_random_key_value oenv
                                                              (Some head) of
                                                         (rv4, head1) \<Rightarrow>
                                                           if rv4 \<noteq> SKS_OK
                                                           then Returns (rv4, st, outp)
                                                           else
                                                            (case head1 of
                                                               None \<Rightarrow> NullDeref
                                                             | Some blob \<Rightarrow>
                                                                 (case create_object oenv
                                                                         (objects session) blob of
                                                                    (rv5, obj_handle, objs) \<Rightarrow>
                                                                      (let st1 = st(session_handle \<mapsto>
                                                                             session\<lparr>objects := objs\<rparr>)
                                                                       in if rv5 \<noteq> SKS_OK
                                                                          then Returns (rv5, st1, outp)
                                                                          else Returns (rv5, st1,
                                                                            Some (store_handle out
                                                                               obj_handle)))))))))))))))"

subsection \<open>A reference environment\<close>

text \<open>
  An environment to run the model on concrete calls. Modelled from the spec: the serial
  argument reader reads little-endian 32-bit scalars and reports an under-run as
  \<^verbatim>\<open>SKS_BAD_PARAM\<close>; the policy gate accepts; the provider succeeds, writes nothing and
  reports size zero; the AE decrypt update appends what it is given to the mechanism
  context of the session; provider results are mapped into the error taxonomy of the core
  (success to \<^verbatim>\<open>SKS_OK\<close>, \<^verbatim>\<open>TEE_ERROR_SHORT_BUFFER\<close> to \<^verbatim>\<open>SKS_SHORT_BUFFER\<close>,
  \<^verbatim>\<open>TEE_ERROR_OUT_OF_MEMORY\<close> to \<^verbatim>\<open>SKS_MEMORY\<close>, \<^verbatim>\<open>TEE_ERROR_BAD_PARAMETERS\<close> to
  \<^verbatim>\<open>SKS_BAD_PARAM\<close>, \<^verbatim>\<open>TEE_ERROR_MAC_INVALID\<close> to \<^verbatim>\<open>SKS_CKR_SIGNATURE_INVALID\<close>, anything
  else to \<^verbatim>\<open>SKS_ERROR\<close>). The mechanism parameters are read as an empty \<^verbatim>\<open>AES_ECB\<close>
  attribute whatever the bytes, which is all the concrete calls below need.
\<close>

definition TEE_SUCCESS :: u32 where "TEE_SUCCESS = 0"
definition TEE_ERROR_BAD_PARAMETERS :: u32 where "TEE_ERROR_BAD_PARAMETERS = 0xFFFF0006"
definition TEE_ERROR_OUT_OF_MEMORY :: u32 where "TEE_ERROR_OUT_OF_MEMORY = 0xFFFF000C"
definition TEE_ERROR_SHORT_BUFFER :: u32 where "TEE_ERROR_SHORT_BUFFER = 0xFFFF0010"
definition TEE_ERROR_MAC_INVALID :: u32 where "TEE_ERROR_MAC_INVALID = 0xFFFF3071"

definition ref_tee2sks_error :: "u32 \<Rightarrow> sks_rv" where
  "ref_tee2sks_error res =
     (if res = TEE_SUCCESS then SKS_OK
      else if res = TEE_ERROR_BAD_PARAMETERS then SKS_BAD_PARAM
      else if res = TEE_ERROR_OUT_OF_MEMORY then SKS_MEMORY
      else if res = TEE_ERROR_SHORT_BUFFER then SKS_SHORT_BUFFER
      else if res = TEE_ERROR_MAC_INVALID then SKS_CKR_SIGNATURE_INVALID
      else SKS_ERROR)"

fun ref_serialargs_get_u32 :: "u8 list \<Rightarrow> sks_rv + (u32 \<times> u8 list)" where
  "ref_serialargs_get_u32 (b0 # b1 # b2 # b3 # rest) =
     Inr (ucast b0 + 256 * ucast b1 + 65536 * ucast b2 + 16777216 * ucast b3, rest)"
| "ref_serialargs_get_u32 bs = Inl SKS_BAD_PARAM"

definition ref_mechanism_params :: "sks_mechanism \<Rightarrow> u8 list \<Rightarrow> sks_attribute_head" where
  "ref_mechanism_params mech bytes =
     \<lparr>attr_id = mech, attr_size = of_nat (length bytes), attr_data = bytes\<rparr>"

definition ref_env :: sks_env where
  "ref_env =
     \<lparr>tee2sks_error = ref_tee2sks_error,
      serialargs_get_u32 = ref_serialargs_get_u32,
      serialargs_alloc_get_one_attribute =
        (\<lambda>bs. Inr (ref_mechanism_params SKS_CKM_AES_ECB [], bs)),
      sks_attr2boolprop_shift = (\<lambda>a. if a < 64 then int (unat a) else - 1),
      check_parent_attrs_against_processing = (\<lambda>mech func head. SKS_OK),
      check_parent_attrs_against_token = (\<lambda>session head. SKS_OK),
      TEE_AllocateOperation = (\<lambda>algo mode bits. (TEE_SUCCESS, 1)),
      TEE_AllocateTransientObject = (\<lambda>t bits. (TEE_SUCCESS, 2)),
      TEE_PopulateTransientObject = (\<lambda>h a v. TEE_SUCCESS),
      TEE_SetOperationKey = (\<lambda>op k. TEE_SUCCESS),
      TEE_CipherUpdate = (\<lambda>op src n dst m. (TEE_SUCCESS, case dst of None \<Rightarrow> [] | Some d \<Rightarrow> d, 0)),
      TEE_CipherDoFinal = (\<lambda>op src n dst m. (TEE_SUCCESS, case dst of None \<Rightarrow> [] | Some d \<Rightarrow> d, 0)),
      TEE_AEUpdate = (\<lambda>op src n dst m. (TEE_SUCCESS, case dst of None \<Rightarrow> [] | Some d \<Rightarrow> d, 0)),
      TEE_MACComputeFinal = (\<lambda>op dst m. (TEE_SUCCESS, dst, 0)),
      TEE_MACCompareFinal = (\<lambda>op mac m. TEE_SUCCESS),
      tee_init_ctr_operation = (\<lambda>op d n. (SKS_OK, Some [])),
      tee_init_ccm_operation = (\<lambda>op d n. (SKS_OK, Some [])),
      tee_init_gcm_operation = (\<lambda>op d n. (SKS_OK, Some [])),
      tee_ae_decrypt_update =
        (\<lambda>op ctx src n.
           (SKS_OK, Some ((case ctx of None \<Rightarrow> [] | Some held \<Rightarrow> held)
                          @ (case src of None \<Rightarrow> [] | Some bytes \<Rightarrow> take n bytes)))),
      tee_ae_decrypt_final =
        (\<lambda>op ctx dst m. (SKS_OK, ctx, case dst of None \<Rightarrow> [] | Some d \<Rightarrow> d, 0)),
      tee_ae_encrypt_final =
        (\<lambda>op ctx dst m. (SKS_OK, ctx, case dst of None \<Rightarrow> [] | Some d \<Rightarrow> d, 0))\<rparr>"

text \<open>Variants: a reader that decodes given mechanism parameters, a provider that needs
  32 bytes of output and reports \<^verbatim>\<open>TEE_ERROR_SHORT_BUFFER\<close>, and a provider that is out
  of memory.\<close>

definition ref_env_reading :: "sks_attribute_head \<Rightarrow> sks_env" where
  "ref_env_reading params =
     ref_env\<lparr>serialargs_alloc_get_one_attribute := (\<lambda>bs. Inr (params, bs))\<rparr>"

definition ref_env_short_buffer :: sks_env where
  "ref_env_short_buffer =
     ref_env\<lparr>TEE_CipherUpdate :=
               (\<lambda>op src n dst m. (TEE_ERROR_SHORT_BUFFER, case dst of None \<Rightarrow> [] | Some d \<Rightarrow> d, 32)),
             TEE_CipherDoFinal :=
               (\<lambda>op src n dst m. (TEE_ERROR_SHORT_BUFFER, case dst of None \<Rightarrow> [] | Some d \<Rightarrow> d, 32)),
             TEE_MACComputeFinal := (\<lambda>op dst m. (TEE_ERROR_SHORT_BUFFER, dst, 32))\<rparr>"

definition ref_env_out_of_memory :: sks_env where
  "ref_env_out_of_memory =
     ref_env\<lparr>TEE_AllocateTransientObject := (\<lambda>t bits. (TEE_ERROR_OUT_OF_MEMORY, 0)),
             TEE_AllocateOperation := (\<lambda>algo mode bits. (TEE_ERROR_OUT_OF_MEMORY, 0))\<rparr>"

text \<open>Concrete data: control buffers holding session handle 1 (alone, followed by key
  handle 7, and cut short), a 16-byte output buffer and a 16-byte input, an AES secret key
  with a 16-byte value, the same key without its \<^verbatim>\<open>CLASS\<close> attribute, and sessions
  holding a key under handle 7.\<close>

definition ctrl_session1 :: tee_param where
  "ctrl_session1 = \<lparr>memref_buffer = [1, 0, 0, 0], memref_size = 4\<rparr>"

definition ctrl_init1 :: tee_param where
  "ctrl_init1 = \<lparr>memref_buffer = [1, 0, 0, 0, 7, 0, 0, 0], memref_size = 8\<rparr>"

definition ctrl_truncated :: tee_param where
  "ctrl_truncated = \<lparr>memref_buffer = [1, 0], memref_size = 2\<rparr>"

definition buffer16 :: tee_param where
  "buffer16 = \<lparr>memref_buffer = replicate 16 0, memref_size = 16\<rparr>"

definition data16 :: tee_param where
  "data16 = \<lparr>memref_buffer = replicate 16 1, memref_size = 16\<rparr>"

definition aes_key_attrs :: sks_attrs_head where
  "aes_key_attrs =
     \<lparr>boolpropl = 0, boolproph = 0, cka_class = Some SKS_CKO_SECRET_KEY,
      cka_key_type = Some SKS_CKK_AES, cka_value = Some (replicate 16 0)\<rparr>"

definition aes_key :: sks_object where
  "aes_key = \<lparr>attributes = aes_key_attrs, key_handle = None, uuid = None, attribs_hdl = None\<rparr>"

definition classless_key :: sks_object where
  "classless_key = aes_key\<lparr>attributes := aes_key_attrs\<lparr>cka_class := None\<rparr>\<rparr>"

definition session_holding ::
  "sks_object \<Rightarrow> pkcs11_session_processing \<Rightarrow> sks_mechanism \<Rightarrow> tee_handle option
    \<Rightarrow> pkcs11_session" where
  "session_holding obj state mech op =
     \<lparr>processing = state, proc_id = mech, tee_op_handle = op, proc_params = None,
      objects = [7 \<mapsto> obj]\<rparr>"

definition session_in ::
  "pkcs11_session_processing \<Rightarrow> sks_mechanism \<Rightarrow> tee_handle option \<Rightarrow> pkcs11_session" where
  "session_in state mech op =
     \<lparr>processing = state, proc_id = mech, tee_op_handle = op, proc_params = None,
      objects = [7 \<mapsto> aes_key]\<rparr>"

definition ready_session :: pkcs11_session where
  "ready_session = session_in PKCS11_SESSION_READY SKS_UNDEFINED_ID None"

text \<open>An environment for object import and generation: output buffers are aligned, the
  reader hands over an empty template, the template sanitation builds the attributes of an
  AES key, the policy gate accepts, \<^verbatim>\<open>VALUE_LEN\<close> is 16, and \<^verbatim>\<open>create_object\<close> links the
  new object under handle 8. A variant finds every output buffer misaligned.\<close>

definition ref_object_env :: sks_object_env where
  "ref_object_env =
     \<lparr>out_buffer_misaligned = (\<lambda>out. False),
      serialargs_alloc_get_attributes =
        (\<lambda>bs. Inr (\<lparr>attrs_size = 0, attrs_count = 0, attrs = []\<rparr>, bs)),
      create_attributes_from_template = (\<lambda>template func. (SKS_OK, aes_key_attrs)),
      check_created_attrs_against_processing = (\<lambda>mech head. SKS_OK),
      check_created_attrs_against_token = (\<lambda>session head. SKS_OK),
      get_attribute_ptr_value_len = (\<lambda>head. (SKS_OK, [16, 0, 0, 0])),
      TEE_Malloc = (\<lambda>n. True),
      TEE_GenerateRandom = (\<lambda>n. replicate (unat n) 0),
      add_attribute_value = (\<lambda>head bytes. (SKS_OK, head\<lparr>cka_value := Some bytes\<rparr>)),
      create_object =
        (\<lambda>objs head.
           (SKS_OK, 8,
            objs(8 \<mapsto> \<lparr>attributes = head, key_handle = None, uuid = None,
                          attribs_hdl = None\<rparr>)))\<rparr>"

definition ref_object_env_misaligned :: sks_object_env where
  "ref_object_env_misaligned = ref_object_env\<lparr>out_buffer_misaligned := (\<lambda>out. True)\<rparr>"

text \<open>A two-byte output buffer, and a control buffer naming key handle 9, which the
  sessions above do not hold.\<close>

definition buffer2 :: tee_param where
  "buffer2 = \<lparr>memref_buffer = [0, 0], memref_size = 2\<rparr>"

definition ctrl_init_key9 :: tee_param where
  "ctrl_init_key9 = \<lparr>memref_buffer = [1, 0, 0, 0, 9, 0, 0, 0], memref_size = 8\<rparr>"

subsection \<open>Predicates of the statements\<close>

text \<open>
  \<open>addressed_session\<close> is the prologue shared by the update and final entry points: the
  control parameter is there, the session handle is read from it and resolves to a
  session. \<open>operation_kept\<close> and \<open>operation_released\<close> compare the session before and
  after a call: the operation is still the active one, or the session is back in READY
  with the mechanism id undefined, the operation handle \<^verbatim>\<open>TEE_HANDLE_NULL\<close> and, for
  CTR, CCM and GCM, the mechanism context freed. \<open>operation_outcome keeps\<close> says that a
  call returned, and kept the operation exactly when \<open>keeps\<close> holds of its return code.
\<close>

definition operation_kept :: "pkcs11_session \<Rightarrow> pkcs11_session \<Rightarrow> bool" where
  "operation_kept s s' =
     (processing s' = processing s \<and> proc_id s' = proc_id s \<and> tee_op_handle s' = tee_op_handle s)"

definition ae_mechanism :: "sks_mechanism \<Rightarrow> bool" where
  "ae_mechanism mech = (mech = SKS_CKM_AES_CTR \<or> mech = SKS_CKM_AES_CCM \<or> mech = SKS_CKM_AES_GCM)"

definition operation_released :: "pkcs11_session \<Rightarrow> pkcs11_session \<Rightarrow> bool" where
  "operation_released s s' =
     (processing s' = PKCS11_SESSION_READY \<and> proc_id s' = SKS_UNDEFINED_ID
      \<and> tee_op_handle s' = None
      \<and> (if ae_mechanism (proc_id s) then proc_params s' = None else True))"

definition addressed_session ::
  "sks_env \<Rightarrow> ta_state \<Rightarrow> tee_param option \<Rightarrow> (u32 \<times> pkcs11_session) option" where
  "addressed_session env st ctrl =
     (case ctrl of
        None \<Rightarrow> None
      | Some c \<Rightarrow>
          (case serialargs_get_u32 env (serialargs_init c) of
             Inl rv \<Rightarrow> None
           | Inr (session_handle, args1) \<Rightarrow>
               map_option (Pair session_handle) (sks_handle2session session_handle st)))"

text \<open>The prologue of the init entry points: the control parameter is there, the session
  handle, the key handle and the mechanism parameters are read from it, and the session
  handle resolves.\<close>

definition init_addressed_session ::
  "sks_env \<Rightarrow> ta_state \<Rightarrow> tee_param option
    \<Rightarrow> (u32 \<times> u32 \<times> sks_attribute_head \<times> pkcs11_session) option" where
  "init_addressed_session env st ctrl =
     (case ctrl of
        None \<Rightarrow> None
      | Some c \<Rightarrow>
          (case serialargs_get_u32 env (serialargs_init c) of
             Inl rv \<Rightarrow> None
           | Inr (session_handle, args1) \<Rightarrow>
               (case serialargs_get_u32 env args1 of
                  Inl rv \<Rightarrow> None
                | Inr (key_hdl, args2) \<Rightarrow>
                    (case serialargs_alloc_get_one_attribute env args2 of
                       Inl rv \<Rightarrow> None
                     | Inr (params, args3) \<Rightarrow>
                         map_option (\<lambda>s. (session_handle, key_hdl, params, s))
                           (sks_handle2session session_handle st)))))"

text \<open>The state an update or final call is for, by its last argument.\<close>

definition cipher_state :: "bool \<Rightarrow> pkcs11_session_processing" where
  "cipher_state decrypt =
     (if decrypt then PKCS11_SESSION_DECRYPTING else PKCS11_SESSION_ENCRYPTING)"

definition signverify_state :: "bool \<Rightarrow> pkcs11_session_processing" where
  "signverify_state sign =
     (if sign then PKCS11_SESSION_SIGNING else PKCS11_SESSION_VERIFYING)"

text \<open>The function a cipher init asks the policy gate about, and the two checks of the
  gate on the parent key (processing.c, lines 487-496), made on the session once it has
  left READY.\<close>

definition cipher_function :: "bool \<Rightarrow> sks_function" where
  "cipher_function decrypt = (if decrypt then SKS_FUNCTION_DECRYPT else SKS_FUNCTION_ENCRYPT)"

definition policy_accepts ::
  "sks_env \<Rightarrow> pkcs11_session \<Rightarrow> sks_attribute_head \<Rightarrow> sks_object \<Rightarrow> bool \<Rightarrow> bool" where
  "policy_accepts env session params obj decrypt =
     (check_parent_attrs_against_processing env (attr_id params) (cipher_function decrypt)
        (attributes obj) = SKS_OK
      \<and> check_parent_attrs_against_token env
          (session\<lparr>processing := cipher_state decrypt\<rparr>) (attributes obj) = SKS_OK)"

definition operation_outcome ::
  "(sks_rv \<Rightarrow> bool) \<Rightarrow> u32 \<Rightarrow> pkcs11_session \<Rightarrow> (sks_rv \<times> ta_state \<times> tee_param option) outcome
    \<Rightarrow> bool" where
  "operation_outcome keeps h session r =
     (case r of
        Returns (rv, st', outp') \<Rightarrow>
          (case st' h of
             None \<Rightarrow> False
           | Some s' \<Rightarrow>
               if keeps rv then operation_kept session s' else operation_released session s')
      | Panic \<Rightarrow> False
      | NullDeref \<Rightarrow> False)"

text \<open>The return code of a call that returned.\<close>

definition rv_of :: "(sks_rv \<times> ta_state \<times> tee_param option) outcome \<Rightarrow> sks_rv option" where
  "rv_of r = (case r of Returns (rv, st', outp') \<Rightarrow> Some rv | Panic \<Rightarrow> None | NullDeref \<Rightarrow> None)"

text \<open>
  The processing state of a session is its state value, mechanism id, operation handle
  and mechanism context. \<open>processing_kept h st r\<close> says that the call returned and left
  the processing state of the session under handle \<open>h\<close> (if there is one) as it was in
  \<open>st\<close>; \<open>state_value_kept\<close> says so of the state value alone. \<open>init_arguments\<close> is the
  three reads at the head of the init entry points.
\<close>

definition processing_state ::
  "pkcs11_session
    \<Rightarrow> pkcs11_session_processing \<times> sks_mechanism \<times> tee_handle option \<times> u8 list option" where
  "processing_state s = (processing s, proc_id s, tee_op_handle s, proc_params s)"

definition processing_kept ::
  "u32 \<Rightarrow> ta_state \<Rightarrow> (sks_rv \<times> ta_state \<times> tee_param option) outcome \<Rightarrow> bool" where
  "processing_kept h st r =
     (case r of
        Returns (rv, st', outp') \<Rightarrow>
          map_option processing_state (st' h) = map_option processing_state (st h)
      | Panic \<Rightarrow> False
      | NullDeref \<Rightarrow> False)"

definition state_value_kept ::
  "u32 \<Rightarrow> ta_state \<Rightarrow> (sks_rv \<times> ta_state \<times> tee_param option) outcome \<Rightarrow> bool" where
  "state_value_kept h st r =
     (case r of
        Returns (rv, st', outp') \<Rightarrow> map_option processing (st' h) = map_option processing (st h)
      | Panic \<Rightarrow> False
      | NullDeref \<Rightarrow> False)"

definition init_arguments ::
  "sks_env \<Rightarrow> tee_param \<Rightarrow> sks_rv + (u32 \<times> u32 \<times> sks_attribute_head)" where
  "init_arguments env c =
     (case serialargs_get_u32 env (serialargs_init c) of
        Inl rv \<Rightarrow> Inl rv
      | Inr (session_handle, args1) \<Rightarrow>
          (case serialargs_get_u32 env args1 of
             Inl rv \<Rightarrow> Inl rv
           | Inr (key_hdl, args2) \<Rightarrow>
               (case serialargs_alloc_get_one_attribute env args2 of
                  Inl rv \<Rightarrow> Inl rv
                | Inr (params, args3) \<Rightarrow> Inr (session_handle, key_hdl, params))))"

section \<open>Properties\<close>

subsection \<open>Releasing the active operation\<close>

lemmas ref_data_defs =
  ref_env_def ref_env_short_buffer_def ctrl_session1_def ctrl_init1_def aes_key_attrs_def
  aes_key_def session_in_def ready_session_def buffer16_def serialargs_init_def
  sks_handle2session_def ref_tee2sks_error_def ref_mechanism_params_def
  TEE_SUCCESS_def TEE_ERROR_SHORT_BUFFER_def TEE_ERROR_OUT_OF_MEMORY_def
  TEE_ERROR_BAD_PARAMETERS_def TEE_ERROR_MAC_INVALID_def

lemmas ref_object_defs =
  ref_object_env_def ref_object_env_misaligned_def buffer2_def ctrl_init_key9_def

lemmas entry_prologue_defs =
  check_processing_state_def cipher_state_def signverify_state_def

lemma release_active_processing_eq:
  "release_active_processing s =
     Returns (s\<lparr>processing := PKCS11_SESSION_READY, proc_id := SKS_UNDEFINED_ID,
                tee_op_handle := None,
                proc_params := (if ae_mechanism (proc_id s) then None else proc_params s)\<rparr>)"
  by (simp add: release_active_processing_def set_processing_state_def Let_def ae_mechanism_def
      tee_release_ctr_operation_def tee_release_gcm_operation_def tee_release_ccm_operation_def)

lemma release_and_return_eq:
  "release_and_return st h s rv outp =
     Returns (rv, st(h \<mapsto> s\<lparr>processing := PKCS11_SESSION_READY, proc_id := SKS_UNDEFINED_ID,
                tee_op_handle := None,
                proc_params := (if ae_mechanism (proc_id s) then None else proc_params s)\<rparr>), outp)"
  by (simp add: release_and_return_def release_active_processing_eq)

lemma addressed_sessionD:
  assumes "addressed_session env st ctrl = Some (h, session)"
  obtains c rest where "ctrl = Some c" "serialargs_get_u32 env (serialargs_init c) = Inr (h, rest)"
    "sks_handle2session h st = Some session"
  using assms unfolding addressed_session_def
  by (auto split: option.splits sum.splits)

lemma init_addressed_sessionD:
  assumes "init_addressed_session env st ctrl = Some (h, k, params, session)"
  obtains c a1 a2 a3 where "ctrl = Some c"
    "serialargs_get_u32 env (serialargs_init c) = Inr (h, a1)"
    "serialargs_get_u32 env a1 = Inr (k, a2)"
    "serialargs_alloc_get_one_attribute env a2 = Inr (params, a3)"
    "sks_handle2session h st = Some session"
  using assms unfolding init_addressed_session_def
  by (auto split: option.splits sum.splits)

lemma cipher_update_switch_frame:
  assumes "cipher_update_switch env s inp outp decrypt = (rv0, s1, outp1, n)"
  shows "processing s1 = processing s \<and> proc_id s1 = proc_id s \<and> tee_op_handle s1 = tee_op_handle s"
  using assms unfolding cipher_update_switch_def Let_def
  by (auto split: if_splits prod.splits)

lemma cipher_final_switch_frame:
  assumes "cipher_final_switch env s inp outp decrypt = (rv0, s1, outp1, n)"
  shows "processing s1 = processing s \<and> proc_id s1 = proc_id s \<and> tee_op_handle s1 = tee_op_handle s"
  using assms unfolding cipher_final_switch_def Let_def
  by (auto split: if_splits prod.splits)

lemma cipher_update_outcome:
  assumes "addressed_session env st ctrl = Some (h, session)"
    and "processing session = cipher_state decrypt"
  shows "operation_outcome (\<lambda>rv. rv = SKS_OK \<or> rv = SKS_SHORT_BUFFER) h session
           (entry_cipher_update env st ctrl inp outp decrypt)"
proof -
  from assms(1) obtain c rest where c: "ctrl = Some c"
    "serialargs_get_u32 env (serialargs_init c) = Inr (h, rest)"
    "sks_handle2session h st = Some session"
    by (rule addressed_sessionD)
  obtain rv0 s1 outp1 n where sw: "cipher_update_switch env session inp outp decrypt = (rv0, s1, outp1, n)"
    by (cases "cipher_update_switch env session inp outp decrypt") auto
  note fr = cipher_update_switch_frame[OF sw]
  show ?thesis
    using c assms(2) sw fr
    by (simp add: entry_cipher_update_def check_processing_state_def release_and_return_eq
        operation_kept_def operation_released_def Let_def operation_outcome_def cipher_state_def)
qed

lemma cipher_final_outcome:
  assumes "addressed_session env st ctrl = Some (h, session)"
    and "processing session = cipher_state decrypt"
  shows "operation_outcome (\<lambda>rv. rv = SKS_SHORT_BUFFER) h session
           (entry_cipher_final env st ctrl inp outp decrypt)"
proof -
  from assms(1) obtain c rest where c: "ctrl = Some c"
    "serialargs_get_u32 env (serialargs_init c) = Inr (h, rest)"
    "sks_handle2session h st = Some session"
    by (rule addressed_sessionD)
  obtain rv0 s1 outp1 n where sw: "cipher_final_switch env session inp outp decrypt = (rv0, s1, outp1, n)"
    by (cases "cipher_final_switch env session inp outp decrypt") auto
  note fr = cipher_final_switch_frame[OF sw]
  show ?thesis
    using c assms(2) sw fr
    by (simp add: entry_cipher_final_def check_processing_state_def release_and_return_eq
        operation_kept_def operation_released_def Let_def operation_outcome_def cipher_state_def)
qed

lemma signverify_update_outcome:
  assumes "addressed_session env st ctrl = Some (h, session)"
    and "processing session = signverify_state sign"
  shows "operation_outcome (\<lambda>rv. rv = SKS_OK \<or> rv = SKS_SHORT_BUFFER) h session
           (entry_signverify_update env st ctrl inp outp sign)"
proof -
  from assms(1) obtain c rest where c: "ctrl = Some c"
    "serialargs_get_u32 env (serialargs_init c) = Inr (h, rest)"
    "sks_handle2session h st = Some session"
    by (rule addressed_sessionD)
  from c(3) have "st h = Some session" by (simp add: sks_handle2session_def)
  then show ?thesis
    using c assms(2)
    by (simp add: entry_signverify_update_def check_processing_state_def release_and_return_eq
        operation_kept_def operation_released_def Let_def operation_outcome_def signverify_state_def)
qed

lemma signverify_final_outcome:
  assumes "addressed_session env st ctrl = Some (h, session)"
    and "processing session = signverify_state sign"
  shows "operation_outcome (\<lambda>rv. rv = SKS_SHORT_BUFFER) h session
           (entry_signverify_final env st ctrl inp outp sign)"
proof -
  from assms(1) obtain c rest where c: "ctrl = Some c"
    "serialargs_get_u32 env (serialargs_init c) = Inr (h, rest)"
    "sks_handle2session h st = Some session"
    by (rule addressed_sessionD)
  from c(3) have sh: "st h = Some session" by (simp add: sks_handle2session_def)
  obtain rv outp1 n where sw: "signverify_final_switch env session inp outp sign = (rv, outp1, n)"
    by (cases "signverify_final_switch env session inp outp sign") auto
  show ?thesis
    using c assms(2) sw sh
    by (simp add: entry_signverify_final_def check_processing_state_def release_and_return_eq
        operation_kept_def operation_released_def Let_def operation_outcome_def signverify_state_def)
qed

text \<open>
  Claim C1. An update or final call of the cipher or sign/verify family that is made on
  the session's active operation (the session is in the state the call is for) returns,
  and \<^verbatim>\<open>SKS_SHORT_BUFFER\<close> is the only code other than \<^verbatim>\<open>SKS_OK\<close> after which the
  operation is still active: an update keeps it on \<^verbatim>\<open>SKS_OK\<close> and \<^verbatim>\<open>SKS_SHORT_BUFFER\<close>, a
  final on \<^verbatim>\<open>SKS_SHORT_BUFFER\<close> only. After every other code the session is in READY, its
  mechanism id is \<^verbatim>\<open>SKS_UNDEFINED_ID\<close>, its operation handle is \<^verbatim>\<open>TEE_HANDLE_NULL\<close> and,
  when the mechanism was CTR, CCM or GCM, its mechanism context is freed.
\<close>

theorem short_buffer_alone_keeps_operation:
  assumes "addressed_session env st ctrl = Some (h, session)"
  shows "(processing session = cipher_state decrypt \<longrightarrow>
            operation_outcome (\<lambda>rv. rv = SKS_OK \<or> rv = SKS_SHORT_BUFFER) h session
              (entry_cipher_update env st ctrl inp outp decrypt)
          \<and> operation_outcome (\<lambda>rv. rv = SKS_SHORT_BUFFER) h session
              (entry_cipher_final env st ctrl inp outp decrypt))
       \<and> (processing session = signverify_state sign \<longrightarrow>
            operation_outcome (\<lambda>rv. rv = SKS_OK \<or> rv = SKS_SHORT_BUFFER) h session
              (entry_signverify_update env st ctrl inp outp sign)
          \<and> operation_outcome (\<lambda>rv. rv = SKS_SHORT_BUFFER) h session
              (entry_signverify_final env st ctrl inp outp sign))"
  using cipher_update_outcome[OF assms] cipher_final_outcome[OF assms]
    signverify_update_outcome[OF assms] signverify_final_outcome[OF assms]
  by blast

theorem short_buffer_alone_keeps_operation_witness:
  "addressed_session ref_env_short_buffer
      [1 \<mapsto> session_in PKCS11_SESSION_ENCRYPTING SKS_CKM_AES_ECB (Some 5)] (Some ctrl_session1)
     = Some (1, session_in PKCS11_SESSION_ENCRYPTING SKS_CKM_AES_ECB (Some 5))
   \<and> processing (session_in PKCS11_SESSION_ENCRYPTING SKS_CKM_AES_ECB (Some 5)) = cipher_state False
   \<and> operation_outcome (\<lambda>rv. rv = SKS_OK \<or> rv = SKS_SHORT_BUFFER) 1
       (session_in PKCS11_SESSION_ENCRYPTING SKS_CKM_AES_ECB (Some 5))
       (entry_cipher_update ref_env_short_buffer
          [1 \<mapsto> session_in PKCS11_SESSION_ENCRYPTING SKS_CKM_AES_ECB (Some 5)]
          (Some ctrl_session1) (Some buffer16) (Some buffer16) False)
   \<and> operation_outcome (\<lambda>rv. rv = SKS_SHORT_BUFFER) 1
       (session_in PKCS11_SESSION_ENCRYPTING SKS_CKM_AES_ECB (Some 5))
       (entry_cipher_final ref_env_short_buffer
          [1 \<mapsto> session_in PKCS11_SESSION_ENCRYPTING SKS_CKM_AES_ECB (Some 5)]
          (Some ctrl_session1) (Some buffer16) (Some buffer16) False)
   \<and> addressed_session ref_env
      [1 \<mapsto> session_in PKCS11_SESSION_SIGNING SKS_CKM_AES_CMAC (Some 5)] (Some ctrl_session1)
     = Some (1, session_in PKCS11_SESSION_SIGNING SKS_CKM_AES_CMAC (Some 5))
   \<and> processing (session_in PKCS11_SESSION_SIGNING SKS_CKM_AES_CMAC (Some 5)) = signverify_state True
   \<and> operation_outcome (\<lambda>rv. rv = SKS_OK \<or> rv = SKS_SHORT_BUFFER) 1
       (session_in PKCS11_SESSION_SIGNING SKS_CKM_AES_CMAC (Some 5))
       (entry_signverify_update ref_env
          [1 \<mapsto> session_in PKCS11_SESSION_SIGNING SKS_CKM_AES_CMAC (Some 5)]
          (Some ctrl_session1) (Some buffer16) None True)
   \<and> operation_outcome (\<lambda>rv. rv = SKS_SHORT_BUFFER) 1
       (session_in PKCS11_SESSION_SIGNING SKS_CKM_AES_CMAC (Some 5))
       (entry_signverify_final ref_env
          [1 \<mapsto> session_in PKCS11_SESSION_SIGNING SKS_CKM_AES_CMAC (Some 5)]
          (Some ctrl_session1) None (Some buffer16) True)"
proof -
  let ?e = "session_in PKCS11_SESSION_ENCRYPTING SKS_CKM_AES_ECB (Some 5)"
  let ?s = "session_in PKCS11_SESSION_SIGNING SKS_CKM_AES_CMAC (Some 5)"
  have a1: "addressed_session ref_env_short_buffer [1 \<mapsto> ?e] (Some ctrl_session1) = Some (1, ?e)"
    by (simp add: addressed_session_def ref_data_defs)
  have a2: "addressed_session ref_env [1 \<mapsto> ?s] (Some ctrl_session1) = Some (1, ?s)"
    by (simp add: addressed_session_def ref_data_defs)
  have p1: "processing ?e = cipher_state False"
    by (simp add: session_in_def cipher_state_def)
  have p2: "processing ?s = signverify_state True"
    by (simp add: session_in_def signverify_state_def)
  show ?thesis
    using a1 a2 p1 p2
      short_buffer_alone_keeps_operation[OF a1, of False "Some buffer16" "Some buffer16" True]
      short_buffer_alone_keeps_operation[OF a2, of False "Some buffer16" None True]
      short_buffer_alone_keeps_operation[OF a2, of False None "Some buffer16" True]
    by simp
qed

subsection \<open>Calls that do not match the processing state\<close>

text \<open>
  Claim C2. When the session that a cipher or sign/verify update or final call addresses
  is not in the state the call is for (\<^verbatim>\<open>ENCRYPTING\<close> or \<^verbatim>\<open>DECRYPTING\<close> by the
  \<^verbatim>\<open>decrypt\<close> flag, \<^verbatim>\<open>SIGNING\<close> or \<^verbatim>\<open>VERIFYING\<close> by the \<^verbatim>\<open>sign\<close> flag), the call returns
  \<^verbatim>\<open>SKS_CKR_OPERATION_NOT_INITIALIZED\<close> and changes nothing: every session (state,
  mechanism id, operation handle and all) and the output parameter are as before.
\<close>

theorem mismatched_call_not_initialized:
  assumes "addressed_session env st ctrl = Some (h, session)"
  shows "(processing session \<noteq> cipher_state decrypt \<longrightarrow>
            entry_cipher_update env st ctrl inp outp decrypt
              = Returns (SKS_CKR_OPERATION_NOT_INITIALIZED, st, outp)
          \<and> entry_cipher_final env st ctrl inp outp decrypt
              = Returns (SKS_CKR_OPERATION_NOT_INITIALIZED, st, outp))
       \<and> (processing session \<noteq> signverify_state sign \<longrightarrow>
            entry_signverify_update env st ctrl inp outp sign
              = Returns (SKS_CKR_OPERATION_NOT_INITIALIZED, st, outp)
          \<and> entry_signverify_final env st ctrl inp outp sign
              = Returns (SKS_CKR_OPERATION_NOT_INITIALIZED, st, outp))"
proof -
  from assms obtain c rest where c: "ctrl = Some c"
    "serialargs_get_u32 env (serialargs_init c) = Inr (h, rest)"
    "sks_handle2session h st = Some session"
    by (rule addressed_sessionD)
  have "entry_cipher_update env st ctrl inp outp decrypt
          = Returns (SKS_CKR_OPERATION_NOT_INITIALIZED, st, outp)"
    if "processing session \<noteq> cipher_state decrypt"
    using c that by (simp add: entry_cipher_update_def entry_prologue_defs)
  moreover have "entry_cipher_final env st ctrl inp outp decrypt
          = Returns (SKS_CKR_OPERATION_NOT_INITIALIZED, st, outp)"
    if "processing session \<noteq> cipher_state decrypt"
    using c that by (simp add: entry_cipher_final_def entry_prologue_defs)
  moreover have "entry_signverify_update env st ctrl inp outp sign
          = Returns (SKS_CKR_OPERATION_NOT_INITIALIZED, st, outp)"
    if "processing session \<noteq> signverify_state sign"
    using c that by (simp add: entry_signverify_update_def entry_prologue_defs)
  moreover have "entry_signverify_final env st ctrl inp outp sign
          = Returns (SKS_CKR_OPERATION_NOT_INITIALIZED, st, outp)"
    if "processing session \<noteq> signverify_state sign"
    using c that by (simp add: entry_signverify_final_def entry_prologue_defs)
  ultimately show ?thesis by blast
qed

theorem mismatched_call_not_initialized_witness:
  "addressed_session ref_env
      [1 \<mapsto> session_in PKCS11_SESSION_ENCRYPTING SKS_CKM_AES_ECB (Some 5)] (Some ctrl_session1)
     = Some (1, session_in PKCS11_SESSION_ENCRYPTING SKS_CKM_AES_ECB (Some 5))
   \<and> processing (session_in PKCS11_SESSION_ENCRYPTING SKS_CKM_AES_ECB (Some 5)) \<noteq> cipher_state True
   \<and> processing (session_in PKCS11_SESSION_ENCRYPTING SKS_CKM_AES_ECB (Some 5))
       \<noteq> signverify_state False
   \<and> entry_cipher_update ref_env
        [1 \<mapsto> session_in PKCS11_SESSION_ENCRYPTING SKS_CKM_AES_ECB (Some 5)]
        (Some ctrl_session1) (Some buffer16) (Some buffer16) True
      = Returns (SKS_CKR_OPERATION_NOT_INITIALIZED,
          [1 \<mapsto> session_in PKCS11_SESSION_ENCRYPTING SKS_CKM_AES_ECB (Some 5)], Some buffer16)
   \<and> entry_cipher_final ref_env
        [1 \<mapsto> session_in PKCS11_SESSION_ENCRYPTING SKS_CKM_AES_ECB (Some 5)]
        (Some ctrl_session1) (Some buffer16) (Some buffer16) True
      = Returns (SKS_CKR_OPERATION_NOT_INITIALIZED,
          [1 \<mapsto> session_in PKCS11_SESSION_ENCRYPTING SKS_CKM_AES_ECB (Some 5)], Some buffer16)
   \<and> entry_signverify_update ref_env
        [1 \<mapsto> session_in PKCS11_SESSION_ENCRYPTING SKS_CKM_AES_ECB (Some 5)]
        (Some ctrl_session1) (Some buffer16) (Some buffer16) False
      = Returns (SKS_CKR_OPERATION_NOT_INITIALIZED,
          [1 \<mapsto> session_in PKCS11_SESSION_ENCRYPTING SKS_CKM_AES_ECB (Some 5)], Some buffer16)
   \<and> entry_signverify_final ref_env
        [1 \<mapsto> session_in PKCS11_SESSION_ENCRYPTING SKS_CKM_AES_ECB (Some 5)]
        (Some ctrl_session1) (Some buffer16) (Some buffer16) False
      = Returns (SKS_CKR_OPERATION_NOT_INITIALIZED,
          [1 \<mapsto> session_in PKCS11_SESSION_ENCRYPTING SKS_CKM_AES_ECB (Some 5)], Some buffer16)"
proof -
  let ?e = "session_in PKCS11_SESSION_ENCRYPTING SKS_CKM_AES_ECB (Some 5)"
  have a: "addressed_session ref_env [1 \<mapsto> ?e] (Some ctrl_session1) = Some (1, ?e)"
    by (simp add: addressed_session_def ref_data_defs)
  have p: "processing ?e \<noteq> cipher_state True" "processing ?e \<noteq> signverify_state False"
    by (simp_all add: session_in_def cipher_state_def signverify_state_def)
  show ?thesis
    using a p
      mismatched_call_not_initialized[OF a, of True "Some buffer16" "Some buffer16" False]
    by simp
qed

subsection \<open>Short buffer with and without an output buffer\<close>

text \<open>For a mechanism other than CCM and GCM the code at the end of the mechanism switch
  is the translated result of the provider call.\<close>

lemma cipher_switch_rv_of_provider:
  assumes "proc_id session \<noteq> SKS_CKM_AES_CCM" and "proc_id session \<noteq> SKS_CKM_AES_GCM"
  shows "fst (cipher_update_switch env session inp outp decrypt)
           = tee2sks_error env
               (fst (TEE_CipherUpdate env (tee_op_handle session) (param_buffer inp)
                       (unat (param_size inp)) (param_buffer outp) (param_size outp)))"
    and "fst (cipher_final_switch env session inp outp decrypt)
           = tee2sks_error env
               (fst (TEE_CipherDoFinal env (tee_op_handle session) (param_buffer inp)
                       (unat (param_size inp)) (param_buffer outp) (param_size outp)))"
  using assms
  by (simp_all add: cipher_update_switch_def cipher_final_switch_def Let_def split: prod.splits)

text \<open>
  Claim C10. On a cipher update or final call made on the active operation, when the
  mechanism switch ends with \<^verbatim>\<open>rv == SKS_SHORT_BUFFER\<close> (for a mechanism other than CCM
  and GCM this is the translated result of \<^verbatim>\<open>TEE_CipherUpdate\<close> or \<^verbatim>\<open>TEE_CipherDoFinal\<close>):
  with no output parameter the caller receives \<^verbatim>\<open>SKS_BAD_PARAM\<close> and the operation is
  released; with an output parameter the caller receives \<^verbatim>\<open>SKS_SHORT_BUFFER\<close> and the
  operation stays active.
\<close>

theorem short_buffer_without_output:
  assumes "addressed_session env st ctrl = Some (h, session)"
    and "processing session = cipher_state decrypt"
  shows "(fst (cipher_update_switch env session inp None decrypt) = SKS_SHORT_BUFFER \<longrightarrow>
            rv_of (entry_cipher_update env st ctrl inp None decrypt) = Some SKS_BAD_PARAM
          \<and> operation_outcome (\<lambda>rv. False) h session
              (entry_cipher_update env st ctrl inp None decrypt))
       \<and> (fst (cipher_final_switch env session inp None decrypt) = SKS_SHORT_BUFFER \<longrightarrow>
            rv_of (entry_cipher_final env st ctrl inp None decrypt) = Some SKS_BAD_PARAM
          \<and> operation_outcome (\<lambda>rv. False) h session
              (entry_cipher_final env st ctrl inp None decrypt))
       \<and> (fst (cipher_update_switch env session inp (Some m) decrypt) = SKS_SHORT_BUFFER \<longrightarrow>
            rv_of (entry_cipher_update env st ctrl inp (Some m) decrypt) = Some SKS_SHORT_BUFFER
          \<and> operation_outcome (\<lambda>rv. True) h session
              (entry_cipher_update env st ctrl inp (Some m) decrypt))
       \<and> (fst (cipher_final_switch env session inp (Some m) decrypt) = SKS_SHORT_BUFFER \<longrightarrow>
            rv_of (entry_cipher_final env st ctrl inp (Some m) decrypt) = Some SKS_SHORT_BUFFER
          \<and> operation_outcome (\<lambda>rv. True) h session
              (entry_cipher_final env st ctrl inp (Some m) decrypt))"
proof -
  from assms(1) obtain c rest where c: "ctrl = Some c"
    "serialargs_get_u32 env (serialargs_init c) = Inr (h, rest)"
    "sks_handle2session h st = Some session"
    by (rule addressed_sessionD)
  have upd: "rv_of (entry_cipher_update env st ctrl inp outp decrypt)
               = Some (if outp = None then SKS_BAD_PARAM else SKS_SHORT_BUFFER)
             \<and> operation_outcome (\<lambda>rv. outp \<noteq> None) h session
                 (entry_cipher_update env st ctrl inp outp decrypt)"
    if "fst (cipher_update_switch env session inp outp decrypt) = SKS_SHORT_BUFFER" for outp
  proof -
    obtain rv0 s1 outp1 n where sw:
      "cipher_update_switch env session inp outp decrypt = (rv0, s1, outp1, n)"
      by (cases "cipher_update_switch env session inp outp decrypt") auto
    note fr = cipher_update_switch_frame[OF sw]
    show ?thesis
      using c assms(2) sw fr that
      by (simp add: entry_cipher_update_def entry_prologue_defs release_and_return_eq rv_of_def
          operation_kept_def operation_released_def Let_def operation_outcome_def)
  qed
  have fin: "rv_of (entry_cipher_final env st ctrl inp outp decrypt)
               = Some (if outp = None then SKS_BAD_PARAM else SKS_SHORT_BUFFER)
             \<and> operation_outcome (\<lambda>rv. outp \<noteq> None) h session
                 (entry_cipher_final env st ctrl inp outp decrypt)"
    if "fst (cipher_final_switch env session inp outp decrypt) = SKS_SHORT_BUFFER" for outp
  proof -
    obtain rv0 s1 outp1 n where sw:
      "cipher_final_switch env session inp outp decrypt = (rv0, s1, outp1, n)"
      by (cases "cipher_final_switch env session inp outp decrypt") auto
    note fr = cipher_final_switch_frame[OF sw]
    show ?thesis
      using c assms(2) sw fr that
      by (simp add: entry_cipher_final_def entry_prologue_defs release_and_return_eq rv_of_def
          operation_kept_def operation_released_def Let_def operation_outcome_def)
  qed
  show ?thesis
    using upd[of None] upd[of "Some m"] fin[of None] fin[of "Some m"] by simp
qed

theorem short_buffer_without_output_witness:
  "addressed_session ref_env_short_buffer
      [1 \<mapsto> session_in PKCS11_SESSION_ENCRYPTING SKS_CKM_AES_ECB (Some 5)] (Some ctrl_session1)
     = Some (1, session_in PKCS11_SESSION_ENCRYPTING SKS_CKM_AES_ECB (Some 5))
   \<and> processing (session_in PKCS11_SESSION_ENCRYPTING SKS_CKM_AES_ECB (Some 5)) = cipher_state False
   \<and> fst (cipher_update_switch ref_env_short_buffer
            (session_in PKCS11_SESSION_ENCRYPTING SKS_CKM_AES_ECB (Some 5))
            (Some data16) None False) = SKS_SHORT_BUFFER
   \<and> fst (cipher_final_switch ref_env_short_buffer
            (session_in PKCS11_SESSION_ENCRYPTING SKS_CKM_AES_ECB (Some 5))
            (Some data16) None False) = SKS_SHORT_BUFFER
   \<and> fst (cipher_update_switch ref_env_short_buffer
            (session_in PKCS11_SESSION_ENCRYPTING SKS_CKM_AES_ECB (Some 5))
            (Some data16) (Some buffer16) False) = SKS_SHORT_BUFFER
   \<and> fst (cipher_final_switch ref_env_short_buffer
            (session_in PKCS11_SESSION_ENCRYPTING SKS_CKM_AES_ECB (Some 5))
            (Some data16) (Some buffer16) False) = SKS_SHORT_BUFFER
   \<and> entry_cipher_update ref_env_short_buffer
        [1 \<mapsto> session_in PKCS11_SESSION_ENCRYPTING SKS_CKM_AES_ECB (Some 5)]
        (Some ctrl_session1) (Some data16) None False
      = Returns (SKS_BAD_PARAM, [1 \<mapsto> session_in PKCS11_SESSION_READY SKS_UNDEFINED_ID None], None)
   \<and> entry_cipher_final ref_env_short_buffer
        [1 \<mapsto> session_in PKCS11_SESSION_ENCRYPTING SKS_CKM_AES_ECB (Some 5)]
        (Some ctrl_session1) (Some data16) None False
      = Returns (SKS_BAD_PARAM, [1 \<mapsto> session_in PKCS11_SESSION_READY SKS_UNDEFINED_ID None], None)
   \<and> entry_cipher_update ref_env_short_buffer
        [1 \<mapsto> session_in PKCS11_SESSION_ENCRYPTING SKS_CKM_AES_ECB (Some 5)]
        (Some ctrl_session1) (Some data16) (Some buffer16) False
      = Returns (SKS_SHORT_BUFFER,
                 [1 \<mapsto> session_in PKCS11_SESSION_ENCRYPTING SKS_CKM_AES_ECB (Some 5)],
                 Some (buffer16\<lparr>memref_size := 32\<rparr>))
   \<and> entry_cipher_final ref_env_short_buffer
        [1 \<mapsto> session_in PKCS11_SESSION_ENCRYPTING SKS_CKM_AES_ECB (Some 5)]
        (Some ctrl_session1) (Some data16) (Some buffer16) False
      = Returns (SKS_SHORT_BUFFER,
                 [1 \<mapsto> session_in PKCS11_SESSION_ENCRYPTING SKS_CKM_AES_ECB (Some 5)],
                 Some (buffer16\<lparr>memref_size := 32\<rparr>))"
proof -
  let ?e = "session_in PKCS11_SESSION_ENCRYPTING SKS_CKM_AES_ECB (Some 5)"
  have a: "addressed_session ref_env_short_buffer [1 \<mapsto> ?e] (Some ctrl_session1) = Some (1, ?e)"
    by (simp add: addressed_session_def ref_data_defs)
  have p: "processing ?e = cipher_state False"
    by (simp add: session_in_def cipher_state_def)
  show ?thesis
    using short_buffer_without_output[OF a p, of "Some data16" buffer16]
    by (simp add: addressed_session_def ref_data_defs cipher_state_def cipher_update_switch_def
      cipher_final_switch_def entry_cipher_update_def entry_cipher_final_def
      check_processing_state_def release_and_return_eq ae_mechanism_def Let_def
      param_size_def param_buffer_def store_buffer_def store_size_def data16_def)
qed

subsection \<open>CCM and GCM decryption holds its output back\<close>

text \<open>
  Claim C3. A decrypt update on a session in \<^verbatim>\<open>DECRYPTING\<close> state whose mechanism is CCM
  or GCM returns, and the bytes of the caller's output buffer are what they were: the AE
  helper is given the input and the mechanism context of the session only. Whenever the
  entry point reports an output size (the call returns \<^verbatim>\<open>SKS_OK\<close> or
  \<^verbatim>\<open>SKS_SHORT_BUFFER\<close>) that size is 0, and what the helper produced is the mechanism
  context of the session. On any other code the output parameter is not written at all
  (and the operation is released).
\<close>

theorem ae_decrypt_update_emits_nothing:
  assumes "addressed_session env st ctrl = Some (h, session)"
    and "processing session = PKCS11_SESSION_DECRYPTING"
    and "proc_id session = SKS_CKM_AES_CCM \<or> proc_id session = SKS_CKM_AES_GCM"
  shows "\<exists>rv st' outp'.
           entry_cipher_update env st ctrl inp outp True = Returns (rv, st', outp')
         \<and> param_buffer outp' = param_buffer outp
         \<and> (if rv = SKS_OK \<or> rv = SKS_SHORT_BUFFER
            then outp' = store_size outp 0
               \<and> map_option proc_params (st' h)
                   = Some (snd (tee_ae_decrypt_update env (tee_op_handle session)
                                  (proc_params session) (param_buffer inp)
                                  (unat (param_size inp))))
            else outp' = outp)"
proof -
  from assms(1) obtain c rest where c: "ctrl = Some c"
    "serialargs_get_u32 env (serialargs_init c) = Inr (h, rest)"
    "sks_handle2session h st = Some session"
    by (rule addressed_sessionD)
  obtain rv0 ctx where ae: "tee_ae_decrypt_update env (tee_op_handle session)
      (proc_params session) (param_buffer inp) (unat (param_size inp)) = (rv0, ctx)"
    by (cases "tee_ae_decrypt_update env (tee_op_handle session)
      (proc_params session) (param_buffer inp) (unat (param_size inp))") auto
  have sw: "cipher_update_switch env session inp outp True
              = (rv0, session\<lparr>proc_params := ctx\<rparr>, outp, 0)"
    using assms(3) ae by (auto simp add: cipher_update_switch_def Let_def)
  show ?thesis
    using c assms(2) sw ae
    by (cases outp)
       (simp_all add: entry_cipher_update_def entry_prologue_defs release_and_return_eq
          Let_def store_size_def param_buffer_def)
qed

theorem ae_decrypt_update_emits_nothing_witness:
  "addressed_session ref_env
      [1 \<mapsto> session_in PKCS11_SESSION_DECRYPTING SKS_CKM_AES_GCM (Some 5)] (Some ctrl_session1)
     = Some (1, session_in PKCS11_SESSION_DECRYPTING SKS_CKM_AES_GCM (Some 5))
   \<and> processing (session_in PKCS11_SESSION_DECRYPTING SKS_CKM_AES_GCM (Some 5))
       = PKCS11_SESSION_DECRYPTING
   \<and> (proc_id (session_in PKCS11_SESSION_DECRYPTING SKS_CKM_AES_GCM (Some 5)) = SKS_CKM_AES_CCM
      \<or> proc_id (session_in PKCS11_SESSION_DECRYPTING SKS_CKM_AES_GCM (Some 5)) = SKS_CKM_AES_GCM)
   \<and> entry_cipher_update ref_env
        [1 \<mapsto> session_in PKCS11_SESSION_DECRYPTING SKS_CKM_AES_GCM (Some 5)]
        (Some ctrl_session1) (Some data16) (Some buffer16) True
      = Returns (SKS_OK,
          [1 \<mapsto> (session_in PKCS11_SESSION_DECRYPTING SKS_CKM_AES_GCM (Some 5))
                     \<lparr>proc_params := Some (replicate 16 1)\<rparr>],
          Some (buffer16\<lparr>memref_size := 0\<rparr>))"
proof -
  let ?d = "session_in PKCS11_SESSION_DECRYPTING SKS_CKM_AES_GCM (Some 5)"
  have a: "addressed_session ref_env [1 \<mapsto> ?d] (Some ctrl_session1) = Some (1, ?d)"
    by (simp add: addressed_session_def ref_data_defs)
  have p: "processing ?d = PKCS11_SESSION_DECRYPTING"
    by (simp add: session_in_def)
  have m: "proc_id ?d = SKS_CKM_AES_CCM \<or> proc_id ?d = SKS_CKM_AES_GCM"
    by (simp add: session_in_def)
  have ae: "tee_ae_decrypt_update ref_env (tee_op_handle ?d) (proc_params ?d)
              (param_buffer (Some data16)) (unat (param_size (Some data16)))
            = (SKS_OK, Some (replicate 16 1))"
    by (simp add: ref_data_defs data16_def param_buffer_def param_size_def)
  from ae_decrypt_update_emits_nothing[OF a p m, of "Some data16" "Some buffer16"]
  obtain rv st' outp' where r:
    "entry_cipher_update ref_env [1 \<mapsto> ?d] (Some ctrl_session1) (Some data16) (Some buffer16) True
       = Returns (rv, st', outp')"
    "param_buffer outp' = param_buffer (Some buffer16)"
    "if rv = SKS_OK \<or> rv = SKS_SHORT_BUFFER
     then outp' = store_size (Some buffer16) 0
        \<and> map_option proc_params (st' 1)
            = Some (snd (tee_ae_decrypt_update ref_env (tee_op_handle ?d) (proc_params ?d)
                 (param_buffer (Some data16)) (unat (param_size (Some data16)))))
     else outp' = Some buffer16"
    by blast
  have e: "entry_cipher_update ref_env [1 \<mapsto> ?d] (Some ctrl_session1) (Some data16)
             (Some buffer16) True
      = Returns (SKS_OK, [1 \<mapsto> ?d\<lparr>proc_params := Some (replicate 16 1)\<rparr>],
          Some (buffer16\<lparr>memref_size := 0\<rparr>))"
    using ae
    by (simp add: entry_cipher_update_def cipher_update_switch_def entry_prologue_defs
        Let_def store_size_def ctrl_session1_def serialargs_init_def sks_handle2session_def
        ref_env_def session_in_def)
  show ?thesis using a p m e r by simp
qed

subsection \<open>Init on a session that is not READY\<close>

text \<open>
  Claim C4, evaluated on the code. An init call on a session that is not in READY state
  does return \<^verbatim>\<open>SKS_CKR_OPERATION_ACTIVE\<close>, but it leaves through the \<^verbatim>\<open>bail\<close> label,
  which releases the active processing of the session: afterwards the session is in
  READY, its mechanism id is undefined and its operation handle is \<^verbatim>\<open>TEE_HANDLE_NULL\<close>.
  The operation that was active is gone, for cipher and sign/verify init alike.
\<close>

theorem init_on_active_session_releases_it:
  assumes "init_addressed_session env st ctrl = Some (h, k, params, session)"
    and "processing session \<noteq> PKCS11_SESSION_READY"
  shows "rv_of (entry_cipher_init env st ctrl None None decrypt) = Some SKS_CKR_OPERATION_ACTIVE
       \<and> operation_outcome (\<lambda>rv. False) h session (entry_cipher_init env st ctrl None None decrypt)
       \<and> rv_of (entry_signverify_init env st ctrl None None sign) = Some SKS_CKR_OPERATION_ACTIVE
       \<and> operation_outcome (\<lambda>rv. False) h session
           (entry_signverify_init env st ctrl None None sign)"
proof -
  from assms(1) obtain c a1 a2 a3 where c: "ctrl = Some c"
    "serialargs_get_u32 env (serialargs_init c) = Inr (h, a1)"
    "serialargs_get_u32 env a1 = Inr (k, a2)"
    "serialargs_alloc_get_one_attribute env a2 = Inr (params, a3)"
    "sks_handle2session h st = Some session"
    by (rule init_addressed_sessionD)
  have ci: "cipher_init_session env session k params decrypt
              = Returns (SKS_CKR_OPERATION_ACTIVE, session)"
    using assms(2) by (simp add: cipher_init_session_def check_processing_state_def)
  have si: "signverify_init_session env session k params sign
              = Returns (SKS_CKR_OPERATION_ACTIVE, session)"
    using assms(2) by (simp add: signverify_init_session_def check_processing_state_def)
  show ?thesis
    using c ci si
    by (simp add: entry_cipher_init_def entry_signverify_init_def release_and_return_eq
        rv_of_def operation_outcome_def operation_released_def)
qed

theorem init_on_active_session_releases_it_witness:
  "init_addressed_session ref_env
      [1 \<mapsto> session_in PKCS11_SESSION_ENCRYPTING SKS_CKM_AES_ECB (Some 5)] (Some ctrl_init1)
     = Some (1, 7, ref_mechanism_params SKS_CKM_AES_ECB [],
             session_in PKCS11_SESSION_ENCRYPTING SKS_CKM_AES_ECB (Some 5))
   \<and> processing (session_in PKCS11_SESSION_ENCRYPTING SKS_CKM_AES_ECB (Some 5))
       \<noteq> PKCS11_SESSION_READY
   \<and> entry_cipher_init ref_env
        [1 \<mapsto> session_in PKCS11_SESSION_ENCRYPTING SKS_CKM_AES_ECB (Some 5)]
        (Some ctrl_init1) None None False
      = Returns (SKS_CKR_OPERATION_ACTIVE,
                 [1 \<mapsto> session_in PKCS11_SESSION_READY SKS_UNDEFINED_ID None], None)
   \<and> entry_signverify_init ref_env
        [1 \<mapsto> session_in PKCS11_SESSION_ENCRYPTING SKS_CKM_AES_ECB (Some 5)]
        (Some ctrl_init1) None None True
      = Returns (SKS_CKR_OPERATION_ACTIVE,
                 [1 \<mapsto> session_in PKCS11_SESSION_READY SKS_UNDEFINED_ID None], None)"
proof -
  let ?e = "session_in PKCS11_SESSION_ENCRYPTING SKS_CKM_AES_ECB (Some 5)"
  have a: "init_addressed_session ref_env [1 \<mapsto> ?e] (Some ctrl_init1)
             = Some (1, 7, ref_mechanism_params SKS_CKM_AES_ECB [], ?e)"
    by (simp add: init_addressed_session_def ref_data_defs)
  have p: "processing ?e \<noteq> PKCS11_SESSION_READY"
    by (simp add: session_in_def)
  have c: "cipher_init_session ref_env ?e 7 (ref_mechanism_params SKS_CKM_AES_ECB []) False
              = Returns (SKS_CKR_OPERATION_ACTIVE, ?e)"
    by (simp add: cipher_init_session_def check_processing_state_def session_in_def)
  have s: "signverify_init_session ref_env ?e 7 (ref_mechanism_params SKS_CKM_AES_ECB []) True
              = Returns (SKS_CKR_OPERATION_ACTIVE, ?e)"
    by (simp add: signverify_init_session_def check_processing_state_def session_in_def)
  have e1: "entry_cipher_init ref_env [1 \<mapsto> ?e] (Some ctrl_init1) None None False
      = Returns (SKS_CKR_OPERATION_ACTIVE,
                 [1 \<mapsto> session_in PKCS11_SESSION_READY SKS_UNDEFINED_ID None], None)"
    using a c
    by (simp add: entry_cipher_init_def init_addressed_session_def release_and_return_eq
        ref_data_defs ae_mechanism_def split: sum.splits option.splits)
  have e2: "entry_signverify_init ref_env [1 \<mapsto> ?e] (Some ctrl_init1) None None True
      = Returns (SKS_CKR_OPERATION_ACTIVE,
                 [1 \<mapsto> session_in PKCS11_SESSION_READY SKS_UNDEFINED_ID None], None)"
    using a s
    by (simp add: entry_signverify_init_def init_addressed_session_def release_and_return_eq
        ref_data_defs ae_mechanism_def split: sum.splits option.splits)
  show ?thesis
    using a p e1 e2 init_on_active_session_releases_it[OF a p, of False True]
    by simp
qed

subsection \<open>Mechanism parameters of a cipher init\<close>

lemma cipher_init_session_to_allocation:
  assumes "processing session = PKCS11_SESSION_READY"
    and "objects session k = Some obj"
    and "policy_accepts env session params obj decrypt"
  shows "cipher_init_session env session k params decrypt =
     (case tee_operarion_params env (session\<lparr>processing := cipher_state decrypt\<rparr>) params obj
             (cipher_function decrypt) of
        Panic \<Rightarrow> Panic
      | NullDeref \<Rightarrow> NullDeref
      | Returns (rv3, s2) \<Rightarrow>
          if rv3 \<noteq> SKS_OK then Returns (rv3, s2)
          else if get_class (attributes obj) = SKS_CKO_SECRET_KEY then
            (case load_key env obj of
               Panic \<Rightarrow> Panic
             | NullDeref \<Rightarrow> NullDeref
             | Returns (rv4, obj1) \<Rightarrow>
                 (let s3 = s2\<lparr>objects := (objects s2)(k \<mapsto> obj1)\<rparr>
                  in if rv4 \<noteq> SKS_OK then Returns (rv4, s3)
                     else
                      (let res = TEE_SetOperationKey env (tee_op_handle s3) (key_handle obj1)
                       in if res \<noteq> 0 then Returns (tee2sks_error env res, s3)
                          else cipher_init_mechanism env s3 params)))
          else Returns (SKS_FAILED, s2))"
  using assms
  by (simp add: cipher_init_session_def check_processing_state_def set_processing_state_def
      sks_handle2object_def policy_accepts_def cipher_function_def cipher_state_def Let_def)

lemma tee_operarion_params_frame:
  assumes "tee_operarion_params env s params obj func = Returns (rv, s2)"
  shows "processing s2 = processing s \<and> proc_id s2 = proc_id s \<and> proc_params s2 = proc_params s
         \<and> objects s2 = objects s"
  using assms unfolding tee_operarion_params_def
  by (auto split: sum.splits if_splits prod.splits)

lemma entry_cipher_init_released:
  assumes "init_addressed_session env st ctrl = Some (h, k, params, session)"
    and "cipher_init_session env session k params decrypt = Returns (rv, s)"
    and "rv \<noteq> SKS_OK"
    and "proc_id s = proc_id session"
  shows "rv_of (entry_cipher_init env st ctrl None None decrypt) = Some rv
       \<and> operation_outcome (\<lambda>rv. False) h session (entry_cipher_init env st ctrl None None decrypt)"
proof -
  from assms(1) obtain c a1 a2 a3 where c: "ctrl = Some c"
    "serialargs_get_u32 env (serialargs_init c) = Inr (h, a1)"
    "serialargs_get_u32 env a1 = Inr (k, a2)"
    "serialargs_alloc_get_one_attribute env a2 = Inr (params, a3)"
    "sks_handle2session h st = Some session"
    by (rule init_addressed_sessionD)
  show ?thesis
    using c assms(2,3,4)
    by (simp add: entry_cipher_init_def release_and_return_eq rv_of_def operation_outcome_def
        operation_released_def)
qed

text \<open>
  Claim C5, evaluated on the code. A cipher init with mechanism \<^verbatim>\<open>AES_CBC_PAD\<close> on an
  AES key, with the session, key and policy checks passed, never reaches the check of the
  parameter size: \<^verbatim>\<open>tee_operarion_params\<close> has no case for \<^verbatim>\<open>AES_CBC_PAD\<close> and returns
  \<^verbatim>\<open>SKS_CKR_ATTRIBUTE_TYPE_INVALID\<close>, whatever the size of the parameter. The session is
  released.
\<close>

theorem cbc_pad_never_reaches_parameter_check:
  assumes "init_addressed_session env st ctrl = Some (h, k, params, session)"
    and "processing session = PKCS11_SESSION_READY"
    and "objects session k = Some obj"
    and "policy_accepts env session params obj decrypt"
    and "cka_value (attributes obj) = Some v"
    and "cka_key_type (attributes obj) = Some SKS_CKK_AES"
    and "attr_id params = SKS_CKM_AES_CBC_PAD"
  shows "rv_of (entry_cipher_init env st ctrl None None decrypt)
           = Some SKS_CKR_ATTRIBUTE_TYPE_INVALID
       \<and> operation_outcome (\<lambda>rv. False) h session (entry_cipher_init env st ctrl None None decrypt)"
proof -
  let ?s1 = "session\<lparr>processing := cipher_state decrypt\<rparr>"
  have top: "tee_operarion_params env ?s1 params obj (cipher_function decrypt)
               = Returns (SKS_CKR_ATTRIBUTE_TYPE_INVALID, ?s1)"
    using assms(5,6,7)
    by (simp add: tee_operarion_params_def get_attribute_ptr_value_def
        get_attribute_key_type_def tee_operation_select_def cipher_function_def)
  have "cipher_init_session env session k params decrypt
          = Returns (SKS_CKR_ATTRIBUTE_TYPE_INVALID, ?s1)"
    by (simp add: cipher_init_session_to_allocation[OF assms(2,3,4)] top)
  from entry_cipher_init_released[OF assms(1) this] show ?thesis by simp
qed

theorem cbc_pad_never_reaches_parameter_check_witness:
  "init_addressed_session (ref_env_reading (ref_mechanism_params SKS_CKM_AES_CBC_PAD (replicate 8 0)))
      [1 \<mapsto> ready_session] (Some ctrl_init1)
     = Some (1, 7, ref_mechanism_params SKS_CKM_AES_CBC_PAD (replicate 8 0), ready_session)
   \<and> processing ready_session = PKCS11_SESSION_READY
   \<and> objects ready_session 7 = Some aes_key
   \<and> policy_accepts (ref_env_reading (ref_mechanism_params SKS_CKM_AES_CBC_PAD (replicate 8 0)))
        ready_session (ref_mechanism_params SKS_CKM_AES_CBC_PAD (replicate 8 0)) aes_key False
   \<and> cka_value (attributes aes_key) = Some (replicate 16 0)
   \<and> cka_key_type (attributes aes_key) = Some SKS_CKK_AES
   \<and> attr_id (ref_mechanism_params SKS_CKM_AES_CBC_PAD (replicate 8 0)) = SKS_CKM_AES_CBC_PAD
   \<and> attr_size (ref_mechanism_params SKS_CKM_AES_CBC_PAD (replicate 8 0)) \<noteq> 16
   \<and> rv_of (entry_cipher_init
              (ref_env_reading (ref_mechanism_params SKS_CKM_AES_CBC_PAD (replicate 8 0)))
              [1 \<mapsto> ready_session] (Some ctrl_init1) None None False)
       = Some SKS_CKR_ATTRIBUTE_TYPE_INVALID"
proof -
  let ?p = "ref_mechanism_params SKS_CKM_AES_CBC_PAD (replicate 8 0)"
  let ?env = "ref_env_reading ?p"
  have a: "init_addressed_session ?env [1 \<mapsto> ready_session] (Some ctrl_init1)
             = Some (1, 7, ?p, ready_session)"
    by (simp add: init_addressed_session_def ref_env_reading_def ref_data_defs)
  have r: "processing ready_session = PKCS11_SESSION_READY"
    by (simp add: ready_session_def session_in_def)
  have o: "objects ready_session 7 = Some aes_key"
    by (simp add: ready_session_def session_in_def)
  have g: "policy_accepts ?env ready_session ?p aes_key False"
    by (simp add: policy_accepts_def ref_env_reading_def ref_env_def)
  have v: "cka_value (attributes aes_key) = Some (replicate 16 0)"
    by (simp add: aes_key_def aes_key_attrs_def)
  have t: "cka_key_type (attributes aes_key) = Some SKS_CKK_AES"
    by (simp add: aes_key_def aes_key_attrs_def)
  have i: "attr_id ?p = SKS_CKM_AES_CBC_PAD"
    by (simp add: ref_mechanism_params_def)
  have z: "attr_size ?p \<noteq> 16"
    by (simp add: ref_mechanism_params_def)
  show ?thesis
    using a r o g v t i z cbc_pad_never_reaches_parameter_check[OF a r o g v t i]
    by simp
qed

text \<open>For the mechanisms that \<^verbatim>\<open>tee_operarion_params\<close> knows, the parameter check does
  what is specified: once the operation is allocated and the key is loaded and bound,
  \<^verbatim>\<open>AES_ECB\<close> with a parameter and \<^verbatim>\<open>AES_CBC\<close> or \<^verbatim>\<open>AES_CTS\<close> with a parameter that is
  not 16 bytes long give \<^verbatim>\<open>SKS_CKR_MECHANISM_PARAM_INVALID\<close> and a released session.\<close>

lemma cipher_init_bad_parameter_size:
  assumes "init_addressed_session env st ctrl = Some (h, k, params, session)"
    and "processing session = PKCS11_SESSION_READY"
    and "objects session k = Some obj"
    and "policy_accepts env session params obj decrypt"
    and "tee_operarion_params env (session\<lparr>processing := cipher_state decrypt\<rparr>) params obj
           (cipher_function decrypt) = Returns (SKS_OK, s2)"
    and "get_class (attributes obj) = SKS_CKO_SECRET_KEY"
    and "load_key env obj = Returns (SKS_OK, obj1)"
    and "TEE_SetOperationKey env (tee_op_handle s2) (key_handle obj1) = 0"
    and "attr_id params = SKS_CKM_AES_ECB \<and> attr_size params \<noteq> 0
         \<or> (attr_id params = SKS_CKM_AES_CBC \<or> attr_id params = SKS_CKM_AES_CTS)
            \<and> attr_size params \<noteq> 16"
  shows "rv_of (entry_cipher_init env st ctrl None None decrypt)
           = Some SKS_CKR_MECHANISM_PARAM_INVALID
       \<and> operation_outcome (\<lambda>rv. False) h session (entry_cipher_init env st ctrl None None decrypt)"
proof -
  let ?s3 = "s2\<lparr>objects := (objects s2)(k \<mapsto> obj1)\<rparr>"
  note fr = tee_operarion_params_frame[OF assms(5)]
  have m: "cipher_init_mechanism env ?s3 params = Returns (SKS_CKR_MECHANISM_PARAM_INVALID, ?s3)"
    using assms(9) by (auto simp add: cipher_init_mechanism_def Let_def)
  have "cipher_init_session env session k params decrypt
          = Returns (SKS_CKR_MECHANISM_PARAM_INVALID, ?s3)"
    using assms(5,6,7,8) m
    by (simp add: cipher_init_session_to_allocation[OF assms(2,3,4)] Let_def)
  from entry_cipher_init_released[OF assms(1) this] fr show ?thesis by simp
qed

subsection \<open>Loading a key when the provider cannot allocate\<close>

text \<open>
  Claim C6, evaluated on the code. When the key is not loaded yet, its type is known and
  its value is there, and \<^verbatim>\<open>TEE_AllocateTransientObject\<close> fails, \<^verbatim>\<open>load_key\<close> returns
  the local \<^verbatim>\<open>rv\<close>, which is \<^verbatim>\<open>SKS_OK\<close> at that point, and not the translation of the
  provider result.
\<close>

theorem load_key_allocation_failure_returns_ok:
  assumes "key_handle obj = None"
    and "get_tee_object_info (attributes obj) = (SKS_OK, Some (t, a))"
    and "cka_value (attributes obj) = Some v"
    and "fst (TEE_AllocateTransientObject env t (of_nat (length v) * 8)) \<noteq> 0"
  shows "load_key env obj = Returns (SKS_OK, obj)"
  using assms
  by (cases "TEE_AllocateTransientObject env t (of_nat (length v) * 8)")
     (simp add: load_key_def get_attribute_ptr_value_def)

theorem load_key_allocation_failure_returns_ok_witness:
  "key_handle aes_key = None
   \<and> get_tee_object_info (attributes aes_key) = (SKS_OK, Some (TEE_TYPE_AES, TEE_ATTR_SECRET_VALUE))
   \<and> cka_value (attributes aes_key) = Some (replicate 16 0)
   \<and> fst (TEE_AllocateTransientObject ref_env_out_of_memory TEE_TYPE_AES
            (of_nat (length (replicate 16 (0::u8))) * 8)) \<noteq> 0
   \<and> tee2sks_error ref_env_out_of_memory TEE_ERROR_OUT_OF_MEMORY = SKS_MEMORY
   \<and> load_key ref_env_out_of_memory aes_key = Returns (SKS_OK, aes_key)"
proof -
  have h1: "key_handle aes_key = None" by (simp add: aes_key_def)
  have h2: "get_tee_object_info (attributes aes_key)
              = (SKS_OK, Some (TEE_TYPE_AES, TEE_ATTR_SECRET_VALUE))"
    by (simp add: get_tee_object_info_def get_type_def get_attribute_key_type_def
        aes_key_def aes_key_attrs_def)
  have h3: "cka_value (attributes aes_key) = Some (replicate 16 0)"
    by (simp add: aes_key_def aes_key_attrs_def)
  have h4: "fst (TEE_AllocateTransientObject ref_env_out_of_memory TEE_TYPE_AES
            (of_nat (length (replicate 16 (0::u8))) * 8)) \<noteq> 0"
    by (simp add: ref_env_out_of_memory_def ref_env_def TEE_ERROR_OUT_OF_MEMORY_def)
  have h5: "tee2sks_error ref_env_out_of_memory TEE_ERROR_OUT_OF_MEMORY = SKS_MEMORY"
    by (simp add: ref_env_out_of_memory_def ref_data_defs)
  show ?thesis
    using h1 h2 h3 h4 h5 load_key_allocation_failure_returns_ok[OF h1 h2 h3 h4]
    by simp
qed

subsection \<open>Caller errors\<close>

lemma operation_outcome_kept:
  assumes "operation_outcome keeps h session r" and "rv_of r = Some rv" and "keeps rv"
  shows "operation_outcome (\<lambda>rv. True) h session r"
  using assms
  by (auto simp add: operation_outcome_def rv_of_def split: outcome.splits option.splits)

text \<open>A session handle that resolves to no session: \<^verbatim>\<open>entry_signverify_init\<close> reports
  it, \<^verbatim>\<open>entry_cipher_init\<close> passes the \<^verbatim>\<open>NULL\<close> session to \<^verbatim>\<open>release_active_processing\<close>.\<close>

lemma entry_cipher_init_unknown_session:
  assumes "ctrl = Some c"
    and "serialargs_get_u32 env (serialargs_init c) = Inr (h, a1)"
    and "serialargs_get_u32 env a1 = Inr (k, a2)"
    and "serialargs_alloc_get_one_attribute env a2 = Inr (params, a3)"
    and "sks_handle2session h st = None"
  shows "entry_cipher_init env st ctrl None None decrypt = NullDeref"
    and "entry_signverify_init env st ctrl None None sign
           = Returns (SKS_CKR_SESSION_HANDLE_INVALID, st, None)"
  using assms by (simp_all add: entry_cipher_init_def entry_signverify_init_def)

text \<open>Object import and generation never write the processing state of a session.\<close>

lemma generate_random_key_value_blob:
  assumes "generate_random_key_value oenv (Some head) = (SKS_OK, head1)"
  shows "head1 \<noteq> None"
  using assms
  by (auto simp add: generate_random_key_value_def Let_def split: prod.splits if_splits)

lemma import_object_processing_kept:
  "processing_kept h st (entry_import_object env oenv st ctrl inp outp)"
  by (auto simp add: entry_import_object_def processing_kept_def processing_state_def Let_def
      sks_handle2session_def split: option.splits sum.splits prod.splits)

lemma generate_object_processing_kept:
  "processing_kept h st (entry_generate_object env oenv st ctrl inp outp)"
  by (auto simp add: entry_generate_object_def processing_kept_def processing_state_def Let_def
      sks_handle2session_def dest: generate_random_key_value_blob
      split: option.splits sum.splits prod.splits)

text \<open>An init on a READY session that returns an error has released the session, which
  is READY again; with an unknown key handle that error is
  \<^verbatim>\<open>SKS_CKR_KEY_HANDLE_INVALID\<close>.\<close>

lemma init_released_after_error:
  assumes "init_addressed_session env st ctrl = Some (h, k, params, session)"
    and "processing session = PKCS11_SESSION_READY"
  shows "rv_of (entry_cipher_init env st ctrl None None decrypt) = Some rv \<Longrightarrow> rv \<noteq> SKS_OK
           \<Longrightarrow> state_value_kept h st (entry_cipher_init env st ctrl None None decrypt)"
    and "rv_of (entry_signverify_init env st ctrl None None sign) = Some rv \<Longrightarrow> rv \<noteq> SKS_OK
           \<Longrightarrow> state_value_kept h st (entry_signverify_init env st ctrl None None sign)"
proof -
  from assms(1) obtain c a1 a2 a3 where c: "ctrl = Some c"
    "serialargs_get_u32 env (serialargs_init c) = Inr (h, a1)"
    "serialargs_get_u32 env a1 = Inr (k, a2)"
    "serialargs_alloc_get_one_attribute env a2 = Inr (params, a3)"
    "sks_handle2session h st = Some session"
    by (rule init_addressed_sessionD)
  from c(5) have sh: "st h = Some session" by (simp add: sks_handle2session_def)
  show "state_value_kept h st (entry_cipher_init env st ctrl None None decrypt)"
    if "rv_of (entry_cipher_init env st ctrl None None decrypt) = Some rv" "rv \<noteq> SKS_OK"
    using that c sh assms(2)
    by (cases "cipher_init_session env session k params decrypt")
       (auto simp add: entry_cipher_init_def rv_of_def state_value_kept_def
          release_and_return_eq split: if_splits)
  show "state_value_kept h st (entry_signverify_init env st ctrl None None sign)"
    if "rv_of (entry_signverify_init env st ctrl None None sign) = Some rv" "rv \<noteq> SKS_OK"
    using that c sh assms(2)
    by (cases "signverify_init_session env session k params sign")
       (auto simp add: entry_signverify_init_def rv_of_def state_value_kept_def
          release_and_return_eq split: if_splits)
qed

lemma init_unknown_key_handle:
  assumes "init_addressed_session env st ctrl = Some (h, k, params, session)"
    and "processing session = PKCS11_SESSION_READY"
    and "objects session k = None"
  shows "rv_of (entry_cipher_init env st ctrl None None decrypt) = Some SKS_CKR_KEY_HANDLE_INVALID"
    and "rv_of (entry_signverify_init env st ctrl None None sign) = Some SKS_CKR_KEY_HANDLE_INVALID"
    and "proc_id session = SKS_UNDEFINED_ID \<Longrightarrow> tee_op_handle session = None
           \<Longrightarrow> entry_cipher_init env st ctrl None None decrypt
                = Returns (SKS_CKR_KEY_HANDLE_INVALID, st, None)"
    and "proc_id session = SKS_UNDEFINED_ID \<Longrightarrow> tee_op_handle session = None
           \<Longrightarrow> entry_signverify_init env st ctrl None None sign
                = Returns (SKS_CKR_KEY_HANDLE_INVALID, st, None)"
proof -
  from assms(1) obtain c a1 a2 a3 where c: "ctrl = Some c"
    "serialargs_get_u32 env (serialargs_init c) = Inr (h, a1)"
    "serialargs_get_u32 env a1 = Inr (k, a2)"
    "serialargs_alloc_get_one_attribute env a2 = Inr (params, a3)"
    "sks_handle2session h st = Some session"
    by (rule init_addressed_sessionD)
  from c(5) have sh: "st h = Some session" by (simp add: sks_handle2session_def)
  have ci: "cipher_init_session env session k params decrypt
              = Returns (SKS_CKR_KEY_HANDLE_INVALID,
                         session\<lparr>processing := cipher_state decrypt\<rparr>)"
    using assms(2,3)
    by (simp add: cipher_init_session_def check_processing_state_def set_processing_state_def
        sks_handle2object_def cipher_state_def Let_def)
  have si: "signverify_init_session env session k params sign
              = Returns (SKS_CKR_KEY_HANDLE_INVALID,
                         session\<lparr>processing := signverify_state sign\<rparr>)"
    using assms(2,3)
    by (simp add: signverify_init_session_def check_processing_state_def
        set_processing_state_def sks_handle2object_def signverify_state_def Let_def)
  show "rv_of (entry_cipher_init env st ctrl None None decrypt) = Some SKS_CKR_KEY_HANDLE_INVALID"
    using c ci by (simp add: entry_cipher_init_def release_and_return_eq rv_of_def)
  show "rv_of (entry_signverify_init env st ctrl None None sign) = Some SKS_CKR_KEY_HANDLE_INVALID"
    using c si by (simp add: entry_signverify_init_def release_and_return_eq rv_of_def)
  have idle: "session\<lparr>processing := PKCS11_SESSION_READY, proc_id := SKS_UNDEFINED_ID,
                       tee_op_handle := None\<rparr> = session"
    if "proc_id session = SKS_UNDEFINED_ID" "tee_op_handle session = None"
    using that assms(2) by simp
  show "entry_cipher_init env st ctrl None None decrypt
          = Returns (SKS_CKR_KEY_HANDLE_INVALID, st, None)"
    if "proc_id session = SKS_UNDEFINED_ID" "tee_op_handle session = None"
    using c ci sh that idle[OF that]
    by (simp add: entry_cipher_init_def release_and_return_eq ae_mechanism_def fun_upd_idem)
  show "entry_signverify_init env st ctrl None None sign
          = Returns (SKS_CKR_KEY_HANDLE_INVALID, st, None)"
    if "proc_id session = SKS_UNDEFINED_ID" "tee_op_handle session = None"
    using c si sh that idle[OF that]
    by (simp add: entry_signverify_init_def release_and_return_eq ae_mechanism_def fun_upd_idem)
qed

text \<open>
  Claim C7 fails on the code: a sign/verify update on an active \<^verbatim>\<open>SIGNING\<close> operation,
  called without an input buffer, or with an output buffer, returns \<^verbatim>\<open>SKS_BAD_PARAM\<close>
  and the session is back in READY with its operation released.
\<close>

theorem signverify_update_bad_param_counterexample:
  "entry_signverify_update ref_env
      [1 \<mapsto> session_in PKCS11_SESSION_SIGNING SKS_CKM_AES_CMAC (Some 5)]
      (Some ctrl_session1) None None True
     = Returns (SKS_BAD_PARAM, [1 \<mapsto> session_in PKCS11_SESSION_READY SKS_UNDEFINED_ID None], None)
   \<and> entry_signverify_update ref_env
      [1 \<mapsto> session_in PKCS11_SESSION_SIGNING SKS_CKM_AES_CMAC (Some 5)]
      (Some ctrl_session1) (Some data16) (Some buffer16) True
     = Returns (SKS_BAD_PARAM, [1 \<mapsto> session_in PKCS11_SESSION_READY SKS_UNDEFINED_ID None],
                Some buffer16)
   \<and> processing (session_in PKCS11_SESSION_READY SKS_UNDEFINED_ID None)
       \<noteq> processing (session_in PKCS11_SESSION_SIGNING SKS_CKM_AES_CMAC (Some 5))"
  by (simp add: entry_signverify_update_def ref_data_defs check_processing_state_def
      release_and_return_eq ae_mechanism_def)

text \<open>
  Claim C7 as amended. For every entry point of \<^verbatim>\<open>processing.c\<close>, a caller error found
  before the call works on an active operation is reported without any change to the
  processing state of any session:
  \<^item> a missing control parameter (all cipher and sign/verify entry points), and an input
    or output parameter given to an init: \<^verbatim>\<open>SKS_BAD_PARAM\<close>, nothing changes;
  \<^item> on the update and final entry points, a control buffer the reader cannot read the
    session handle from, and a session handle that resolves to no session: nothing
    changes;
  \<^item> on the init entry points, a control buffer the reader cannot read the session
    handle, the key handle or the mechanism parameters from: nothing changes; on
    \<^verbatim>\<open>entry_signverify_init\<close>, a session handle that resolves to no session: nothing
    changes (\<^verbatim>\<open>entry_cipher_init\<close> with such a handle is left out);
  \<^item> on the init entry points with a READY session, a key handle that resolves to no
    object is reported as \<^verbatim>\<open>SKS_CKR_KEY_HANDLE_INVALID\<close> and the session is READY as
    before (and nothing at all changes when the session held no mechanism id and no
    operation handle); whatever error an init returns on a READY session, the session
    is READY afterwards;
  \<^item> \<^verbatim>\<open>entry_import_object\<close> and \<^verbatim>\<open>entry_generate_object\<close> never change the processing
    state of a session, whatever they return; their missing or unexpected parameters give
    \<^verbatim>\<open>SKS_BAD_PARAM\<close>, an output buffer under four bytes \<^verbatim>\<open>SKS_SHORT_BUFFER\<close> with the
    size set to four, a misaligned output buffer \<^verbatim>\<open>SKS_BAD_PARAM\<close>, an unreadable
    control buffer the reader's code and an unknown session handle
    \<^verbatim>\<open>SKS_CKR_SESSION_HANDLE_INVALID\<close>, all with nothing changed.

  A call on the active operation that returns \<^verbatim>\<open>SKS_SHORT_BUFFER\<close> keeps the operation.
  A sign/verify update made on the active operation without an input buffer, or with an
  output buffer, returns \<^verbatim>\<open>SKS_BAD_PARAM\<close> and releases the operation. (\<open>flag\<close> is the last
  argument of the cipher and sign/verify entry points: \<^verbatim>\<open>decrypt\<close> or \<^verbatim>\<open>sign\<close>.)
\<close>

theorem caller_errors_before_and_after_state_check:
  "(ctrl = None \<longrightarrow>
       entry_cipher_init env st ctrl inp outp flag = Returns (SKS_BAD_PARAM, st, outp)
     \<and> entry_cipher_update env st ctrl inp outp flag = Returns (SKS_BAD_PARAM, st, outp)
     \<and> entry_cipher_final env st ctrl inp outp flag = Returns (SKS_BAD_PARAM, st, outp)
     \<and> entry_signverify_init env st ctrl inp outp flag = Returns (SKS_BAD_PARAM, st, outp)
     \<and> entry_signverify_update env st ctrl inp outp flag = Returns (SKS_BAD_PARAM, st, outp)
     \<and> entry_signverify_final env st ctrl inp outp flag = Returns (SKS_BAD_PARAM, st, outp))
   \<and> (inp \<noteq> None \<or> outp \<noteq> None \<longrightarrow>
       entry_cipher_init env st ctrl inp outp flag = Returns (SKS_BAD_PARAM, st, outp)
     \<and> entry_signverify_init env st ctrl inp outp flag = Returns (SKS_BAD_PARAM, st, outp))
   \<and> (\<forall>c rv. ctrl = Some c \<and> serialargs_get_u32 env (serialargs_init c) = Inl rv \<longrightarrow>
       entry_cipher_update env st ctrl inp outp flag = Returns (rv, st, outp)
     \<and> entry_cipher_final env st ctrl inp outp flag = Returns (rv, st, outp)
     \<and> entry_signverify_update env st ctrl inp outp flag = Returns (rv, st, outp)
     \<and> entry_signverify_final env st ctrl inp outp flag = Returns (rv, st, outp))
   \<and> (\<forall>c h rest. ctrl = Some c \<and> serialargs_get_u32 env (serialargs_init c) = Inr (h, rest)
         \<and> sks_handle2session h st = None \<longrightarrow>
       entry_cipher_update env st ctrl inp outp flag
         = Returns (SKS_CKR_SESSION_HANDLE_INVALID, st, outp)
     \<and> entry_cipher_final env st ctrl inp outp flag
         = Returns (SKS_CKR_SESSION_HANDLE_INVALID, st, outp)
     \<and> entry_signverify_update env st ctrl inp outp flag
         = Returns (SKS_CKR_SESSION_HANDLE_INVALID, st, outp)
     \<and> entry_signverify_final env st ctrl inp outp flag
         = Returns (SKS_CKR_SESSION_HANDLE_INVALID, st, outp))
   \<and> (\<forall>h session. addressed_session env st ctrl = Some (h, session)
         \<and> processing session = cipher_state flag
         \<and> rv_of (entry_cipher_update env st ctrl inp outp flag) = Some SKS_SHORT_BUFFER \<longrightarrow>
       operation_outcome (\<lambda>rv. True) h session (entry_cipher_update env st ctrl inp outp flag))
   \<and> (\<forall>h session. addressed_session env st ctrl = Some (h, session)
         \<and> processing session = cipher_state flag
         \<and> rv_of (entry_cipher_final env st ctrl inp outp flag) = Some SKS_SHORT_BUFFER \<longrightarrow>
       operation_outcome (\<lambda>rv. True) h session (entry_cipher_final env st ctrl inp outp flag))
   \<and> (\<forall>h session. addressed_session env st ctrl = Some (h, session)
         \<and> processing session = signverify_state flag
         \<and> rv_of (entry_signverify_final env st ctrl inp outp flag) = Some SKS_SHORT_BUFFER \<longrightarrow>
       operation_outcome (\<lambda>rv. True) h session
         (entry_signverify_final env st ctrl inp outp flag))
   \<and> (\<forall>h session. addressed_session env st ctrl = Some (h, session)
         \<and> processing session = signverify_state flag \<and> (inp = None \<or> outp \<noteq> None) \<longrightarrow>
       rv_of (entry_signverify_update env st ctrl inp outp flag) = Some SKS_BAD_PARAM
     \<and> operation_outcome (\<lambda>rv. False) h session
         (entry_signverify_update env st ctrl inp outp flag))
   \<and> (\<forall>c rv. ctrl = Some c \<and> inp = None \<and> outp = None \<and> init_arguments env c = Inl rv \<longrightarrow>
       entry_cipher_init env st ctrl inp outp flag = Returns (rv, st, outp)
     \<and> entry_signverify_init env st ctrl inp outp flag = Returns (rv, st, outp))
   \<and> (\<forall>c h k params. ctrl = Some c \<and> inp = None \<and> outp = None
         \<and> init_arguments env c = Inr (h, k, params) \<and> sks_handle2session h st = None \<longrightarrow>
       entry_signverify_init env st ctrl inp outp flag
         = Returns (SKS_CKR_SESSION_HANDLE_INVALID, st, outp))
   \<and> (\<forall>h k params session. init_addressed_session env st ctrl = Some (h, k, params, session)
         \<and> processing session = PKCS11_SESSION_READY \<and> objects session k = None \<longrightarrow>
       rv_of (entry_cipher_init env st ctrl None None flag) = Some SKS_CKR_KEY_HANDLE_INVALID
     \<and> rv_of (entry_signverify_init env st ctrl None None flag) = Some SKS_CKR_KEY_HANDLE_INVALID
     \<and> state_value_kept h st (entry_cipher_init env st ctrl None None flag)
     \<and> state_value_kept h st (entry_signverify_init env st ctrl None None flag)
     \<and> (proc_id session = SKS_UNDEFINED_ID \<and> tee_op_handle session = None \<longrightarrow>
          entry_cipher_init env st ctrl None None flag
            = Returns (SKS_CKR_KEY_HANDLE_INVALID, st, None)
        \<and> entry_signverify_init env st ctrl None None flag
            = Returns (SKS_CKR_KEY_HANDLE_INVALID, st, None)))
   \<and> (\<forall>h k params session rv. init_addressed_session env st ctrl = Some (h, k, params, session)
         \<and> processing session = PKCS11_SESSION_READY \<and> rv \<noteq> SKS_OK \<longrightarrow>
       (rv_of (entry_cipher_init env st ctrl None None flag) = Some rv \<longrightarrow>
          state_value_kept h st (entry_cipher_init env st ctrl None None flag))
     \<and> (rv_of (entry_signverify_init env st ctrl None None flag) = Some rv \<longrightarrow>
          state_value_kept h st (entry_signverify_init env st ctrl None None flag)))
   \<and> (\<forall>h'. processing_kept h' st (entry_import_object env oenv st ctrl inp outp)
          \<and> processing_kept h' st (entry_generate_object env oenv st ctrl inp outp))
   \<and> (ctrl = None \<or> inp \<noteq> None \<or> outp = None \<longrightarrow>
       entry_import_object env oenv st ctrl inp outp = Returns (SKS_BAD_PARAM, st, outp)
     \<and> entry_generate_object env oenv st ctrl inp outp = Returns (SKS_BAD_PARAM, st, outp))
   \<and> (\<forall>c out. ctrl = Some c \<and> inp = None \<and> outp = Some out \<and> memref_size out < 4 \<longrightarrow>
       entry_import_object env oenv st ctrl inp outp
         = Returns (SKS_SHORT_BUFFER, st, Some (out\<lparr>memref_size := 4\<rparr>))
     \<and> entry_generate_object env oenv st ctrl inp outp
         = Returns (SKS_SHORT_BUFFER, st, Some (out\<lparr>memref_size := 4\<rparr>)))
   \<and> (\<forall>c out. ctrl = Some c \<and> inp = None \<and> outp = Some out \<and> 4 \<le> memref_size out
         \<and> out_buffer_misaligned oenv out \<longrightarrow>
       entry_import_object env oenv st ctrl inp outp = Returns (SKS_BAD_PARAM, st, outp)
     \<and> entry_generate_object env oenv st ctrl inp outp = Returns (SKS_BAD_PARAM, st, outp))
   \<and> (\<forall>c out rv. ctrl = Some c \<and> inp = None \<and> outp = Some out \<and> 4 \<le> memref_size out
         \<and> \<not> out_buffer_misaligned oenv out
         \<and> serialargs_get_u32 env (serialargs_init c) = Inl rv \<longrightarrow>
       entry_import_object env oenv st ctrl inp outp = Returns (rv, st, outp)
     \<and> entry_generate_object env oenv st ctrl inp outp = Returns (rv, st, outp))
   \<and> (\<forall>c out h. ctrl = Some c \<and> inp = None \<and> outp = Some out \<and> 4 \<le> memref_size out
         \<and> \<not> out_buffer_misaligned oenv out \<and> sks_handle2session h st = None \<longrightarrow>
       (\<forall>a1 template a2. serialargs_get_u32 env (serialargs_init c) = Inr (h, a1)
           \<and> serialargs_alloc_get_attributes oenv a1 = Inr (template, a2) \<longrightarrow>
          entry_import_object env oenv st ctrl inp outp
            = Returns (SKS_CKR_SESSION_HANDLE_INVALID, st, outp))
     \<and> (\<forall>a1 params a2 template a3. serialargs_get_u32 env (serialargs_init c) = Inr (h, a1)
           \<and> serialargs_alloc_get_one_attribute env a1 = Inr (params, a2)
           \<and> serialargs_alloc_get_attributes oenv a2 = Inr (template, a3) \<longrightarrow>
          entry_generate_object env oenv st ctrl inp outp
            = Returns (SKS_CKR_SESSION_HANDLE_INVALID, st, outp)))"
  (is "?no_ctrl \<and> ?init_params \<and> ?under_run \<and> ?no_session \<and> ?short_update \<and> ?short_final
       \<and> ?short_mac \<and> ?update_released \<and> ?init_under_run \<and> ?init_no_session \<and> ?init_no_key
       \<and> ?init_error \<and> ?object_frame \<and> ?object_params \<and> ?object_short \<and> ?object_misaligned
       \<and> ?object_under_run \<and> ?object_no_session")
proof -
  have 1: ?no_ctrl
    by (simp add: entry_cipher_init_def entry_cipher_update_def entry_cipher_final_def
        entry_signverify_init_def entry_signverify_update_def entry_signverify_final_def)
  have 2: ?init_params
    by (auto simp add: entry_cipher_init_def entry_signverify_init_def split: option.splits)
  have 3: ?under_run
    by (auto simp add: entry_cipher_update_def entry_cipher_final_def
        entry_signverify_update_def entry_signverify_final_def)
  have 4: ?no_session
    by (auto simp add: entry_cipher_update_def entry_cipher_final_def
        entry_signverify_update_def entry_signverify_final_def)
  have 5: ?short_update
    using cipher_update_outcome operation_outcome_kept by blast
  have 6: ?short_final
    using cipher_final_outcome operation_outcome_kept by blast
  have 7: ?short_mac
    using signverify_final_outcome operation_outcome_kept by blast
  have 8: ?update_released
  proof (intro allI impI)
    fix h session
    assume a: "addressed_session env st ctrl = Some (h, session)
         \<and> processing session = signverify_state flag \<and> (inp = None \<or> outp \<noteq> None)"
    then obtain c rest where c: "ctrl = Some c"
      "serialargs_get_u32 env (serialargs_init c) = Inr (h, rest)"
      "sks_handle2session h st = Some session"
      by (blast elim: addressed_sessionD)
    have b: "\<not> (inp \<noteq> None \<and> outp = None)" using a by blast
    show "rv_of (entry_signverify_update env st ctrl inp outp flag) = Some SKS_BAD_PARAM
        \<and> operation_outcome (\<lambda>rv. False) h session
            (entry_signverify_update env st ctrl inp outp flag)"
      using a b c
      by (simp add: entry_signverify_update_def entry_prologue_defs release_and_return_eq
          rv_of_def operation_outcome_def operation_released_def)
  qed
  have 9: ?init_under_run
    by (auto simp add: entry_cipher_init_def entry_signverify_init_def init_arguments_def
        split: sum.splits)
  have 10: ?init_no_session
    by (auto simp add: entry_signverify_init_def init_arguments_def split: sum.splits)
  have 11: ?init_no_key
  proof (intro allI impI)
    fix h k params session
    assume a: "init_addressed_session env st ctrl = Some (h, k, params, session)
         \<and> processing session = PKCS11_SESSION_READY \<and> objects session k = None"
    then have a1: "init_addressed_session env st ctrl = Some (h, k, params, session)"
      and a2: "processing session = PKCS11_SESSION_READY" and a3: "objects session k = None"
      by simp_all
    note k = init_unknown_key_handle[OF a1 a2 a3]
    note r = init_released_after_error[OF a1 a2]
    have c: "state_value_kept h st (entry_cipher_init env st ctrl None None flag)"
      by (rule r(1)[OF k(1)]) simp
    have s: "state_value_kept h st (entry_signverify_init env st ctrl None None flag)"
      by (rule r(2)[OF k(2)]) simp
    show "rv_of (entry_cipher_init env st ctrl None None flag) = Some SKS_CKR_KEY_HANDLE_INVALID
     \<and> rv_of (entry_signverify_init env st ctrl None None flag) = Some SKS_CKR_KEY_HANDLE_INVALID
     \<and> state_value_kept h st (entry_cipher_init env st ctrl None None flag)
     \<and> state_value_kept h st (entry_signverify_init env st ctrl None None flag)
     \<and> (proc_id session = SKS_UNDEFINED_ID \<and> tee_op_handle session = None \<longrightarrow>
          entry_cipher_init env st ctrl None None flag
            = Returns (SKS_CKR_KEY_HANDLE_INVALID, st, None)
        \<and> entry_signverify_init env st ctrl None None flag
            = Returns (SKS_CKR_KEY_HANDLE_INVALID, st, None))"
      using k c s by blast
  qed
  have 18: ?init_error
    using init_released_after_error by blast
  have 12: ?object_frame
    using import_object_processing_kept generate_object_processing_kept by blast
  have 13: ?object_params
    by (auto simp add: entry_import_object_def entry_generate_object_def split: option.splits)
  have 14: ?object_short
    by (simp add: entry_import_object_def entry_generate_object_def)
  have 15: ?object_misaligned
    by (auto simp add: entry_import_object_def entry_generate_object_def not_less[symmetric])
  have 16: ?object_under_run
    by (auto simp add: entry_import_object_def entry_generate_object_def not_less[symmetric])
  have 17: ?object_no_session
    by (auto simp add: entry_import_object_def entry_generate_object_def not_less[symmetric])
  from 1 2 3 4 5 6 7 8 9 10 11 18 12 13 14 15 16 17 show ?thesis by (intro conjI)
qed

theorem caller_errors_before_and_after_state_check_witness:
  "entry_cipher_init ref_env [1 \<mapsto> ready_session] None None None False
     = Returns (SKS_BAD_PARAM, [1 \<mapsto> ready_session], None)
   \<and> entry_cipher_update ref_env [1 \<mapsto> ready_session] None None None False
     = Returns (SKS_BAD_PARAM, [1 \<mapsto> ready_session], None)
   \<and> entry_signverify_final ref_env [1 \<mapsto> ready_session] None None None False
     = Returns (SKS_BAD_PARAM, [1 \<mapsto> ready_session], None)
   \<and> entry_cipher_init ref_env [1 \<mapsto> ready_session] (Some ctrl_init1) (Some data16) None False
     = Returns (SKS_BAD_PARAM, [1 \<mapsto> ready_session], None)
   \<and> entry_signverify_init ref_env [1 \<mapsto> ready_session] (Some ctrl_init1) (Some data16) None
        False
     = Returns (SKS_BAD_PARAM, [1 \<mapsto> ready_session], None)
   \<and> serialargs_get_u32 ref_env (serialargs_init ctrl_truncated) = Inl SKS_BAD_PARAM
   \<and> entry_cipher_update ref_env
        [1 \<mapsto> session_in PKCS11_SESSION_SIGNING SKS_CKM_AES_CMAC (Some 5)]
        (Some ctrl_truncated) None None True
     = Returns (SKS_BAD_PARAM,
                [1 \<mapsto> session_in PKCS11_SESSION_SIGNING SKS_CKM_AES_CMAC (Some 5)], None)
   \<and> entry_signverify_update ref_env
        [1 \<mapsto> session_in PKCS11_SESSION_SIGNING SKS_CKM_AES_CMAC (Some 5)]
        (Some ctrl_truncated) None None True
     = Returns (SKS_BAD_PARAM,
                [1 \<mapsto> session_in PKCS11_SESSION_SIGNING SKS_CKM_AES_CMAC (Some 5)], None)
   \<and> serialargs_get_u32 ref_env (serialargs_init ctrl_session1) = Inr (1, [])
   \<and> sks_handle2session 1 [2 \<mapsto> session_in PKCS11_SESSION_SIGNING SKS_CKM_AES_CMAC (Some 5)]
       = None
   \<and> entry_cipher_final ref_env
        [2 \<mapsto> session_in PKCS11_SESSION_SIGNING SKS_CKM_AES_CMAC (Some 5)]
        (Some ctrl_session1) None None True
     = Returns (SKS_CKR_SESSION_HANDLE_INVALID,
                [2 \<mapsto> session_in PKCS11_SESSION_SIGNING SKS_CKM_AES_CMAC (Some 5)], None)
   \<and> entry_signverify_update ref_env
        [2 \<mapsto> session_in PKCS11_SESSION_SIGNING SKS_CKM_AES_CMAC (Some 5)]
        (Some ctrl_session1) None None True
     = Returns (SKS_CKR_SESSION_HANDLE_INVALID,
                [2 \<mapsto> session_in PKCS11_SESSION_SIGNING SKS_CKM_AES_CMAC (Some 5)], None)
   \<and> addressed_session ref_env
        [1 \<mapsto> session_in PKCS11_SESSION_SIGNING SKS_CKM_AES_CMAC (Some 5)] (Some ctrl_session1)
       = Some (1, session_in PKCS11_SESSION_SIGNING SKS_CKM_AES_CMAC (Some 5))
   \<and> processing (session_in PKCS11_SESSION_SIGNING SKS_CKM_AES_CMAC (Some 5))
       = signverify_state True
   \<and> rv_of (entry_signverify_update ref_env
        [1 \<mapsto> session_in PKCS11_SESSION_SIGNING SKS_CKM_AES_CMAC (Some 5)]
        (Some ctrl_session1) None None True) = Some SKS_BAD_PARAM
   \<and> operation_outcome (\<lambda>rv. False) 1
        (session_in PKCS11_SESSION_SIGNING SKS_CKM_AES_CMAC (Some 5))
        (entry_signverify_update ref_env
           [1 \<mapsto> session_in PKCS11_SESSION_SIGNING SKS_CKM_AES_CMAC (Some 5)]
           (Some ctrl_session1) None None True)
   \<and> addressed_session ref_env_short_buffer
        [1 \<mapsto> session_in PKCS11_SESSION_ENCRYPTING SKS_CKM_AES_ECB (Some 5)]
        (Some ctrl_session1)
       = Some (1, session_in PKCS11_SESSION_ENCRYPTING SKS_CKM_AES_ECB (Some 5))
   \<and> processing (session_in PKCS11_SESSION_ENCRYPTING SKS_CKM_AES_ECB (Some 5))
       = cipher_state False
   \<and> rv_of (entry_cipher_update ref_env_short_buffer
        [1 \<mapsto> session_in PKCS11_SESSION_ENCRYPTING SKS_CKM_AES_ECB (Some 5)]
        (Some ctrl_session1) (Some data16) (Some buffer16) False) = Some SKS_SHORT_BUFFER
   \<and> operation_outcome (\<lambda>rv. True) 1
        (session_in PKCS11_SESSION_ENCRYPTING SKS_CKM_AES_ECB (Some 5))
        (entry_cipher_update ref_env_short_buffer
           [1 \<mapsto> session_in PKCS11_SESSION_ENCRYPTING SKS_CKM_AES_ECB (Some 5)]
           (Some ctrl_session1) (Some data16) (Some buffer16) False)
   \<and> rv_of (entry_cipher_final ref_env_short_buffer
        [1 \<mapsto> session_in PKCS11_SESSION_ENCRYPTING SKS_CKM_AES_ECB (Some 5)]
        (Some ctrl_session1) (Some data16) (Some buffer16) False) = Some SKS_SHORT_BUFFER
   \<and> operation_outcome (\<lambda>rv. True) 1
        (session_in PKCS11_SESSION_ENCRYPTING SKS_CKM_AES_ECB (Some 5))
        (entry_cipher_final ref_env_short_buffer
           [1 \<mapsto> session_in PKCS11_SESSION_ENCRYPTING SKS_CKM_AES_ECB (Some 5)]
           (Some ctrl_session1) (Some data16) (Some buffer16) False)
   \<and> addressed_session ref_env_short_buffer
        [1 \<mapsto> session_in PKCS11_SESSION_SIGNING SKS_CKM_AES_CMAC (Some 5)] (Some ctrl_session1)
       = Some (1, session_in PKCS11_SESSION_SIGNING SKS_CKM_AES_CMAC (Some 5))
   \<and> rv_of (entry_signverify_final ref_env_short_buffer
        [1 \<mapsto> session_in PKCS11_SESSION_SIGNING SKS_CKM_AES_CMAC (Some 5)]
        (Some ctrl_session1) None (Some buffer16) True) = Some SKS_SHORT_BUFFER
   \<and> operation_outcome (\<lambda>rv. True) 1
        (session_in PKCS11_SESSION_SIGNING SKS_CKM_AES_CMAC (Some 5))
        (entry_signverify_final ref_env_short_buffer
           [1 \<mapsto> session_in PKCS11_SESSION_SIGNING SKS_CKM_AES_CMAC (Some 5)]
           (Some ctrl_session1) None (Some buffer16) True)
   \<and> init_arguments ref_env ctrl_truncated = Inl SKS_BAD_PARAM
   \<and> entry_cipher_init ref_env [1 \<mapsto> ready_session] (Some ctrl_truncated) None None False
       = Returns (SKS_BAD_PARAM, [1 \<mapsto> ready_session], None)
   \<and> entry_signverify_init ref_env [1 \<mapsto> ready_session] (Some ctrl_truncated) None None False
       = Returns (SKS_BAD_PARAM, [1 \<mapsto> ready_session], None)
   \<and> init_arguments ref_env ctrl_init1 = Inr (1, 7, ref_mechanism_params SKS_CKM_AES_ECB [])
   \<and> sks_handle2session 1 [2 \<mapsto> ready_session] = None
   \<and> entry_signverify_init ref_env [2 \<mapsto> ready_session] (Some ctrl_init1) None None False
       = Returns (SKS_CKR_SESSION_HANDLE_INVALID, [2 \<mapsto> ready_session], None)
   \<and> init_addressed_session ref_env [1 \<mapsto> ready_session] (Some ctrl_init_key9)
       = Some (1, 9, ref_mechanism_params SKS_CKM_AES_ECB [], ready_session)
   \<and> processing ready_session = PKCS11_SESSION_READY
   \<and> objects ready_session 9 = None
   \<and> proc_id ready_session = SKS_UNDEFINED_ID
   \<and> tee_op_handle ready_session = None
   \<and> entry_cipher_init ref_env [1 \<mapsto> ready_session] (Some ctrl_init_key9) None None False
       = Returns (SKS_CKR_KEY_HANDLE_INVALID, [1 \<mapsto> ready_session], None)
   \<and> entry_signverify_init ref_env [1 \<mapsto> ready_session] (Some ctrl_init_key9) None None False
       = Returns (SKS_CKR_KEY_HANDLE_INVALID, [1 \<mapsto> ready_session], None)
   \<and> state_value_kept 1 [1 \<mapsto> ready_session]
        (entry_cipher_init ref_env [1 \<mapsto> ready_session] (Some ctrl_init_key9) None None False)
   \<and> entry_import_object ref_env ref_object_env
        [1 \<mapsto> session_in PKCS11_SESSION_SIGNING SKS_CKM_AES_CMAC (Some 5)]
        (Some ctrl_session1) None None
       = Returns (SKS_BAD_PARAM,
                  [1 \<mapsto> session_in PKCS11_SESSION_SIGNING SKS_CKM_AES_CMAC (Some 5)], None)
   \<and> entry_generate_object ref_env ref_object_env
        [1 \<mapsto> session_in PKCS11_SESSION_SIGNING SKS_CKM_AES_CMAC (Some 5)]
        (Some ctrl_session1) None None
       = Returns (SKS_BAD_PARAM,
                  [1 \<mapsto> session_in PKCS11_SESSION_SIGNING SKS_CKM_AES_CMAC (Some 5)], None)
   \<and> memref_size buffer2 < 4
   \<and> entry_import_object ref_env ref_object_env
        [1 \<mapsto> session_in PKCS11_SESSION_SIGNING SKS_CKM_AES_CMAC (Some 5)]
        (Some ctrl_session1) None (Some buffer2)
       = Returns (SKS_SHORT_BUFFER,
                  [1 \<mapsto> session_in PKCS11_SESSION_SIGNING SKS_CKM_AES_CMAC (Some 5)],
                  Some (buffer2\<lparr>memref_size := 4\<rparr>))
   \<and> entry_generate_object ref_env ref_object_env
        [1 \<mapsto> session_in PKCS11_SESSION_SIGNING SKS_CKM_AES_CMAC (Some 5)]
        (Some ctrl_session1) None (Some buffer2)
       = Returns (SKS_SHORT_BUFFER,
                  [1 \<mapsto> session_in PKCS11_SESSION_SIGNING SKS_CKM_AES_CMAC (Some 5)],
                  Some (buffer2\<lparr>memref_size := 4\<rparr>))
   \<and> 4 \<le> memref_size buffer16
   \<and> out_buffer_misaligned ref_object_env_misaligned buffer16
   \<and> entry_import_object ref_env ref_object_env_misaligned [1 \<mapsto> ready_session]
        (Some ctrl_session1) None (Some buffer16)
       = Returns (SKS_BAD_PARAM, [1 \<mapsto> ready_session], Some buffer16)
   \<and> \<not> out_buffer_misaligned ref_object_env buffer16
   \<and> entry_import_object ref_env ref_object_env [1 \<mapsto> ready_session]
        (Some ctrl_truncated) None (Some buffer16)
       = Returns (SKS_BAD_PARAM, [1 \<mapsto> ready_session], Some buffer16)
   \<and> entry_generate_object ref_env ref_object_env [1 \<mapsto> ready_session]
        (Some ctrl_truncated) None (Some buffer16)
       = Returns (SKS_BAD_PARAM, [1 \<mapsto> ready_session], Some buffer16)
   \<and> entry_import_object ref_env ref_object_env [2 \<mapsto> ready_session]
        (Some ctrl_session1) None (Some buffer16)
       = Returns (SKS_CKR_SESSION_HANDLE_INVALID, [2 \<mapsto> ready_session], Some buffer16)
   \<and> entry_generate_object ref_env ref_object_env [2 \<mapsto> ready_session]
        (Some ctrl_session1) None (Some buffer16)
       = Returns (SKS_CKR_SESSION_HANDLE_INVALID, [2 \<mapsto> ready_session], Some buffer16)
   \<and> rv_of (entry_import_object ref_env ref_object_env [1 \<mapsto> ready_session]
        (Some ctrl_session1) None (Some buffer16)) = Some SKS_OK
   \<and> processing_kept 1 [1 \<mapsto> ready_session]
        (entry_import_object ref_env ref_object_env [1 \<mapsto> ready_session]
           (Some ctrl_session1) None (Some buffer16))
   \<and> processing_kept 1 [1 \<mapsto> ready_session]
        (entry_generate_object ref_env ref_object_env [1 \<mapsto> ready_session]
           (Some ctrl_session1) None (Some buffer16))"
proof -
  let ?s = "session_in PKCS11_SESSION_SIGNING SKS_CKM_AES_CMAC (Some 5)"
  let ?e = "session_in PKCS11_SESSION_ENCRYPTING SKS_CKM_AES_ECB (Some 5)"
  let ?p = "ref_mechanism_params SKS_CKM_AES_ECB []"
  note amended = caller_errors_before_and_after_state_check
  have t: "serialargs_get_u32 ref_env (serialargs_init ctrl_truncated) = Inl SKS_BAD_PARAM"
    by (simp add: ctrl_truncated_def ref_data_defs)
  have r: "serialargs_get_u32 ref_env (serialargs_init ctrl_session1) = Inr (1, [])"
    by (simp add: ref_data_defs)
  have n: "sks_handle2session 1 [2 \<mapsto> ?s] = None" "sks_handle2session 1 [2 \<mapsto> ready_session] = None"
    by (simp_all add: sks_handle2session_def)
  have a: "addressed_session ref_env [1 \<mapsto> ?s] (Some ctrl_session1) = Some (1, ?s)"
    by (simp add: addressed_session_def ref_data_defs)
  have p: "processing ?s = signverify_state True"
    by (simp add: session_in_def signverify_state_def)
  have ae: "addressed_session ref_env_short_buffer [1 \<mapsto> ?e] (Some ctrl_session1) = Some (1, ?e)"
    by (simp add: addressed_session_def ref_data_defs)
  have pe: "processing ?e = cipher_state False"
    by (simp add: session_in_def cipher_state_def)
  have asb: "addressed_session ref_env_short_buffer [1 \<mapsto> ?s] (Some ctrl_session1) = Some (1, ?s)"
    by (simp add: addressed_session_def ref_data_defs)
  have su: "rv_of (entry_cipher_update ref_env_short_buffer [1 \<mapsto> ?e] (Some ctrl_session1)
                    (Some data16) (Some buffer16) False) = Some SKS_SHORT_BUFFER"
    by (simp add: rv_of_def entry_cipher_update_def cipher_update_switch_def ref_data_defs
        check_processing_state_def Let_def param_size_def param_buffer_def)
  have sf: "rv_of (entry_cipher_final ref_env_short_buffer [1 \<mapsto> ?e] (Some ctrl_session1)
                    (Some data16) (Some buffer16) False) = Some SKS_SHORT_BUFFER"
    by (simp add: rv_of_def entry_cipher_final_def cipher_final_switch_def ref_data_defs
        check_processing_state_def Let_def param_size_def param_buffer_def)
  have sm: "rv_of (entry_signverify_final ref_env_short_buffer [1 \<mapsto> ?s] (Some ctrl_session1)
                    None (Some buffer16) True) = Some SKS_SHORT_BUFFER"
    by (simp add: rv_of_def entry_signverify_final_def signverify_final_switch_def ref_data_defs
        check_processing_state_def Let_def param_size_def signverify_mechanism_def)
  have it: "init_arguments ref_env ctrl_truncated = Inl SKS_BAD_PARAM"
    by (simp add: init_arguments_def ctrl_truncated_def ref_data_defs)
  have ia: "init_arguments ref_env ctrl_init1 = Inr (1, 7, ?p)"
    by (simp add: init_arguments_def ref_data_defs)
  have k9: "init_addressed_session ref_env [1 \<mapsto> ready_session] (Some ctrl_init_key9)
              = Some (1, 9, ?p, ready_session)"
    by (simp add: init_addressed_session_def ctrl_init_key9_def ref_data_defs)
  have rs: "processing ready_session = PKCS11_SESSION_READY" "objects ready_session 9 = None"
    "proc_id ready_session = SKS_UNDEFINED_ID" "tee_op_handle ready_session = None"
    by (simp_all add: ready_session_def session_in_def)
  have b: "memref_size buffer2 < 4" "4 \<le> memref_size buffer16"
    "out_buffer_misaligned ref_object_env_misaligned buffer16"
    "\<not> out_buffer_misaligned ref_object_env buffer16"
    by (simp_all add: ref_object_defs buffer16_def)
  have ta: "serialargs_alloc_get_attributes ref_object_env []
              = Inr (\<lparr>attrs_size = 0, attrs_count = 0, attrs = []\<rparr>, [])"
    "serialargs_alloc_get_attributes ref_object_env_misaligned []
              = Inr (\<lparr>attrs_size = 0, attrs_count = 0, attrs = []\<rparr>, [])"
    "serialargs_alloc_get_one_attribute ref_env [] = Inr (?p, [])"
    by (simp_all add: ref_object_defs ref_env_def)
  have ok: "rv_of (entry_import_object ref_env ref_object_env [1 \<mapsto> ready_session]
        (Some ctrl_session1) None (Some buffer16)) = Some SKS_OK"
    by (simp add: rv_of_def entry_import_object_def ref_object_defs ref_data_defs
        check_processing_state_def get_attribute_ptr_value_def Let_def)
  have g1: "entry_cipher_init ref_env [1 \<mapsto> ready_session] None None None False
     = Returns (SKS_BAD_PARAM, [1 \<mapsto> ready_session], None)
   \<and> entry_cipher_update ref_env [1 \<mapsto> ready_session] None None None False
     = Returns (SKS_BAD_PARAM, [1 \<mapsto> ready_session], None)
   \<and> entry_signverify_final ref_env [1 \<mapsto> ready_session] None None None False
     = Returns (SKS_BAD_PARAM, [1 \<mapsto> ready_session], None)"
    using amended[where ctrl = None and env = ref_env and st = "[1 \<mapsto> ready_session]"
        and inp = None and outp = None and flag = False and oenv = ref_object_env]
    by simp
  have g2: "entry_cipher_init ref_env [1 \<mapsto> ready_session] (Some ctrl_init1) (Some data16) None
              False
     = Returns (SKS_BAD_PARAM, [1 \<mapsto> ready_session], None)
   \<and> entry_signverify_init ref_env [1 \<mapsto> ready_session] (Some ctrl_init1) (Some data16) None
        False
     = Returns (SKS_BAD_PARAM, [1 \<mapsto> ready_session], None)"
    using amended[where ctrl = "Some ctrl_init1" and env = ref_env and st = "[1 \<mapsto> ready_session]"
        and inp = "Some data16" and outp = None and flag = False and oenv = ref_object_env]
    by simp
  have g3: "entry_cipher_update ref_env [1 \<mapsto> ?s] (Some ctrl_truncated) None None True
     = Returns (SKS_BAD_PARAM, [1 \<mapsto> ?s], None)
   \<and> entry_signverify_update ref_env [1 \<mapsto> ?s] (Some ctrl_truncated) None None True
     = Returns (SKS_BAD_PARAM, [1 \<mapsto> ?s], None)"
    using t amended[where ctrl = "Some ctrl_truncated" and env = ref_env and st = "[1 \<mapsto> ?s]"
        and inp = None and outp = None and flag = True and oenv = ref_object_env]
    by simp
  have g4: "entry_cipher_final ref_env [2 \<mapsto> ?s] (Some ctrl_session1) None None True
     = Returns (SKS_CKR_SESSION_HANDLE_INVALID, [2 \<mapsto> ?s], None)
   \<and> entry_signverify_update ref_env [2 \<mapsto> ?s] (Some ctrl_session1) None None True
     = Returns (SKS_CKR_SESSION_HANDLE_INVALID, [2 \<mapsto> ?s], None)"
    using r n amended[where ctrl = "Some ctrl_session1" and env = ref_env and st = "[2 \<mapsto> ?s]"
        and inp = None and outp = None and flag = True and oenv = ref_object_env]
    by simp
  have g5: "rv_of (entry_signverify_update ref_env [1 \<mapsto> ?s] (Some ctrl_session1) None None
                     True) = Some SKS_BAD_PARAM
   \<and> operation_outcome (\<lambda>rv. False) 1 ?s
        (entry_signverify_update ref_env [1 \<mapsto> ?s] (Some ctrl_session1) None None True)
   \<and> entry_import_object ref_env ref_object_env [1 \<mapsto> ?s] (Some ctrl_session1) None None
       = Returns (SKS_BAD_PARAM, [1 \<mapsto> ?s], None)
   \<and> entry_generate_object ref_env ref_object_env [1 \<mapsto> ?s] (Some ctrl_session1) None None
       = Returns (SKS_BAD_PARAM, [1 \<mapsto> ?s], None)"
    using a p amended[where ctrl = "Some ctrl_session1" and env = ref_env and st = "[1 \<mapsto> ?s]"
        and inp = None and outp = None and flag = True and oenv = ref_object_env]
    by simp
  have g6: "operation_outcome (\<lambda>rv. True) 1 ?e
        (entry_cipher_update ref_env_short_buffer [1 \<mapsto> ?e] (Some ctrl_session1) (Some data16)
           (Some buffer16) False)
   \<and> operation_outcome (\<lambda>rv. True) 1 ?e
        (entry_cipher_final ref_env_short_buffer [1 \<mapsto> ?e] (Some ctrl_session1) (Some data16)
           (Some buffer16) False)"
    using ae pe su sf
      amended[where ctrl = "Some ctrl_session1" and env = ref_env_short_buffer and st = "[1 \<mapsto> ?e]"
        and inp = "Some data16" and outp = "Some buffer16" and flag = False
        and oenv = ref_object_env]
    by simp
  have g7: "operation_outcome (\<lambda>rv. True) 1 ?s
        (entry_signverify_final ref_env_short_buffer [1 \<mapsto> ?s] (Some ctrl_session1) None
           (Some buffer16) True)"
    using asb p sm
      amended[where ctrl = "Some ctrl_session1" and env = ref_env_short_buffer and st = "[1 \<mapsto> ?s]"
        and inp = None and outp = "Some buffer16" and flag = True and oenv = ref_object_env]
    by simp
  have g8: "entry_cipher_init ref_env [1 \<mapsto> ready_session] (Some ctrl_truncated) None None False
       = Returns (SKS_BAD_PARAM, [1 \<mapsto> ready_session], None)
   \<and> entry_signverify_init ref_env [1 \<mapsto> ready_session] (Some ctrl_truncated) None None False
       = Returns (SKS_BAD_PARAM, [1 \<mapsto> ready_session], None)"
    using it amended[where ctrl = "Some ctrl_truncated" and env = ref_env
        and st = "[1 \<mapsto> ready_session]" and inp = None and outp = None and flag = False
        and oenv = ref_object_env]
    by simp
  have g9: "entry_signverify_init ref_env [2 \<mapsto> ready_session] (Some ctrl_init1) None None False
       = Returns (SKS_CKR_SESSION_HANDLE_INVALID, [2 \<mapsto> ready_session], None)"
    using ia n amended[where ctrl = "Some ctrl_init1" and env = ref_env
        and st = "[2 \<mapsto> ready_session]" and inp = None and outp = None and flag = False
        and oenv = ref_object_env]
    by simp
  have g10: "entry_cipher_init ref_env [1 \<mapsto> ready_session] (Some ctrl_init_key9) None None False
       = Returns (SKS_CKR_KEY_HANDLE_INVALID, [1 \<mapsto> ready_session], None)
   \<and> entry_signverify_init ref_env [1 \<mapsto> ready_session] (Some ctrl_init_key9) None None False
       = Returns (SKS_CKR_KEY_HANDLE_INVALID, [1 \<mapsto> ready_session], None)
   \<and> state_value_kept 1 [1 \<mapsto> ready_session]
        (entry_cipher_init ref_env [1 \<mapsto> ready_session] (Some ctrl_init_key9) None None False)"
    using k9 rs amended[where ctrl = "Some ctrl_init_key9" and env = ref_env
        and st = "[1 \<mapsto> ready_session]" and inp = None and outp = None and flag = False
        and oenv = ref_object_env]
    by auto
  have g11: "entry_import_object ref_env ref_object_env [1 \<mapsto> ?s] (Some ctrl_session1) None
               (Some buffer2)
       = Returns (SKS_SHORT_BUFFER, [1 \<mapsto> ?s], Some (buffer2\<lparr>memref_size := 4\<rparr>))
   \<and> entry_generate_object ref_env ref_object_env [1 \<mapsto> ?s] (Some ctrl_session1) None
               (Some buffer2)
       = Returns (SKS_SHORT_BUFFER, [1 \<mapsto> ?s], Some (buffer2\<lparr>memref_size := 4\<rparr>))"
    using b amended[where ctrl = "Some ctrl_session1" and env = ref_env and st = "[1 \<mapsto> ?s]"
        and inp = None and outp = "Some buffer2" and flag = True and oenv = ref_object_env]
    by simp
  have g12: "entry_import_object ref_env ref_object_env_misaligned [1 \<mapsto> ready_session]
        (Some ctrl_session1) None (Some buffer16)
       = Returns (SKS_BAD_PARAM, [1 \<mapsto> ready_session], Some buffer16)"
    using b amended[where ctrl = "Some ctrl_session1" and env = ref_env
        and st = "[1 \<mapsto> ready_session]" and inp = None and outp = "Some buffer16"
        and flag = True and oenv = ref_object_env_misaligned]
    by simp
  have g13: "entry_import_object ref_env ref_object_env [1 \<mapsto> ready_session]
        (Some ctrl_truncated) None (Some buffer16)
       = Returns (SKS_BAD_PARAM, [1 \<mapsto> ready_session], Some buffer16)
   \<and> entry_generate_object ref_env ref_object_env [1 \<mapsto> ready_session]
        (Some ctrl_truncated) None (Some buffer16)
       = Returns (SKS_BAD_PARAM, [1 \<mapsto> ready_session], Some buffer16)"
    using b t amended[where ctrl = "Some ctrl_truncated" and env = ref_env
        and st = "[1 \<mapsto> ready_session]" and inp = None and outp = "Some buffer16"
        and flag = True and oenv = ref_object_env]
    by simp
  have g14: "entry_import_object ref_env ref_object_env [2 \<mapsto> ready_session]
        (Some ctrl_session1) None (Some buffer16)
       = Returns (SKS_CKR_SESSION_HANDLE_INVALID, [2 \<mapsto> ready_session], Some buffer16)
   \<and> entry_generate_object ref_env ref_object_env [2 \<mapsto> ready_session]
        (Some ctrl_session1) None (Some buffer16)
       = Returns (SKS_CKR_SESSION_HANDLE_INVALID, [2 \<mapsto> ready_session], Some buffer16)"
    using b r n ta amended[where ctrl = "Some ctrl_session1" and env = ref_env
        and st = "[2 \<mapsto> ready_session]" and inp = None and outp = "Some buffer16"
        and flag = True and oenv = ref_object_env]
    by simp
  have g15: "processing_kept 1 [1 \<mapsto> ready_session]
        (entry_import_object ref_env ref_object_env [1 \<mapsto> ready_session]
           (Some ctrl_session1) None (Some buffer16))
   \<and> processing_kept 1 [1 \<mapsto> ready_session]
        (entry_generate_object ref_env ref_object_env [1 \<mapsto> ready_session]
           (Some ctrl_session1) None (Some buffer16))"
    using amended[where ctrl = "Some ctrl_session1" and env = ref_env
        and st = "[1 \<mapsto> ready_session]" and inp = None and outp = "Some buffer16"
        and flag = True and oenv = ref_object_env]
    by simp
  show ?thesis
    using t r n a p ae pe asb su sf sm it ia k9 rs b ok
      g1 g2 g3 g4 g5 g6 g7 g8 g9 g10 g11 g12 g13 g14 g15
    by blast
qed

subsection \<open>Input to a cipher final\<close>

text \<open>
  Claim C8 fails on the code: a final on an active \<^verbatim>\<open>AES_ECB\<close> encryption with 16 bytes
  of input is not rejected; the input goes to \<^verbatim>\<open>TEE_CipherDoFinal\<close> and the call returns
  \<^verbatim>\<open>SKS_OK\<close>.
\<close>

theorem final_with_input_counterexample:
  "param_size (Some data16) \<noteq> 0
   \<and> entry_cipher_final ref_env
        [1 \<mapsto> session_in PKCS11_SESSION_ENCRYPTING SKS_CKM_AES_ECB (Some 5)]
        (Some ctrl_session1) (Some data16) (Some buffer16) False
      = Returns (SKS_OK, [1 \<mapsto> session_in PKCS11_SESSION_READY SKS_UNDEFINED_ID None],
                 Some (buffer16\<lparr>memref_size := 0\<rparr>))"
  by (simp add: entry_cipher_final_def cipher_final_switch_def ref_data_defs data16_def
      check_processing_state_def release_and_return_eq ae_mechanism_def Let_def
      param_size_def param_buffer_def store_buffer_def store_size_def)

text \<open>
  Claim C8 as amended. On a cipher final made on the active operation: for CCM and GCM a
  non-empty input is rejected with \<^verbatim>\<open>SKS_BAD_PARAM\<close> and the operation is released; for
  every other mechanism the input is not looked at but handed to \<^verbatim>\<open>TEE_CipherDoFinal\<close>,
  and the call returns the translation of the provider's result (\<^verbatim>\<open>SKS_BAD_PARAM\<close> in
  place of \<^verbatim>\<open>SKS_SHORT_BUFFER\<close> when there is no output parameter).
\<close>

theorem final_rejects_input_for_ccm_gcm_only:
  assumes "addressed_session env st ctrl = Some (h, session)"
    and "processing session = cipher_state decrypt"
  shows "((proc_id session = SKS_CKM_AES_CCM \<or> proc_id session = SKS_CKM_AES_GCM)
            \<and> param_size inp \<noteq> 0 \<longrightarrow>
            rv_of (entry_cipher_final env st ctrl inp outp decrypt) = Some SKS_BAD_PARAM
          \<and> operation_outcome (\<lambda>rv. False) h session
              (entry_cipher_final env st ctrl inp outp decrypt))
       \<and> (proc_id session \<noteq> SKS_CKM_AES_CCM \<and> proc_id session \<noteq> SKS_CKM_AES_GCM \<longrightarrow>
            rv_of (entry_cipher_final env st ctrl inp outp decrypt)
              = Some (let rv0 = tee2sks_error env
                                  (fst (TEE_CipherDoFinal env (tee_op_handle session)
                                          (param_buffer inp) (unat (param_size inp))
                                          (param_buffer outp) (param_size outp)))
                      in if outp = None \<and> rv0 = SKS_SHORT_BUFFER then SKS_BAD_PARAM else rv0))"
proof -
  from assms(1) obtain c rest where c: "ctrl = Some c"
    "serialargs_get_u32 env (serialargs_init c) = Inr (h, rest)"
    "sks_handle2session h st = Some session"
    by (rule addressed_sessionD)
  have ae: "rv_of (entry_cipher_final env st ctrl inp outp decrypt) = Some SKS_BAD_PARAM
          \<and> operation_outcome (\<lambda>rv. False) h session
              (entry_cipher_final env st ctrl inp outp decrypt)"
    if "proc_id session = SKS_CKM_AES_CCM \<or> proc_id session = SKS_CKM_AES_GCM"
      and "param_size inp \<noteq> 0"
  proof -
    have "unat (param_size inp) \<noteq> 0" using that(2) by (simp add: unat_eq_0)
    then have sw: "cipher_final_switch env session inp outp decrypt
                = (SKS_BAD_PARAM, session, outp, param_size outp)"
      using that(1) by (auto simp add: cipher_final_switch_def Let_def)
    show ?thesis
      using c assms(2) sw
      by (simp add: entry_cipher_final_def entry_prologue_defs release_and_return_eq rv_of_def
          operation_outcome_def operation_released_def Let_def)
  qed
  have other: "rv_of (entry_cipher_final env st ctrl inp outp decrypt)
              = Some (let rv0 = tee2sks_error env
                                  (fst (TEE_CipherDoFinal env (tee_op_handle session)
                                          (param_buffer inp) (unat (param_size inp))
                                          (param_buffer outp) (param_size outp)))
                      in if outp = None \<and> rv0 = SKS_SHORT_BUFFER then SKS_BAD_PARAM else rv0)"
    if "proc_id session \<noteq> SKS_CKM_AES_CCM" "proc_id session \<noteq> SKS_CKM_AES_GCM"
  proof -
    obtain res bytes n where p: "TEE_CipherDoFinal env (tee_op_handle session)
        (param_buffer inp) (unat (param_size inp)) (param_buffer outp) (param_size outp)
        = (res, bytes, n)"
      by (cases "TEE_CipherDoFinal env (tee_op_handle session)
        (param_buffer inp) (unat (param_size inp)) (param_buffer outp) (param_size outp)") auto
    have sw: "cipher_final_switch env session inp outp decrypt
                = (tee2sks_error env res, session, store_buffer outp bytes, n)"
      using that p by (simp add: cipher_final_switch_def Let_def)
    show ?thesis
      using c assms(2) sw p
      by (simp add: entry_cipher_final_def entry_prologue_defs release_and_return_eq rv_of_def
          Let_def)
  qed
  show ?thesis using ae other by blast
qed

theorem final_rejects_input_for_ccm_gcm_only_witness:
  "addressed_session ref_env
      [1 \<mapsto> session_in PKCS11_SESSION_ENCRYPTING SKS_CKM_AES_GCM (Some 5)] (Some ctrl_session1)
     = Some (1, session_in PKCS11_SESSION_ENCRYPTING SKS_CKM_AES_GCM (Some 5))
   \<and> processing (session_in PKCS11_SESSION_ENCRYPTING SKS_CKM_AES_GCM (Some 5))
       = cipher_state False
   \<and> proc_id (session_in PKCS11_SESSION_ENCRYPTING SKS_CKM_AES_GCM (Some 5)) = SKS_CKM_AES_GCM
   \<and> param_size (Some data16) \<noteq> 0
   \<and> rv_of (entry_cipher_final ref_env
        [1 \<mapsto> session_in PKCS11_SESSION_ENCRYPTING SKS_CKM_AES_GCM (Some 5)]
        (Some ctrl_session1) (Some data16) (Some buffer16) False) = Some SKS_BAD_PARAM
   \<and> operation_outcome (\<lambda>rv. False) 1
        (session_in PKCS11_SESSION_ENCRYPTING SKS_CKM_AES_GCM (Some 5))
        (entry_cipher_final ref_env
           [1 \<mapsto> session_in PKCS11_SESSION_ENCRYPTING SKS_CKM_AES_GCM (Some 5)]
           (Some ctrl_session1) (Some data16) (Some buffer16) False)
   \<and> addressed_session ref_env
      [1 \<mapsto> session_in PKCS11_SESSION_ENCRYPTING SKS_CKM_AES_CTR (Some 5)] (Some ctrl_session1)
     = Some (1, session_in PKCS11_SESSION_ENCRYPTING SKS_CKM_AES_CTR (Some 5))
   \<and> processing (session_in PKCS11_SESSION_ENCRYPTING SKS_CKM_AES_CTR (Some 5))
       = cipher_state False
   \<and> proc_id (session_in PKCS11_SESSION_ENCRYPTING SKS_CKM_AES_CTR (Some 5)) \<noteq> SKS_CKM_AES_CCM
   \<and> proc_id (session_in PKCS11_SESSION_ENCRYPTING SKS_CKM_AES_CTR (Some 5)) \<noteq> SKS_CKM_AES_GCM
   \<and> rv_of (entry_cipher_final ref_env
        [1 \<mapsto> session_in PKCS11_SESSION_ENCRYPTING SKS_CKM_AES_CTR (Some 5)]
        (Some ctrl_session1) (Some data16) (Some buffer16) False) = Some SKS_OK"
proof -
  let ?g = "session_in PKCS11_SESSION_ENCRYPTING SKS_CKM_AES_GCM (Some 5)"
  let ?c = "session_in PKCS11_SESSION_ENCRYPTING SKS_CKM_AES_CTR (Some 5)"
  have a1: "addressed_session ref_env [1 \<mapsto> ?g] (Some ctrl_session1) = Some (1, ?g)"
    by (simp add: addressed_session_def ref_data_defs)
  have a2: "addressed_session ref_env [1 \<mapsto> ?c] (Some ctrl_session1) = Some (1, ?c)"
    by (simp add: addressed_session_def ref_data_defs)
  have p1: "processing ?g = cipher_state False"
    by (simp add: session_in_def cipher_state_def)
  have p2: "processing ?c = cipher_state False"
    by (simp add: session_in_def cipher_state_def)
  have m: "proc_id ?g = SKS_CKM_AES_GCM" "proc_id ?c \<noteq> SKS_CKM_AES_CCM"
    "proc_id ?c \<noteq> SKS_CKM_AES_GCM" "param_size (Some data16) \<noteq> 0"
    by (simp_all add: session_in_def param_size_def data16_def)
  have v: "tee2sks_error ref_env
             (fst (TEE_CipherDoFinal ref_env (tee_op_handle ?c) (param_buffer (Some data16))
                     (unat (param_size (Some data16))) (param_buffer (Some buffer16))
                     (param_size (Some buffer16)))) = SKS_OK"
    by (simp add: ref_data_defs)
  show ?thesis
    using a1 a2 p1 p2 m v
      final_rejects_input_for_ccm_gcm_only[OF a1 p1, of "Some data16" "Some buffer16"]
      final_rejects_input_for_ccm_gcm_only[OF a2 p2, of "Some data16" "Some buffer16"]
    by (simp add: Let_def)
qed

subsection \<open>Contract violations\<close>

text \<open>
  Claim C9 fails on the code: the class lookup on a blob without a \<^verbatim>\<open>CLASS\<close> attribute
  gives \<^verbatim>\<open>SKS_UNDEFINED_ID\<close>, and a cipher init on such a key returns \<^verbatim>\<open>SKS_FAILED\<close> to
  the caller, with the session back in READY: nothing aborts.
\<close>

theorem class_lookup_counterexample:
  "cka_class (attributes classless_key) = None
   \<and> get_class (attributes classless_key) = SKS_CKO_UNDEFINED_ID
   \<and> entry_cipher_init ref_env
        [1 \<mapsto> session_holding classless_key PKCS11_SESSION_READY SKS_UNDEFINED_ID None]
        (Some ctrl_init1) None None False
      = Returns (SKS_FAILED,
          [1 \<mapsto> session_holding classless_key PKCS11_SESSION_READY SKS_UNDEFINED_ID None], None)"
  by (simp add: entry_cipher_init_def cipher_init_session_def tee_operarion_params_def
      tee_operation_select_def get_class_def get_attribute_class_def get_attribute_key_type_def
      get_attribute_ptr_value_def classless_key_def session_holding_def ref_data_defs
      check_processing_state_def set_processing_state_def sks_handle2object_def
      release_and_return_eq ae_mechanism_def Let_def)

text \<open>
  Claim C9 as amended. \<^verbatim>\<open>get_bool\<close> on an attribute id with no bit in the boolean
  bitfield (a negative shift) panics. \<^verbatim>\<open>tee_operarion_params\<close>, once it has selected the
  provider algorithm, panics when the session already holds an operation handle. The
  class lookup on a blob without a \<^verbatim>\<open>CLASS\<close> attribute does not abort: \<^verbatim>\<open>get_class\<close>
  returns \<^verbatim>\<open>SKS_UNDEFINED_ID\<close>, and a cipher init that has allocated its operation then
  returns \<^verbatim>\<open>SKS_FAILED\<close> and releases the session.
\<close>

theorem contract_violations:
  "(sks_attr2boolprop_shift env attribute < 0 \<longrightarrow> get_bool env head attribute = Panic)
   \<and> (cka_value (attributes sks_key) = Some v \<and> cka_key_type (attributes sks_key) = Some kt
        \<and> tee_operation_select kt func (attr_id params) (of_nat (length v) * 8) = Inr sel
        \<and> tee_op_handle session \<noteq> None \<longrightarrow>
      tee_operarion_params env session params sks_key func = Panic)
   \<and> (cka_class head = None \<longrightarrow> get_class head = SKS_CKO_UNDEFINED_ID)
   \<and> (init_addressed_session env st ctrl = Some (h, k, params, session)
        \<and> processing session = PKCS11_SESSION_READY \<and> objects session k = Some obj
        \<and> policy_accepts env session params obj decrypt
        \<and> tee_operarion_params env (session\<lparr>processing := cipher_state decrypt\<rparr>) params obj
             (cipher_function decrypt) = Returns (SKS_OK, s2)
        \<and> cka_class (attributes obj) = None \<longrightarrow>
      rv_of (entry_cipher_init env st ctrl None None decrypt) = Some SKS_FAILED
      \<and> operation_outcome (\<lambda>rv. False) h session
          (entry_cipher_init env st ctrl None None decrypt))"
proof (intro conjI impI)
  assume "sks_attr2boolprop_shift env attribute < 0"
  then show "get_bool env head attribute = Panic"
    by (simp add: get_bool_def)
next
  assume "cka_value (attributes sks_key) = Some v \<and> cka_key_type (attributes sks_key) = Some kt
        \<and> tee_operation_select kt func (attr_id params) (of_nat (length v) * 8) = Inr sel
        \<and> tee_op_handle session \<noteq> None"
  then show "tee_operarion_params env session params sks_key func = Panic"
    by (cases sel)
       (auto simp add: tee_operarion_params_def get_attribute_ptr_value_def
          get_attribute_key_type_def)
next
  assume "cka_class head = None"
  then show "get_class head = SKS_CKO_UNDEFINED_ID"
    by (simp add: get_class_def get_attribute_class_def)
next
  assume a: "init_addressed_session env st ctrl = Some (h, k, params, session)
        \<and> processing session = PKCS11_SESSION_READY \<and> objects session k = Some obj
        \<and> policy_accepts env session params obj decrypt
        \<and> tee_operarion_params env (session\<lparr>processing := cipher_state decrypt\<rparr>) params obj
             (cipher_function decrypt) = Returns (SKS_OK, s2)
        \<and> cka_class (attributes obj) = None"
  then have top: "tee_operarion_params env (session\<lparr>processing := cipher_state decrypt\<rparr>)
      params obj (cipher_function decrypt) = Returns (SKS_OK, s2)" by blast
  note fr = tee_operarion_params_frame[OF top]
  have cl: "get_class (attributes obj) \<noteq> SKS_CKO_SECRET_KEY"
    using a by (simp add: get_class_def get_attribute_class_def)
  have "cipher_init_session env session k params decrypt = Returns (SKS_FAILED, s2)"
    using a cl top
    by (simp add: cipher_init_session_to_allocation)
  from entry_cipher_init_released[OF _ this] a fr
  have "rv_of (entry_cipher_init env st ctrl None None decrypt) = Some SKS_FAILED
      \<and> operation_outcome (\<lambda>rv. False) h session
          (entry_cipher_init env st ctrl None None decrypt)"
    by simp
  then show "rv_of (entry_cipher_init env st ctrl None None decrypt) = Some SKS_FAILED"
    and "operation_outcome (\<lambda>rv. False) h session
          (entry_cipher_init env st ctrl None None decrypt)"
    by simp_all
qed

theorem contract_violations_witness:
  "sks_attr2boolprop_shift ref_env 100 < 0
   \<and> get_bool ref_env aes_key_attrs 100 = Panic
   \<and> cka_value (attributes aes_key) = Some (replicate 16 0)
   \<and> cka_key_type (attributes aes_key) = Some SKS_CKK_AES
   \<and> tee_operation_select SKS_CKK_AES SKS_FUNCTION_ENCRYPT
        (attr_id (ref_mechanism_params SKS_CKM_AES_ECB []))
        (of_nat (length (replicate 16 (0::u8))) * 8)
       = Inr (TEE_ALG_AES_ECB_NOPAD, TEE_MODE_ENCRYPT, 128)
   \<and> tee_op_handle (session_in PKCS11_SESSION_ENCRYPTING SKS_CKM_AES_ECB (Some 5)) \<noteq> None
   \<and> tee_operarion_params ref_env (session_in PKCS11_SESSION_ENCRYPTING SKS_CKM_AES_ECB (Some 5))
        (ref_mechanism_params SKS_CKM_AES_ECB []) aes_key SKS_FUNCTION_ENCRYPT = Panic
   \<and> cka_class (attributes classless_key) = None
   \<and> get_class (attributes classless_key) = SKS_CKO_UNDEFINED_ID
   \<and> init_addressed_session ref_env
        [1 \<mapsto> session_holding classless_key PKCS11_SESSION_READY SKS_UNDEFINED_ID None]
        (Some ctrl_init1)
       = Some (1, 7, ref_mechanism_params SKS_CKM_AES_ECB [],
               session_holding classless_key PKCS11_SESSION_READY SKS_UNDEFINED_ID None)
   \<and> policy_accepts ref_env
        (session_holding classless_key PKCS11_SESSION_READY SKS_UNDEFINED_ID None)
        (ref_mechanism_params SKS_CKM_AES_ECB []) classless_key False
   \<and> tee_operarion_params ref_env
        ((session_holding classless_key PKCS11_SESSION_READY SKS_UNDEFINED_ID None)
           \<lparr>processing := cipher_state False\<rparr>)
        (ref_mechanism_params SKS_CKM_AES_ECB []) classless_key (cipher_function False)
       = Returns (SKS_OK,
           session_holding classless_key PKCS11_SESSION_ENCRYPTING SKS_UNDEFINED_ID (Some 1))
   \<and> rv_of (entry_cipher_init ref_env
        [1 \<mapsto> session_holding classless_key PKCS11_SESSION_READY SKS_UNDEFINED_ID None]
        (Some ctrl_init1) None None False) = Some SKS_FAILED
   \<and> operation_outcome (\<lambda>rv. False) 1
        (session_holding classless_key PKCS11_SESSION_READY SKS_UNDEFINED_ID None)
        (entry_cipher_init ref_env
           [1 \<mapsto> session_holding classless_key PKCS11_SESSION_READY SKS_UNDEFINED_ID None]
           (Some ctrl_init1) None None False)"
proof -
  let ?r = "session_holding classless_key PKCS11_SESSION_READY SKS_UNDEFINED_ID None"
  let ?e = "session_in PKCS11_SESSION_ENCRYPTING SKS_CKM_AES_ECB (Some 5)"
  let ?p = "ref_mechanism_params SKS_CKM_AES_ECB []"
  have b: "sks_attr2boolprop_shift ref_env 100 < 0"
    by (simp add: ref_env_def)
  have k: "cka_value (attributes aes_key) = Some (replicate 16 0)
           \<and> cka_key_type (attributes aes_key) = Some SKS_CKK_AES
           \<and> tee_operation_select SKS_CKK_AES SKS_FUNCTION_ENCRYPT (attr_id ?p)
                (of_nat (length (replicate 16 (0::u8))) * 8)
               = Inr (TEE_ALG_AES_ECB_NOPAD, TEE_MODE_ENCRYPT, 128)
           \<and> tee_op_handle ?e \<noteq> None"
    by (simp add: aes_key_def aes_key_attrs_def tee_operation_select_def
        ref_mechanism_params_def session_in_def)
  have c: "cka_class (attributes classless_key) = None"
    by (simp add: classless_key_def)
  have a: "init_addressed_session ref_env [1 \<mapsto> ?r] (Some ctrl_init1) = Some (1, 7, ?p, ?r)"
    by (simp add: init_addressed_session_def ref_data_defs)
  have q: "processing ?r = PKCS11_SESSION_READY \<and> objects ?r 7 = Some classless_key
           \<and> policy_accepts ref_env ?r ?p classless_key False"
    by (simp add: session_holding_def policy_accepts_def ref_env_def)
  have t: "tee_operarion_params ref_env (?r\<lparr>processing := cipher_state False\<rparr>) ?p classless_key
             (cipher_function False)
           = Returns (SKS_OK,
               session_holding classless_key PKCS11_SESSION_ENCRYPTING SKS_UNDEFINED_ID (Some 1))"
    by (simp add: tee_operarion_params_def tee_operation_select_def get_attribute_ptr_value_def
        get_attribute_key_type_def classless_key_def session_holding_def cipher_state_def
        cipher_function_def ref_data_defs)
  show ?thesis
    using b k c a q t
      contract_violations[where env = ref_env and attribute = 100
        and head = "attributes classless_key" and sks_key = aes_key and v = "replicate 16 0"
        and kt = SKS_CKK_AES and func = SKS_FUNCTION_ENCRYPT and params = ?p
        and sel = "(TEE_ALG_AES_ECB_NOPAD, TEE_MODE_ENCRYPT, 128)" and session = ?e]
      contract_violations[where env = ref_env and attribute = 100
        and head = aes_key_attrs and params = ?p and session = ?r and st = "[1 \<mapsto> ?r]"
        and ctrl = "Some ctrl_init1" and h = 1 and k = 7 and obj = classless_key
        and decrypt = False
        and ?s2.0 = "session_holding classless_key PKCS11_SESSION_ENCRYPTING SKS_UNDEFINED_ID
                       (Some 1)"]
    by simp
qed

end
